theory Spec2Isabelle
  imports Complex_Main "HOL-Library.Word"
begin

section \<open>Go values\<close>

text \<open>
  A Go \<^verbatim>\<open>string\<close> is a sequence of bytes, here a \<^typ>\<open>string\<close>. A Go \<^verbatim>\<open>int\<close> is a
  64-bit two's complement integer (the usual \<^verbatim>\<open>GOARCH\<close>), read with \<^const>\<open>sint\<close>.
  A slice is \<open>None\<close> when it is \<^verbatim>\<open>nil\<close> and \<open>Some xs\<close> otherwise, so that the empty
  non-nil slice \<open>Some []\<close> stays apart from \<^verbatim>\<open>nil\<close>.
\<close>

type_synonym goint = "64 word"

text \<open>
  A \<^verbatim>\<open>float32\<close> is a finite value, given by the rational number it denotes, an infinity
  or a NaN. The sign of zero is not kept.
\<close>

datatype float32 = F32 rat | PosInf | NegInf | NaN

subsection \<open>UTF-8, as package \<^verbatim>\<open>unicode/utf8\<close> reads it\<close>

definition contByte :: "char \<Rightarrow> bool" where
  "contByte c \<longleftrightarrow> (0x80::int) \<le> of_char c \<and> of_char c \<le> (0xBF::int)"

text \<open>
  \<open>runeLen s\<close> is the width of the well-formed UTF-8 sequence at the head of \<open>s\<close>, and
  \<open>0\<close> when there is none (where \<^verbatim>\<open>utf8.DecodeRuneInString\<close> returns \<^verbatim>\<open>RuneError\<close>).
  The ranges of the second byte are those of the table \<^verbatim>\<open>acceptRanges\<close>.
\<close>

fun runeLen :: "string \<Rightarrow> nat" where
  "runeLen [] = 0"
| "runeLen (c # cs) = (let b = (of_char c :: int) in
     if b < 0x80 then 1
     else if 0xC2 \<le> b \<and> b \<le> 0xDF then
       (case cs of c1 # _ \<Rightarrow> if contByte c1 then 2 else 0 | _ \<Rightarrow> 0)
     else if 0xE0 \<le> b \<and> b \<le> 0xEF then
       (case cs of c1 # c2 # _ \<Rightarrow>
          if (if b = 0xE0 then 0xA0 else 0x80) \<le> (of_char c1 :: int)
             \<and> (of_char c1 :: int) \<le> (if b = 0xED then 0x9F else 0xBF) \<and> contByte c2
          then 3 else 0
        | _ \<Rightarrow> 0)
     else if 0xF0 \<le> b \<and> b \<le> 0xF4 then
       (case cs of c1 # c2 # c3 # _ \<Rightarrow>
          if (if b = 0xF0 then 0x90 else 0x80) \<le> (of_char c1 :: int)
             \<and> (of_char c1 :: int) \<le> (if b = 0xF4 then 0x8F else 0xBF)
             \<and> contByte c2 \<and> contByte c3
          then 4 else 0
        | _ \<Rightarrow> 0)
     else 0)"

text \<open>\<^verbatim>\<open>utf8.ValidString\<close>.\<close>

function validString :: "string \<Rightarrow> bool" where
  "validString [] = True"
| "validString (c # cs) =
     (if runeLen (c # cs) = 0 then False else validString (drop (runeLen (c # cs)) (c # cs)))"
  by pat_completeness auto
termination
  by (relation "measure length") auto

text \<open>The bytes of U+FFFD, the replacement character.\<close>

definition replacementChar :: string where
  "replacementChar = [CHR 0xEF, CHR 0xBF, CHR 0xBD]"

text \<open>
  The content of the JSON string that the encoder writes for a Go string: every byte that
  starts no well-formed sequence becomes U+FFFD, everything else is kept (the loop of
  \<^verbatim>\<open>appendString\<close>; its escapes denote the characters they escape).
\<close>

function toValidUTF8 :: "string \<Rightarrow> string" where
  "toValidUTF8 [] = []"
| "toValidUTF8 (c # cs) =
     (if runeLen (c # cs) = 0 then replacementChar @ toValidUTF8 cs
      else take (runeLen (c # cs)) (c # cs) @ toValidUTF8 (drop (runeLen (c # cs)) (c # cs)))"
  by pat_completeness auto
termination
  by (relation "measure length") auto

section \<open>JSON documents\<close>

text \<open>
  A number is a literal written as an integer (no fraction, no exponent), or a literal
  with a fraction or an exponent: \<open>DecLit m e\<close> is the literal of value \<open>m * 10 ^ e\<close>, so
  that \<^verbatim>\<open>35.14326\<close> is \<open>DecLit 3514326 (- 5)\<close>.
\<close>

datatype number = IntLit int | DecLit int int

datatype json =
    JNull
  | JBool bool
  | JNumber number
  | JString string
  | JArray "json list"
  | JObject "(string \<times> json) list"

datatype jsonError =
    SyntaxError
  | UnmarshalTypeError string string
  | UnsupportedValueError

text \<open>
  A byte sequence is the text of a JSON document or some other text; \<open>ErrorText s err\<close> is
  the text \<open>s\<close> followed by the message of the error \<open>err\<close>, for an \<open>s\<close> that starts no
  JSON document. The scanner of \<^verbatim>\<open>encoding/json\<close>, which tells a JSON text from any other,
  is not part of this development.
\<close>

datatype bytes = JSONText json | OtherText string | ErrorText string jsonError

text \<open>The \<^verbatim>\<open>Value\<close> field of an \<^verbatim>\<open>UnmarshalTypeError\<close>.\<close>

fun valueKind :: "json \<Rightarrow> string" where
  "valueKind JNull = ''null''"
| "valueKind (JBool _) = ''bool''"
| "valueKind (JNumber _) = ''number''"
| "valueKind (JString _) = ''string''"
| "valueKind (JArray _) = ''array''"
| "valueKind (JObject _) = ''object''"

section \<open>Struct tags and field names\<close>

text \<open>
  A struct field as reflection sees it: the name of the field and the text of its tag, both
  as they stand in the source.
\<close>

record structField =
  goName :: string
  tag :: string

subsection \<open>\<^verbatim>\<open>reflect.StructTag.Lookup\<close>\<close>

text \<open>
  A tag is a sequence of \<^verbatim>\<open>key:"value"\<close> pairs, separated by spaces. The key ends at the
  colon, and the byte after the colon has to be the opening quote: otherwise the scan of the
  tag stops and no key is found.
\<close>

definition keyChar :: "char \<Rightarrow> bool" where
  "keyChar c \<longleftrightarrow> (0x20::int) < of_char c \<and> c \<noteq> CHR '':'' \<and> c \<noteq> CHR 0x22
     \<and> c \<noteq> CHR 0x7F"

text \<open>
  The quoted value, read from behind its opening quote: the text up to the closing quote
  (a backslash hides the byte that follows it) and the rest of the tag.
\<close>

fun scanQuoted :: "string \<Rightarrow> (string \<times> string) option" where
  "scanQuoted [] = None"
| "scanQuoted (c # cs) =
     (if c = CHR 0x22 then Some ([], cs)
      else if c = CHR 0x5C then
        (case cs of [] \<Rightarrow> None
         | d # ds \<Rightarrow> map_option (\<lambda>(v, r). (c # d # v, r)) (scanQuoted ds))
      else map_option (\<lambda>(v, r). (c # v, r)) (scanQuoted cs))"

text \<open>
  \<^verbatim>\<open>strconv.Unquote\<close> of the quoted value. Escape sequences are not interpreted here: a
  value with a backslash or a line feed counts as one that does not unquote.
\<close>

definition unquote :: "string \<Rightarrow> string option" where
  "unquote v = (if CHR 0x5C \<in> set v \<or> CHR 0x0A \<in> set v then None else Some v)"

lemma scanQuoted_snd: "scanQuoted s = Some p \<Longrightarrow> length (snd p) < length s"
proof (induction s arbitrary: p rule: scanQuoted.induct)
  case 1
  then show ?case by simp
next
  case (2 c cs)
  then show ?case
    by (fastforce split: if_splits list.splits)
qed

lemma scanQuoted_length: "scanQuoted s = Some (v, r) \<Longrightarrow> length r < length s"
  using scanQuoted_snd [of s "(v, r)"] by simp

function tagLookup :: "string \<Rightarrow> string \<Rightarrow> string option" where
  "tagLookup t key =
     (case dropWhile (\<lambda>c. c = CHR '' '') t of
        [] \<Rightarrow> None
      | c # cs \<Rightarrow>
         (if takeWhile keyChar (c # cs) = [] then None
          else (case dropWhile keyChar (c # cs) of
             colon # quote # rest \<Rightarrow>
               (if colon = CHR '':'' \<and> quote = CHR 0x22 then
                  (case scanQuoted rest of
                     None \<Rightarrow> None
                   | Some (v, rest') \<Rightarrow>
                       if key = takeWhile keyChar (c # cs) then unquote v
                       else tagLookup rest' key)
                else None)
           | _ \<Rightarrow> None)))"
  by pat_completeness auto
termination
proof (relation "measure (\<lambda>(t, key). length t)", goal_cases)
  case 1
  then show ?case by simp
next
  case (2 t key c cs colon qs quote rest x v rest')
  have "length rest' < length rest"
    using 2 scanQuoted_length by auto
  moreover have "length (dropWhile keyChar (c # cs)) \<le> length (c # cs)"
    by (rule length_dropWhile_le)
  moreover have "length (dropWhile (\<lambda>c. c = CHR '' '') t) \<le> length t"
    by (rule length_dropWhile_le)
  ultimately show ?case using 2 by auto
qed

text \<open>\<^verbatim>\<open>StructTag.Get\<close>: the empty string when the key is not found.\<close>

definition tagGet :: "string \<Rightarrow> string \<Rightarrow> string" where
  "tagGet t key = (case tagLookup t key of None \<Rightarrow> [] | Some v \<Rightarrow> v)"

subsection \<open>The fields \<^verbatim>\<open>encoding/json\<close> sees (\<^verbatim>\<open>typeFields\<close>)\<close>

text \<open>A field is exported when its name starts with an upper-case letter.\<close>

definition isExported :: "string \<Rightarrow> bool" where
  "isExported n = (case n of [] \<Rightarrow> False
     | c # _ \<Rightarrow> List.member ''ABCDEFGHIJKLMNOPQRSTUVWXYZ'' c)"

definition isLetterOrDigit :: "char \<Rightarrow> bool" where
  "isLetterOrDigit c \<longleftrightarrow> (let b = (of_char c :: int) in
     (0x30 \<le> b \<and> b \<le> 0x39) \<or> (0x41 \<le> b \<and> b \<le> 0x5A) \<or> (0x61 \<le> b \<and> b \<le> 0x7A))"

text \<open>\<^verbatim>\<open>isValidTag\<close>, on ASCII names.\<close>

definition isValidTag :: "string \<Rightarrow> bool" where
  "isValidTag s \<longleftrightarrow> s \<noteq> [] \<and>
     list_all (\<lambda>c. List.member ''!#$%&()*+-./:;<=>?@[]^_{|}~ '' c \<or> isLetterOrDigit c) s"

text \<open>
  The name a field has in JSON, and whether the name comes from the tag; \<open>None\<close> for a
  field the package leaves out (unexported, or tagged \<^verbatim>\<open>"-"\<close>). What follows the first
  comma of the tag value (its options) is not interpreted here.
\<close>

definition jsonName :: "structField \<Rightarrow> (string \<times> bool) option" where
  "jsonName f =
     (if \<not> isExported (goName f) then None
      else let t = tagGet (tag f) ''json'' in
        if t = ''-'' then None
        else let name = takeWhile (\<lambda>c. c \<noteq> CHR '','') t in
          if isValidTag name then Some (name, True) else Some (goName f, False))"

definition candidates :: "structField list \<Rightarrow> (nat \<times> string \<times> bool) list" where
  "candidates fs =
     List.map_filter (\<lambda>(i, f). map_option (\<lambda>(n, t). (i, n, t)) (jsonName f)) (enumerate 0 fs)"

text \<open>
  Among the fields of one struct that share a JSON name, the only tagged one wins; when
  there is no such field, all of them are dropped.
\<close>

definition dominant :: "(nat \<times> string \<times> bool) list \<Rightarrow> nat \<times> string \<times> bool \<Rightarrow> bool" where
  "dominant cs c = (case c of (i, n, t) \<Rightarrow>
     (let same = filter (\<lambda>(_, n', _). n' = n) cs in
      length same = 1 \<or> (t \<and> length (filter (\<lambda>(_, _, t'). t') same) = 1)))"

text \<open>The fields of a struct in the order of their declaration: position and JSON name.\<close>

definition typeFields :: "structField list \<Rightarrow> (nat \<times> string) list" where
  "typeFields fs =
     map (\<lambda>(i, n, _). (i, n)) (filter (dominant (candidates fs)) (candidates fs))"

subsection \<open>Matching the key of an object to a field\<close>

definition lower :: "char \<Rightarrow> char" where
  "lower c =
     (case map_of (zip ''ABCDEFGHIJKLMNOPQRSTUVWXYZ'' ''abcdefghijklmnopqrstuvwxyz'') c of
        Some d \<Rightarrow> d
      | None \<Rightarrow> c)"

text \<open>
  Equality under Unicode simple case folding, for a field name of ASCII characters (every
  name of the program is one): a letter matches itself in either case, \<^verbatim>\<open>s\<close> also matches
  U+017F and \<^verbatim>\<open>k\<close> also matches U+212A, every other byte matches itself only.
\<close>

fun equalFold :: "string \<Rightarrow> string \<Rightarrow> bool" where
  "equalFold [] key = (key = [])"
| "equalFold (c # cs) key =
     (if lower c = CHR ''s'' \<and> take 2 key = [CHR 0xC5, CHR 0xBF]
      then equalFold cs (drop 2 key)
      else if lower c = CHR ''k''
        \<and> take 3 key = [CHR 0xE2, CHR 0x84, CHR 0xAA]
      then equalFold cs (drop 3 key)
      else (case key of
              [] \<Rightarrow> False
            | d # ds \<Rightarrow> if lower c = lower d then equalFold cs ds else False))"

text \<open>
  The field an object key is stored to: the field of exactly that name, and when there is
  none, the first field whose name equals the key under case folding.
\<close>

definition findField :: "(nat \<times> string) list \<Rightarrow> string \<Rightarrow> nat option" where
  "findField tf key =
     (case find (\<lambda>(i, n). n = key) tf of
        Some (i, n) \<Rightarrow> Some i
      | None \<Rightarrow> map_option fst (find (\<lambda>(i, n). equalFold n key) tf))"

section \<open>Encoding and decoding values of the program's types\<close>

subsection \<open>Numbers\<close>

text \<open>The value of a literal as a fraction \<open>p / q\<close> of integers, with \<open>0 < q\<close>.\<close>

definition fraction :: "number \<Rightarrow> int \<times> int" where
  "fraction n = (case n of
       IntLit i \<Rightarrow> (i, 1)
     | DecLit m e \<Rightarrow> if 0 \<le> e then (m * 10 ^ nat e, 1) else (m, 10 ^ nat (- e)))"

text \<open>The fraction \<open>p / q\<close> divided by \<open>2 ^ k\<close>.\<close>

definition scale2 :: "int \<Rightarrow> int \<times> int \<Rightarrow> int \<times> int" where
  "scale2 k pq = (case pq of (p, q) \<Rightarrow>
     if 0 \<le> k then (p, q * 2 ^ nat k) else (p * 2 ^ nat (- k), q))"

definition pow2 :: "int \<Rightarrow> rat" where
  "pow2 k = (if 0 \<le> k then 2 ^ nat k else 1 / 2 ^ nat (- k))"

text \<open>The integer nearest to the fraction \<open>n / d\<close>, the even one of two that are equally near.\<close>

definition roundHalfEven :: "int \<times> int \<Rightarrow> int" where
  "roundHalfEven nd = (case nd of (n, d) \<Rightarrow>
     (let f = n div d; r = 2 * (n mod d) in
      if r < d then f else if d < r then f + 1 else if even f then f else f + 1))"

text \<open>
  The exponent of the unit in the last place of the \<^verbatim>\<open>float32\<close> next to \<open>p / q\<close>: the
  largest \<open>k\<close> from \<open>-149\<close> (the subnormal numbers) to \<open>104\<close> with \<open>2 ^ (k + 23) \<le> p / q\<close>,
  and \<open>-149\<close> when there is none. The search goes upwards from \<open>k\<close>.
\<close>

function ulpExp :: "int \<Rightarrow> int \<Rightarrow> int \<Rightarrow> int" where
  "ulpExp p q k =
     (if k < 104 \<and> (case scale2 (k + 24) (p, q) of (n, d) \<Rightarrow> d \<le> n) then ulpExp p q (k + 1)
      else k)"
  by pat_completeness auto
termination
  by (relation "measure (\<lambda>(p, q, k). nat (104 - k))") auto

declare ulpExp.simps [simp del]

text \<open>
  \<^verbatim>\<open>strconv.ParseFloat(s, 32)\<close> on the literal \<open>s\<close>, which is also the conversion of a
  constant of the source to \<^verbatim>\<open>float32\<close>: the nearest \<^verbatim>\<open>float32\<close>, ties to the even
  significand; \<open>None\<close> is the range error of a value that rounds to \<open>2 ^ 128\<close> or beyond.
\<close>

definition ParseFloat32 :: "number \<Rightarrow> float32 option" where
  "ParseFloat32 n = (case fraction n of (p, q) \<Rightarrow>
     (let k = ulpExp \<bar>p\<bar> q (- 149);
          r = of_int (roundHalfEven (scale2 k (\<bar>p\<bar>, q))) * pow2 k in
      if 2 ^ 128 \<le> r then None else Some (F32 (if p < 0 then - r else r))))"

text \<open>\<^verbatim>\<open>strconv.ParseInt(s, 10, 64)\<close>: the literal has to be written as an integer.\<close>

definition ParseInt64 :: "number \<Rightarrow> goint option" where
  "ParseInt64 n = (case n of
       IntLit i \<Rightarrow> if - (2 ^ 63) \<le> i \<and> i < 2 ^ 63 then Some (word_of_int i) else None
     | DecLit m e \<Rightarrow> None)"

subsection \<open>The bits of a \<^verbatim>\<open>float32\<close>\<close>

unbundle bit_operations_syntax

text \<open>
  \<^verbatim>\<open>math.Float32frombits\<close>: every value of the type \<^verbatim>\<open>float32\<close> is given by its 32 bits, a
  sign, eight bits of exponent and 23 bits of mantissa. With the exponent bits all set the
  value is an infinity or a NaN; with none set it is \<open>M * 2 ^ - 149\<close> (zero or subnormal);
  otherwise it is \<open>(2 ^ 23 + M) * 2 ^ (E - 150)\<close>.
\<close>

definition Float32frombits :: "32 word \<Rightarrow> float32" where
  "Float32frombits b =
     (let E = uint (drop_bit 23 b AND 0xFF); M = uint (b AND 0x7FFFFF) in
      if E = 255 then (if M = 0 then (if bit b 31 then NegInf else PosInf) else NaN)
      else (let x = (if E = 0 then of_int M * pow2 (- 149)
                     else of_int (2 ^ 23 + M) * pow2 (E - 150))
            in F32 (if bit b 31 then - x else x)))"

definition isFinite :: "float32 \<Rightarrow> bool" where
  "isFinite f = (case f of F32 x \<Rightarrow> True | _ \<Rightarrow> False)"

text \<open>
  The mantissa and the exponent of a finite \<^verbatim>\<open>float32\<close> from its value, as the formatter
  takes them from the bits: \<open>\<bar>x\<bar> = mant * 2 ^ exp\<close> with \<open>- 149 \<le> exp\<close>, and
  \<open>2 ^ 23 \<le> mant\<close> unless \<open>exp = - 149\<close>.
\<close>

definition mantExp :: "rat \<Rightarrow> int \<times> int" where
  "mantExp x = (case quotient_of \<bar>x\<bar> of (p, q) \<Rightarrow>
     (let e = ulpExp p q (- 149) in (roundHalfEven (scale2 e (p, q)), e)))"

subsection \<open>Writing a \<^verbatim>\<open>float32\<close> (\<^verbatim>\<open>strconv.AppendFloat\<close> with precision \<open>-1\<close>)\<close>

text \<open>The fraction \<open>p / q\<close> divided by \<open>10 ^ k\<close>.\<close>

definition scale10 :: "int \<Rightarrow> int \<times> int \<Rightarrow> int \<times> int" where
  "scale10 k pq = (case pq of (p, q) \<Rightarrow>
     if 0 \<le> k then (p, q * 10 ^ nat k) else (p * 10 ^ nat (- k), q))"

text \<open>The value of a fraction of integers, and the powers of ten, as rational numbers.\<close>

definition fr :: "int \<times> int \<Rightarrow> rat" where
  "fr pq = of_int (fst pq) / of_int (snd pq)"

definition pow10 :: "int \<Rightarrow> rat" where
  "pow10 k = (if 0 \<le> k then 10 ^ nat k else 1 / 10 ^ nat (- k))"

text \<open>
  With precision \<open>-1\<close> the formatter writes the fewest digits that are read back as the
  same \<^verbatim>\<open>float32\<close> (\<^verbatim>\<open>roundShortest\<close> in \<^verbatim>\<open>strconv/ftoa.go\<close>). For the value
  \<open>mant * 2 ^ exp\<close> it takes the two bounds half way to the next \<^verbatim>\<open>float32\<close> below and
  above: the next above is \<open>(mant + 1) * 2 ^ exp\<close>; the next below is
  \<open>(mant - 1) * 2 ^ exp\<close>, and \<open>(2 * mant - 1) * 2 ^ (exp - 1)\<close> when \<open>mant\<close> is the least
  mantissa and \<open>exp\<close> is not the least exponent. Here both bounds are counted in units of
  \<open>2 ^ (exp - 2)\<close>, of which the value has \<open>4 * mant\<close>.
\<close>

definition lowerBound :: "int \<Rightarrow> int \<Rightarrow> int" where
  "lowerBound m e = (if 2 ^ 23 < m \<or> e = - 149 then 4 * m - 2 else 4 * m - 1)"

definition upperBound :: "int \<Rightarrow> int" where
  "upperBound m = 4 * m + 2"

text \<open>
  The decimal \<open>D * 10 ^ k\<close> lies between the bounds; the bounds themselves count when the
  mantissa is even, since a tie is read back as the even mantissa.
\<close>

definition inside :: "int \<Rightarrow> int \<Rightarrow> int \<times> int \<Rightarrow> bool" where
  "inside m e dk = (case dk of (D, k) \<Rightarrow>
     (case scale2 (e - 2) (scale10 (- k) (D, 1)) of (a, b) \<Rightarrow>
        if even m then lowerBound m e * b \<le> a \<and> a \<le> upperBound m * b
        else lowerBound m e * b < a \<and> a < upperBound m * b))"

text \<open>
  The formatter walks along the digits of the value, from the first digit of the upper
  bound on, and stops at the first digit where the value cut off there (\<open>down\<close>) or the
  next decimal of that many digits (\<open>up\<close>) lies between the bounds; of two that do, it
  takes the nearer one, the even one at a tie. The walk below starts at the digit of
  \<open>10 ^ 38\<close>, where no \<^verbatim>\<open>float32\<close> has a digit yet (until the first digit of the upper bound
  \<open>down\<close> is \<open>0\<close> and \<open>up\<close> is beyond the bound), and a \<^verbatim>\<open>float32\<close> has no digit after that of
  \<open>10 ^ - 149\<close>. The result is the number \<open>D\<close> of units and the exponent \<open>k\<close> of the unit
  \<open>10 ^ k\<close>.
\<close>

function shortest :: "int \<Rightarrow> int \<Rightarrow> int \<Rightarrow> int \<times> int" where
  "shortest m e k =
     (case scale10 k (scale2 (- e) (m, 1)) of (n, d) \<Rightarrow>
        (let down = n div d; up = down + 1 in
         if inside m e (down, k) then
           (if inside m e (up, k) then (roundHalfEven (n, d), k) else (down, k))
         else if inside m e (up, k) then (up, k)
         else if k \<le> - 149 then (down, k)
         else shortest m e (k - 1)))"
  by pat_completeness auto
termination
  by (relation "measure (\<lambda>(m, e, k). nat (k + 149))") auto

declare shortest.simps [simp del]

text \<open>
  The literal that \<^verbatim>\<open>floatEncoder\<close> of \<^verbatim>\<open>encoding/json\<close> writes for a finite \<^verbatim>\<open>float32\<close>:
  the shortest digits, in the format \<^verbatim>\<open>e\<close> (with an exponent) when the value is below
  \<^verbatim>\<open>float32(1e-6)\<close> or not below \<^verbatim>\<open>float32(1e21)\<close>, and in the format \<^verbatim>\<open>f\<close> otherwise, where
  a value without digits after the point is written as an integer. Zero is written \<^verbatim>\<open>0\<close>.
\<close>

definition formatFloat32 :: "rat \<Rightarrow> number" where
  "formatFloat32 x =
     (if x = 0 then IntLit 0
      else (case mantExp x of (m, e) \<Rightarrow>
        (case shortest m e 38 of (D, k) \<Rightarrow>
           (let s = (if x < 0 then - D else D) in
            if \<bar>x\<bar> < 8796093 * pow2 (- 43) \<or> 14210855 * pow2 46 \<le> \<bar>x\<bar> then DecLit s k
            else if 0 \<le> k then IntLit (s * 10 ^ nat k)
            else DecLit s k))))"

subsection \<open>Storing a JSON value into a Go value (\<^verbatim>\<open>literalStore\<close>, \<^verbatim>\<open>array\<close>)\<close>

text \<open>
  Each decoder takes the JSON value and the present content of the target, and returns the
  new content with the error it saves, if any. \<^verbatim>\<open>null\<close> leaves a string, a number, a
  boolean and a struct as they are and makes a slice \<^verbatim>\<open>nil\<close>. A value of the wrong kind
  leaves the target as it is and saves an \<^verbatim>\<open>UnmarshalTypeError\<close>.
\<close>

definition decodeString :: "json \<Rightarrow> string \<Rightarrow> string \<times> jsonError option" where
  "decodeString j cur = (case j of
       JString s \<Rightarrow> (s, None)
     | JNull \<Rightarrow> (cur, None)
     | _ \<Rightarrow> (cur, Some (UnmarshalTypeError (valueKind j) ''string'')))"

definition decodeBool :: "json \<Rightarrow> bool \<Rightarrow> bool \<times> jsonError option" where
  "decodeBool j cur = (case j of
       JBool b \<Rightarrow> (b, None)
     | JNull \<Rightarrow> (cur, None)
     | _ \<Rightarrow> (cur, Some (UnmarshalTypeError (valueKind j) ''bool'')))"

definition decodeInt :: "json \<Rightarrow> goint \<Rightarrow> goint \<times> jsonError option" where
  "decodeInt j cur = (case j of
       JNumber n \<Rightarrow> (case ParseInt64 n of
           Some i \<Rightarrow> (i, None)
         | None \<Rightarrow> (cur, Some (UnmarshalTypeError (valueKind j) ''int'')))
     | JNull \<Rightarrow> (cur, None)
     | _ \<Rightarrow> (cur, Some (UnmarshalTypeError (valueKind j) ''int'')))"

definition decodeFloat32 :: "json \<Rightarrow> float32 \<Rightarrow> float32 \<times> jsonError option" where
  "decodeFloat32 j cur = (case j of
       JNumber n \<Rightarrow> (case ParseFloat32 n of
           Some f \<Rightarrow> (f, None)
         | None \<Rightarrow> (cur, Some (UnmarshalTypeError (valueKind j) ''float32'')))
     | JNull \<Rightarrow> (cur, None)
     | _ \<Rightarrow> (cur, Some (UnmarshalTypeError (valueKind j) ''float32'')))"

text \<open>The error that is reported in the end is the first one saved.\<close>

definition firstError :: "jsonError option \<Rightarrow> jsonError option \<Rightarrow> jsonError option" where
  "firstError e e' = (case e of Some x \<Rightarrow> Some x | None \<Rightarrow> e')"

text \<open>
  The elements of an array, stored one after the other into the slice: an element of the
  slice that is there already is decoded into, a new one starts as \<open>0\<close>. (What a slice
  holds beyond its length, within its capacity, is not kept in this development.)
\<close>

fun decodeElems :: "json list \<Rightarrow> goint list \<Rightarrow> goint list \<times> jsonError option" where
  "decodeElems [] old = ([], None)"
| "decodeElems (j # js) old =
     (case decodeInt j (case old of [] \<Rightarrow> 0 | x # _ \<Rightarrow> x) of (x, e) \<Rightarrow>
        (case decodeElems js (tl old) of (xs, e') \<Rightarrow> (x # xs, firstError e e')))"

definition decodeIntSlice ::
  "json \<Rightarrow> goint list option \<Rightarrow> goint list option \<times> jsonError option" where
  "decodeIntSlice j cur = (case j of
       JArray js \<Rightarrow>
         (case decodeElems js (case cur of None \<Rightarrow> [] | Some old \<Rightarrow> old) of
            (xs, e) \<Rightarrow> (Some xs, e))
     | JNull \<Rightarrow> (None, None)
     | _ \<Rightarrow> (cur, Some (UnmarshalTypeError (valueKind j) ''[]int'')))"

subsection \<open>Structs\<close>

text \<open>
  The encoder of a struct writes one member for each field of \<^const>\<open>typeFields\<close>, in the
  order of declaration; \<open>enc i\<close> encodes the field at position \<open>i\<close>.
\<close>

fun encodeFields ::
  "(nat \<times> string) list \<Rightarrow> (nat \<Rightarrow> 'a \<Rightarrow> jsonError + json) \<Rightarrow> 'a
     \<Rightarrow> jsonError + (string \<times> json) list" where
  "encodeFields [] enc v = Inr []"
| "encodeFields ((i, n) # tf) enc v =
     (case enc i v of
        Inl err \<Rightarrow> Inl err
      | Inr j \<Rightarrow> (case encodeFields tf enc v of
          Inl err \<Rightarrow> Inl err
        | Inr kvs \<Rightarrow> Inr ((n, j) # kvs)))"

definition structEncoder ::
  "structField list \<Rightarrow> (nat \<Rightarrow> 'a \<Rightarrow> jsonError + json) \<Rightarrow> 'a \<Rightarrow> jsonError + json" where
  "structEncoder fs enc v = (case encodeFields (typeFields fs) enc v of
       Inl err \<Rightarrow> Inl err
     | Inr kvs \<Rightarrow> Inr (JObject kvs))"

text \<open>
  The decoder of a struct goes through the members of the object in their order; a member
  whose key matches no field is skipped, any other is stored by \<open>store i\<close> into the field at
  position \<open>i\<close> it matches.
\<close>

fun decodeObject ::
  "(nat \<times> string) list \<Rightarrow> (nat \<Rightarrow> json \<Rightarrow> 'a \<Rightarrow> 'a \<times> jsonError option)
     \<Rightarrow> (string \<times> json) list \<Rightarrow> 'a \<Rightarrow> 'a \<times> jsonError option" where
  "decodeObject tf store [] v = (v, None)"
| "decodeObject tf store ((key, j) # kvs) v =
     (case findField tf key of
        None \<Rightarrow> decodeObject tf store kvs v
      | Some i \<Rightarrow>
         (case store i j v of (v', e) \<Rightarrow>
            (case decodeObject tf store kvs v' of (v'', e') \<Rightarrow> (v'', firstError e e'))))"

definition structDecoder ::
  "structField list \<Rightarrow> (nat \<Rightarrow> json \<Rightarrow> 'a \<Rightarrow> 'a \<times> jsonError option) \<Rightarrow> string
     \<Rightarrow> json \<Rightarrow> 'a \<Rightarrow> 'a \<times> jsonError option" where
  "structDecoder fs store ty j v = (case j of
       JObject kvs \<Rightarrow> decodeObject (typeFields fs) store kvs v
     | JNull \<Rightarrow> (v, None)
     | _ \<Rightarrow> (v, Some (UnmarshalTypeError (valueKind j) ty)))"

subsection \<open>Encoders of the basic types\<close>

definition stringEncoder :: "string \<Rightarrow> jsonError + json" where
  "stringEncoder s = Inr (JString (toValidUTF8 s))"

definition intEncoder :: "goint \<Rightarrow> jsonError + json" where
  "intEncoder n = Inr (JNumber (IntLit (sint n)))"

definition boolEncoder :: "bool \<Rightarrow> jsonError + json" where
  "boolEncoder b = Inr (JBool b)"

definition sliceEncoder :: "goint list option \<Rightarrow> jsonError + json" where
  "sliceEncoder xs = (case xs of
       None \<Rightarrow> Inr JNull
     | Some ns \<Rightarrow> Inr (JArray (map (\<lambda>n. JNumber (IntLit (sint n))) ns)))"

text \<open>
  The text of a finite \<^verbatim>\<open>float32\<close> is written by \<^verbatim>\<open>strconv.AppendFloat\<close>, which is taken
  as the parameter \<open>fmt\<close> (from the value to the literal). An infinity and a NaN are
  refused.
\<close>

definition floatEncoder :: "(rat \<Rightarrow> number) \<Rightarrow> float32 \<Rightarrow> jsonError + json" where
  "floatEncoder fmt f = (case f of
       F32 q \<Rightarrow> Inr (JNumber (fmt q))
     | _ \<Rightarrow> Inl UnsupportedValueError)"

section \<open>The types of the program\<close>

text \<open>
  The repository holds three revisions of the program: the draft at the head of
  \<^verbatim>\<open>json.go\<close> (lines 1 to 202), the revision with a command line in \<^verbatim>\<open>part_000\<close>, and
  the published one in \<^verbatim>\<open>json.go\<close> (lines 203 to 470). Their structs have the same
  fields of the same types; the names and the tags differ.
\<close>

datatype revision = Draft | Part000 | Published

record windData =
  Direction :: string
  Speed :: goint

record weatherData =
  LocationName :: string
  Weather :: string
  Temperature :: goint
  Celsius :: bool
  TempForecast :: "goint list option"
  Wind :: windData

record loc =
  Lat :: float32
  Lon :: float32

text \<open>The names and tags of the fields, as the source writes them (a tag without the backquotes).\<close>

fun weatherData_fields :: "revision \<Rightarrow> structField list" where
  "weatherData_fields Draft =
     [\<lparr>goName = ''locationName'', tag = []\<rparr>,
      \<lparr>goName = ''weather'', tag = []\<rparr>,
      \<lparr>goName = ''temperature'', tag = []\<rparr>,
      \<lparr>goName = ''celsius'', tag = []\<rparr>,
      \<lparr>goName = ''tempForecast'', tag = ''json: temp_forecast''\<rparr>,
      \<lparr>goName = ''wind'', tag = []\<rparr>]"
| "weatherData_fields _ =
     [\<lparr>goName = ''LocationName'', tag = ''json: locationName''\<rparr>,
      \<lparr>goName = ''Weather'', tag = ''json: weather''\<rparr>,
      \<lparr>goName = ''Temperature'', tag = ''json: temperature''\<rparr>,
      \<lparr>goName = ''Celsius'', tag = ''json: celsius''\<rparr>,
      \<lparr>goName = ''TempForecast'', tag = ''json: temp_forecast''\<rparr>,
      \<lparr>goName = ''Wind'', tag = ''json: wind''\<rparr>]"

fun windData_fields :: "revision \<Rightarrow> structField list" where
  "windData_fields Draft =
     [\<lparr>goName = ''direction'', tag = []\<rparr>,
      \<lparr>goName = ''speed'', tag = []\<rparr>]"
| "windData_fields _ =
     [\<lparr>goName = ''Direction'', tag = ''json: direction''\<rparr>,
      \<lparr>goName = ''Speed'', tag = ''json: speed''\<rparr>]"

text \<open>
  In the draft the two fields of \<^verbatim>\<open>loc\<close> are of type \<^verbatim>\<open>int\<close>; they are unexported
  there, and the package neither reads nor writes them.
\<close>

fun loc_fields :: "revision \<Rightarrow> structField list" where
  "loc_fields Draft =
     [\<lparr>goName = ''lat'', tag = []\<rparr>,
      \<lparr>goName = ''lon'', tag = []\<rparr>]"
| "loc_fields Part000 =
     [\<lparr>goName = ''Lat'', tag = ''json: lat''\<rparr>,
      \<lparr>goName = ''Lon'', tag = ''json: lat''\<rparr>]"
| "loc_fields Published =
     [\<lparr>goName = ''Lat'', tag = ''json: lat''\<rparr>,
      \<lparr>goName = ''Lon'', tag = ''json: lon''\<rparr>]"

text \<open>The zero values: \<^verbatim>\<open>windData{}\<close>, \<^verbatim>\<open>weatherData{}\<close>, \<^verbatim>\<open>loc{}\<close>.\<close>

definition windData_zero :: windData where
  "windData_zero = \<lparr>Direction = [], Speed = 0\<rparr>"

definition weatherData_zero :: weatherData where
  "weatherData_zero = \<lparr>LocationName = [], Weather = [], Temperature = 0, Celsius = False,
     TempForecast = None, Wind = windData_zero\<rparr>"

definition loc_zero :: loc where
  "loc_zero = \<lparr>Lat = F32 0, Lon = F32 0\<rparr>"

subsection \<open>The fields by position\<close>

definition windData_enc :: "nat \<Rightarrow> windData \<Rightarrow> jsonError + json" where
  "windData_enc i w =
     (if i = 0 then stringEncoder (Direction w) else intEncoder (Speed w))"

definition windData_store :: "nat \<Rightarrow> json \<Rightarrow> windData \<Rightarrow> windData \<times> jsonError option" where
  "windData_store i j w =
     (if i = 0 then (case decodeString j (Direction w) of (s, e) \<Rightarrow> (w\<lparr>Direction := s\<rparr>, e))
      else (case decodeInt j (Speed w) of (n, e) \<Rightarrow> (w\<lparr>Speed := n\<rparr>, e)))"

definition weatherData_enc :: "revision \<Rightarrow> nat \<Rightarrow> weatherData \<Rightarrow> jsonError + json" where
  "weatherData_enc r i w =
     (if i = 0 then stringEncoder (LocationName w)
      else if i = 1 then stringEncoder (Weather w)
      else if i = 2 then intEncoder (Temperature w)
      else if i = 3 then boolEncoder (Celsius w)
      else if i = 4 then sliceEncoder (TempForecast w)
      else structEncoder (windData_fields r) windData_enc (Wind w))"

definition weatherData_store ::
  "revision \<Rightarrow> nat \<Rightarrow> json \<Rightarrow> weatherData \<Rightarrow> weatherData \<times> jsonError option" where
  "weatherData_store r i j w =
     (if i = 0 then (case decodeString j (LocationName w) of (s, e) \<Rightarrow> (w\<lparr>LocationName := s\<rparr>, e))
      else if i = 1 then (case decodeString j (Weather w) of (s, e) \<Rightarrow> (w\<lparr>Weather := s\<rparr>, e))
      else if i = 2 then (case decodeInt j (Temperature w) of (n, e) \<Rightarrow> (w\<lparr>Temperature := n\<rparr>, e))
      else if i = 3 then (case decodeBool j (Celsius w) of (b, e) \<Rightarrow> (w\<lparr>Celsius := b\<rparr>, e))
      else if i = 4 then
        (case decodeIntSlice j (TempForecast w) of (xs, e) \<Rightarrow> (w\<lparr>TempForecast := xs\<rparr>, e))
      else (case structDecoder (windData_fields r) windData_store ''windData'' j (Wind w) of
              (d, e) \<Rightarrow> (w\<lparr>Wind := d\<rparr>, e)))"

definition loc_enc :: "(rat \<Rightarrow> number) \<Rightarrow> nat \<Rightarrow> loc \<Rightarrow> jsonError + json" where
  "loc_enc fmt i l = (if i = 0 then floatEncoder fmt (Lat l) else floatEncoder fmt (Lon l))"

definition loc_store :: "nat \<Rightarrow> json \<Rightarrow> loc \<Rightarrow> loc \<times> jsonError option" where
  "loc_store i j l =
     (if i = 0 then (case decodeFloat32 j (Lat l) of (f, e) \<Rightarrow> (l\<lparr>Lat := f\<rparr>, e))
      else (case decodeFloat32 j (Lon l) of (f, e) \<Rightarrow> (l\<lparr>Lon := f\<rparr>, e)))"

subsection \<open>\<^verbatim>\<open>json.Marshal\<close> and \<^verbatim>\<open>json.Unmarshal\<close> at the types of the program\<close>

text \<open>
  \<^verbatim>\<open>Unmarshal\<close> checks first that its input is a JSON text, and stores nothing when it is
  not; then it decodes into the value behind the pointer, and returns the first error saved
  on the way.
\<close>

definition Marshal_windData :: "revision \<Rightarrow> windData \<Rightarrow> jsonError + bytes" where
  "Marshal_windData r v = (case structEncoder (windData_fields r) windData_enc v of
       Inl err \<Rightarrow> Inl err
     | Inr j \<Rightarrow> Inr (JSONText j))"

definition Unmarshal_windData ::
  "revision \<Rightarrow> bytes \<Rightarrow> windData \<Rightarrow> windData \<times> jsonError option" where
  "Unmarshal_windData r data v = (case data of
       JSONText j \<Rightarrow> structDecoder (windData_fields r) windData_store ''windData'' j v
     | _ \<Rightarrow> (v, Some SyntaxError))"

definition Marshal_weatherData :: "revision \<Rightarrow> weatherData \<Rightarrow> jsonError + bytes" where
  "Marshal_weatherData r v =
     (case structEncoder (weatherData_fields r) (weatherData_enc r) v of
        Inl err \<Rightarrow> Inl err
      | Inr j \<Rightarrow> Inr (JSONText j))"

definition Unmarshal_weatherData ::
  "revision \<Rightarrow> bytes \<Rightarrow> weatherData \<Rightarrow> weatherData \<times> jsonError option" where
  "Unmarshal_weatherData r data v = (case data of
       JSONText j \<Rightarrow>
         structDecoder (weatherData_fields r) (weatherData_store r) ''weatherData'' j v
     | _ \<Rightarrow> (v, Some SyntaxError))"

definition Marshal_loc :: "(rat \<Rightarrow> number) \<Rightarrow> revision \<Rightarrow> loc \<Rightarrow> jsonError + bytes" where
  "Marshal_loc fmt r v = (case structEncoder (loc_fields r) (loc_enc fmt) v of
       Inl err \<Rightarrow> Inl err
     | Inr j \<Rightarrow> Inr (JSONText j))"

definition Unmarshal_loc :: "revision \<Rightarrow> bytes \<Rightarrow> loc \<Rightarrow> loc \<times> jsonError option" where
  "Unmarshal_loc r data v = (case data of
       JSONText j \<Rightarrow> structDecoder (loc_fields r) loc_store ''loc'' j v
     | _ \<Rightarrow> (v, Some SyntaxError))"

subsection \<open>\<^verbatim>\<open>encode\<close> and \<^verbatim>\<open>decode\<close> (the draft, \<^verbatim>\<open>json.go\<close> lines 109 to 126)\<close>

definition encode :: "weatherData \<Rightarrow> jsonError + bytes" where
  "encode w = (case Marshal_weatherData Draft w of
       Inl err \<Rightarrow> Inl err
     | Inr weatherJson \<Rightarrow> Inr weatherJson)"

definition decode :: "bytes \<Rightarrow> weatherData \<times> jsonError option" where
  "decode weatherJson = Unmarshal_weatherData Draft weatherJson weatherData_zero"

section \<open>The exchange over HTTP\<close>

subsection \<open>Requests and responses (\<^verbatim>\<open>net/http\<close>)\<close>

text \<open>
  \<open>Body r\<close> is what \<^verbatim>\<open>ioutil.ReadAll(r.Body)\<close> returns: the bytes of the body, or the
  message of the error of a read that fails.
\<close>

record request =
  Method :: string
  URL :: string
  ReqHeader :: "(string \<times> string) list"
  Body :: "string + bytes"

text \<open>
  A \<^verbatim>\<open>ResponseWriter\<close>: the header map, whether the status line has been written, with
  which status and which header, and the bytes written. The first \<^verbatim>\<open>Write\<close> writes the
  status line with status 200 and the header as it is then; a header field set later is
  not sent. (What the server adds to the header by itself is not kept.)
\<close>

record responseWriter =
  header :: "(string \<times> string) list"
  wroteHeader :: bool
  status :: nat
  sentHeader :: "(string \<times> string) list"
  written :: "bytes list"

definition newResponseWriter :: responseWriter where
  "newResponseWriter =
     \<lparr>header = [], wroteHeader = False, status = 0, sentHeader = [], written = []\<rparr>"

definition Header_Set :: "string \<Rightarrow> string \<Rightarrow> responseWriter \<Rightarrow> responseWriter" where
  "Header_Set k v w = w\<lparr>header := (k, v) # filter (\<lambda>(k', _). k' \<noteq> k) (header w)\<rparr>"

definition WriteHeader :: "nat \<Rightarrow> responseWriter \<Rightarrow> responseWriter" where
  "WriteHeader code w =
     (if wroteHeader w then w
      else w\<lparr>wroteHeader := True, status := code, sentHeader := header w\<rparr>)"

definition Write :: "bytes \<Rightarrow> responseWriter \<Rightarrow> responseWriter" where
  "Write b w = (let w' = WriteHeader 200 w in w'\<lparr>written := written w' @ [b]\<rparr>)"

record response =
  StatusCode :: nat
  RespHeader :: "(string \<times> string) list"
  RespBody :: "bytes list"

text \<open>When the handler has returned, the server completes the response.\<close>

definition finishRequest :: "responseWriter \<Rightarrow> response" where
  "finishRequest w = (let w' = WriteHeader 200 w in
     \<lparr>StatusCode = status w', RespHeader = sentHeader w', RespBody = written w'\<rparr>)"

definition NotFound :: response where
  "NotFound = \<lparr>StatusCode = 404, RespHeader = [], RespBody = [OtherText ''404 page not found'']\<rparr>"

text \<open>\<^verbatim>\<open>pathMatch\<close> of the request multiplexer: a pattern that ends in a slash names a subtree.\<close>

definition pathMatch :: "string \<Rightarrow> string \<Rightarrow> bool" where
  "pathMatch pattern path =
     (if pattern = [] then False
      else if last pattern \<noteq> CHR ''/'' then pattern = path
      else length pattern \<le> length path \<and> take (length pattern) path = pattern)"

subsection \<open>The process\<close>

text \<open>
  A line of the log is a text, a text followed by the message of an error, or a text
  followed by a \<^verbatim>\<open>loc\<close> printed with \<^verbatim>\<open>%v\<close>. The standard output takes a text, a text
  followed by bytes, or the dump of a byte sequence.
\<close>

datatype logLine = LogText string | LogError string jsonError | LogValue string loc

datatype printed = Println string | PrintBytes string "bytes list" | Dump bytes

text \<open>
  What a run of the process has done: the lines logged and printed, the functions started
  as goroutines, the patterns for which \<^verbatim>\<open>weatherHandler\<close> is registered, the addresses
  \<^verbatim>\<open>ListenAndServe\<close> was called on, the responses the server has completed and the requests
  the client has sent.
\<close>

record proc =
  logged :: "logLine list"
  stdout :: "printed list"
  spawned :: "string list"
  patterns :: "string list"
  listening :: "string list"
  served :: "response list"
  requested :: "request list"

definition proc_start :: proc where
  "proc_start = \<lparr>logged = [], stdout = [], spawned = [], patterns = [], listening = [],
     served = [], requested = []\<rparr>"

text \<open>
  A call ends the process with an exit status, returns, or stays blocked (the server,
  waiting for the next request).
\<close>

datatype 'a result = Exited nat proc | Returned 'a proc | Blocked proc

text \<open>\<^verbatim>\<open>log.Fatal\<close>: the line is logged and the process exits with status 1.\<close>

definition Fatal :: "logLine \<Rightarrow> proc \<Rightarrow> 'a result" where
  "Fatal l p = Exited 1 (p\<lparr>logged := logged p @ [l]\<rparr>)"

text \<open>
  What stands around the process: whether the port can be bound, the requests that reach
  the handler of the server (the multiplexer redirects a request whose path is not in
  canonical form, and does not hand it on), and what \<^verbatim>\<open>client.Do\<close> gets for a request, a
  response or the message of an error.
\<close>

record env =
  bound :: bool
  incoming :: "request list"
  roundTrip :: "request \<Rightarrow> string + response"

subsection \<open>The server\<close>

text \<open>The mock-up data of the handler.\<close>

definition weather :: weatherData where
  "weather = \<lparr>LocationName = ''Zzyzx'', Weather = ''cloudy'', Temperature = 31,
     Celsius = True, TempForecast = Some [30, 32, 29],
     Wind = \<lparr>Direction = ''S'', Speed = 20\<rparr>\<rparr>"

text \<open>
  \<^verbatim>\<open>weatherHandler\<close> of \<^verbatim>\<open>part_000\<close> (lines 127 to 174) and of the published \<^verbatim>\<open>json.go\<close>
  (lines 335 to 383); the first also dumps the encoded bytes. \<^verbatim>\<open>json.Marshal\<close> at
  \<^verbatim>\<open>weatherData\<close> is the parameter \<open>marshal\<close>, so that the branch for its error can be
  followed; the server passes \<^const>\<open>Marshal_weatherData\<close>. A \<^verbatim>\<open>nil\<close> byte slice is the
  empty text.
\<close>

definition weatherHandler ::
  "(weatherData \<Rightarrow> jsonError + bytes) \<Rightarrow> revision \<Rightarrow> responseWriter \<Rightarrow> request \<Rightarrow> proc
     \<Rightarrow> responseWriter result" where
  "weatherHandler marshal r w req p =
     (case Body req of
        Inl err \<Rightarrow> Fatal (LogText (''Error reading the body'' @ err)) p
      | Inr jsn \<Rightarrow>
         (case Unmarshal_loc r jsn loc_zero of
            (location, Some err) \<Rightarrow> Fatal (LogError ''Decoding error: '' err) p
          | (location, None) \<Rightarrow>
             (let p1 = p\<lparr>logged := logged p @ [LogValue ''Received: '' location]\<rparr>;
                  weatherJson = (case marshal weather of Inl err \<Rightarrow> OtherText [] | Inr b \<Rightarrow> b);
                  p2 = (if r = Part000 then p1\<lparr>stdout := stdout p1 @ [Dump weatherJson]\<rparr>
                        else p1);
                  w1 = (case marshal weather of
                          Inl err \<Rightarrow> Write (ErrorText ''Error: '' err) w
                        | Inr b \<Rightarrow> w);
                  w2 = Header_Set ''Content-Type'' ''application/json'' w1;
                  w3 = Write weatherJson w2
              in Returned w3 p2)))"

text \<open>
  The server answers the requests one after the other; a handler that exits ends the
  process, and the requests behind are not answered.
\<close>

fun serve :: "revision \<Rightarrow> request list \<Rightarrow> proc \<Rightarrow> unit result" where
  "serve r [] p = Blocked p"
| "serve r (req # reqs) p =
     (if list_ex (\<lambda>pattern. pathMatch pattern (URL req)) (patterns p) then
        (case weatherHandler (Marshal_weatherData r) r newResponseWriter req p of
           Exited code p' \<Rightarrow> Exited code p'
         | Returned w p' \<Rightarrow> serve r reqs (p'\<lparr>served := served p' @ [finishRequest w]\<rparr>)
         | Blocked p' \<Rightarrow> Blocked p')
      else serve r reqs (p\<lparr>served := served p @ [NotFound]\<rparr>))"

text \<open>
  \<^verbatim>\<open>server\<close>: the handler is registered for the pattern \<^verbatim>\<open>/\<close>, then \<^verbatim>\<open>ListenAndServe\<close>
  serves until it fails. It fails at once when the port cannot be bound; its error is
  dropped, and \<^verbatim>\<open>server\<close> returns.
\<close>

definition server :: "revision \<Rightarrow> env \<Rightarrow> proc \<Rightarrow> unit result" where
  "server r e p =
     (let p1 = p\<lparr>patterns := patterns p @ [''/'']\<rparr>;
          p2 = p1\<lparr>listening := listening p1 @ ['':8080'']\<rparr>
      in if bound e then serve r (incoming e) p2 else Returned () p2)"

subsection \<open>The client\<close>

text \<open>
  The conversion of a constant of the source to \<^verbatim>\<open>float32\<close> (a constant out of range does
  not compile).
\<close>

definition float32_of :: "number \<Rightarrow> float32" where
  "float32_of n = (case ParseFloat32 n of Some f \<Rightarrow> f | None \<Rightarrow> NaN)"

text \<open>
  \<^verbatim>\<open>client\<close> of \<^verbatim>\<open>part_000\<close> (lines 183 to 204) and of the published \<^verbatim>\<open>json.go\<close> (lines 392
  to 410). The errors of \<^verbatim>\<open>Marshal\<close>, of \<^verbatim>\<open>NewRequest\<close> and of reading the response are
  dropped; the error of \<^verbatim>\<open>client.Do\<close> is fatal.
\<close>

definition client ::
  "(rat \<Rightarrow> number) \<Rightarrow> revision \<Rightarrow> env \<Rightarrow> proc \<Rightarrow> unit result" where
  "client fmt r e p =
     (let locJson =
            (case Marshal_loc fmt r
                    \<lparr>Lat = float32_of (DecLit 3514326 (- 5)),
                     Lon = float32_of (DecLit (- 116104) (- 3))\<rparr> of
               Inl err \<Rightarrow> OtherText []
             | Inr b \<Rightarrow> b);
          p1 = (if r = Part000 then p\<lparr>stdout := stdout p @ [Dump locJson]\<rparr> else p);
          req = \<lparr>Method = ''POST'', URL = ''http://localhost:8080'',
                 ReqHeader = [(''Content-Type'', ''application/json'')], Body = Inr locJson\<rparr>;
          p2 = p1\<lparr>requested := requested p1 @ [req]\<rparr>
      in case roundTrip e req of
           Inl err \<Rightarrow> Fatal (LogText err) p2
         | Inr resp \<Rightarrow>
             Returned () (p2\<lparr>stdout := stdout p2 @ [PrintBytes ''Response: '' (RespBody resp)]\<rparr>))"

subsection \<open>\<^verbatim>\<open>main\<close>\<close>

definition usage :: string where
  "usage = ''Usage:'' @ [CHR 0x0A] @ ''json server'' @ [CHR 0x0A] @ ''json client'' @ [CHR 0x0A]"

text \<open>When \<^verbatim>\<open>main\<close> returns, the process exits with status 0.\<close>

definition exitOnReturn :: "unit result \<Rightarrow> unit result" where
  "exitOnReturn res = (case res of Returned u p \<Rightarrow> Exited 0 p | _ \<Rightarrow> res)"

text \<open>
  \<^verbatim>\<open>main\<close> of \<^verbatim>\<open>part_000\<close> (lines 208 to 221); \<open>args\<close> is \<^verbatim>\<open>os.Args\<close>, the name of the
  program first. (With fewer than two elements the first disjunct holds, and
  \<open>args ! 1\<close> is not looked at.)
\<close>

definition main_part000 :: "(rat \<Rightarrow> number) \<Rightarrow> string list \<Rightarrow> env \<Rightarrow> proc \<Rightarrow> unit result" where
  "main_part000 fmt args e p =
     (if length args < 2 \<or> (args ! 1 \<noteq> ''server'' \<and> args ! 1 \<noteq> ''client'') then
        Exited 1 (p\<lparr>stdout := stdout p @ [Println usage]\<rparr>)
      else if args ! 1 = ''server'' then exitOnReturn (server Part000 e p)
      else exitOnReturn (client fmt Part000 e p))"

text \<open>
  \<^verbatim>\<open>main\<close> of the published \<^verbatim>\<open>json.go\<close> (lines 415 to 418): the server is started as a
  goroutine, then the client runs. The arguments are not read. What the goroutine does
  next to the client is not sequenced here; the answer to the client is that of the
  environment.
\<close>

definition main :: "(rat \<Rightarrow> number) \<Rightarrow> string list \<Rightarrow> env \<Rightarrow> proc \<Rightarrow> unit result" where
  "main fmt args e p =
     exitOnReturn (client fmt Published e (p\<lparr>spawned := spawned p @ [''server'']\<rparr>))"

section \<open>Notions of the claims\<close>

text \<open>
  The contract of \<^verbatim>\<open>strconv.AppendFloat\<close> with precision \<open>-1\<close>, at one value: the literal
  that \<open>fmt\<close> writes for the finite \<^verbatim>\<open>float32\<close> \<open>f\<close> is read back as \<open>f\<close>.
\<close>

definition parsesBack :: "(rat \<Rightarrow> number) \<Rightarrow> float32 \<Rightarrow> bool" where
  "parsesBack fmt f = (case f of
       F32 q \<Rightarrow> ParseFloat32 (fmt q) = Some f
     | _ \<Rightarrow> False)"

text \<open>
  A way of writing that is right at the two coordinates of the client, where
  \<^verbatim>\<open>AppendFloat\<close> writes \<^verbatim>\<open>35.14326\<close> and \<^verbatim>\<open>-116.104\<close>, and at zero.
\<close>

definition fmt_client :: "rat \<Rightarrow> number" where
  "fmt_client q =
     (if q = 9212595 / 262144 then DecLit 3514326 (- 5)
      else if q = - (15217983 / 131072) then DecLit (- 116104) (- 3)
      else IntLit 0)"

text \<open>
  The JSON texts of the examples: \<^verbatim>\<open>{"weather": "sunny"}\<close>, \<^verbatim>\<open>{"lat": "not-a-number"}\<close>,
  \<^verbatim>\<open>{"lat": 35.14326, "lon": -116.104}\<close> and \<^verbatim>\<open>{"LAT": 35.14326}\<close>.
\<close>

definition sunny :: bytes where
  "sunny = JSONText (JObject [(''weather'', JString ''sunny'')])"

definition notANumber :: bytes where
  "notANumber = JSONText (JObject [(''lat'', JString ''not-a-number'')])"

definition zzyzx :: bytes where
  "zzyzx = JSONText (JObject [(''lat'', JNumber (DecLit 3514326 (- 5))),
     (''lon'', JNumber (DecLit (- 116104) (- 3)))])"

definition upperLAT :: bytes where
  "upperLAT = JSONText (JObject [(''LAT'', JNumber (DecLit 3514326 (- 5)))])"

text \<open>
  The text the published handler writes for its mock-up data, and the response that
  carries it.
\<close>

definition weatherJSON :: bytes where
  "weatherJSON = JSONText (JObject
     [(''LocationName'', JString ''Zzyzx''),
      (''Weather'', JString ''cloudy''),
      (''Temperature'', JNumber (IntLit 31)),
      (''Celsius'', JBool True),
      (''TempForecast'', JArray [JNumber (IntLit 30), JNumber (IntLit 32), JNumber (IntLit 29)]),
      (''Wind'', JObject [(''Direction'', JString ''S''), (''Speed'', JNumber (IntLit 20))])])"

definition weatherResponse :: response where
  "weatherResponse = \<lparr>StatusCode = 200,
     RespHeader = [(''Content-Type'', ''application/json'')], RespBody = [weatherJSON]\<rparr>"

text \<open>
  Requests with the location of the client as their body: the one the client posts, as it
  reaches the handler, and one with another method and another path.
\<close>

definition postRequest :: request where
  "postRequest = \<lparr>Method = ''POST'', URL = ''/'',
     ReqHeader = [(''Content-Type'', ''application/json'')], Body = Inr zzyzx\<rparr>"

definition getRequest :: request where
  "getRequest = \<lparr>Method = ''GET'', URL = ''/weather/today'', ReqHeader = [],
     Body = Inr zzyzx\<rparr>"

text \<open>
  An exchange that fails with the message \<open>msg\<close>; an exchange that is answered by
  \<open>resp\<close>.
\<close>

definition fails :: "string \<Rightarrow> request \<Rightarrow> string + response" where
  "fails msg req = Inl msg"

definition answers :: "response \<Rightarrow> request \<Rightarrow> string + response" where
  "answers resp req = Inr resp"

text \<open>The object has a member that is stored into the field at position \<open>i\<close>.\<close>

definition present :: "(nat \<times> string) list \<Rightarrow> nat \<Rightarrow> (string \<times> json) list \<Rightarrow> bool" where
  "present tf i kvs = list_ex (\<lambda>(k, j). findField tf k = Some i) kvs"

text \<open>
  The JSON values a Go value of each type takes: \<^verbatim>\<open>null\<close> for any of them, a string for a
  \<^verbatim>\<open>string\<close>, a boolean for a \<^verbatim>\<open>bool\<close>, for an \<^verbatim>\<open>int\<close> a number written as an integer
  within 64 bits, for a \<^verbatim>\<open>float32\<close> a number within its range, for a slice an array of
  values its elements take, for a struct an object whose members fit the fields they are
  stored into.
\<close>

definition fitsString :: "json \<Rightarrow> bool" where
  "fitsString j = (case j of JString s \<Rightarrow> True | JNull \<Rightarrow> True | _ \<Rightarrow> False)"

definition fitsBool :: "json \<Rightarrow> bool" where
  "fitsBool j = (case j of JBool b \<Rightarrow> True | JNull \<Rightarrow> True | _ \<Rightarrow> False)"

definition fitsInt :: "json \<Rightarrow> bool" where
  "fitsInt j = (case j of
       JNumber n \<Rightarrow>
         (case n of IntLit i \<Rightarrow> - (2 ^ 63) \<le> i \<and> i < 2 ^ 63 | DecLit m e \<Rightarrow> False)
     | JNull \<Rightarrow> True
     | _ \<Rightarrow> False)"

definition fitsFloat32 :: "json \<Rightarrow> bool" where
  "fitsFloat32 j = (case j of
       JNumber n \<Rightarrow> ParseFloat32 n \<noteq> None
     | JNull \<Rightarrow> True
     | _ \<Rightarrow> False)"

definition fitsIntSlice :: "json \<Rightarrow> bool" where
  "fitsIntSlice j = (case j of JArray js \<Rightarrow> list_all fitsInt js | JNull \<Rightarrow> True | _ \<Rightarrow> False)"

definition windData_fits :: "nat \<Rightarrow> json \<Rightarrow> bool" where
  "windData_fits i j = (if i = 0 then fitsString j else fitsInt j)"

definition fitsWindData :: "revision \<Rightarrow> json \<Rightarrow> bool" where
  "fitsWindData r j = (case j of
       JObject kvs \<Rightarrow>
         list_all (\<lambda>(k, v). case findField (typeFields (windData_fields r)) k of
                      None \<Rightarrow> True | Some i \<Rightarrow> windData_fits i v) kvs
     | JNull \<Rightarrow> True
     | _ \<Rightarrow> False)"

definition weatherData_fits :: "revision \<Rightarrow> nat \<Rightarrow> json \<Rightarrow> bool" where
  "weatherData_fits r i j =
     (if i = 0 \<or> i = 1 then fitsString j
      else if i = 2 then fitsInt j
      else if i = 3 then fitsBool j
      else if i = 4 then fitsIntSlice j
      else fitsWindData r j)"

section \<open>The field tables of the program\<close>

text \<open>
  No tag of the program is of the form \<^verbatim>\<open>json:"name"\<close> (the quotes are missing), so no
  field gets a name from its tag: an exported field goes by its Go name, and the fields of
  the draft, which are unexported, are left out.
\<close>

lemma typeFields_weatherData:
  "typeFields (weatherData_fields Published) =
     [(0, ''LocationName''), (1, ''Weather''), (2, ''Temperature''), (3, ''Celsius''),
      (4, ''TempForecast''), (5, ''Wind'')]"
  "typeFields (weatherData_fields Part000) =
     [(0, ''LocationName''), (1, ''Weather''), (2, ''Temperature''), (3, ''Celsius''),
      (4, ''TempForecast''), (5, ''Wind'')]"
  "typeFields (weatherData_fields Draft) = []"
  by code_simp+

lemma typeFields_windData:
  "typeFields (windData_fields Published) = [(0, ''Direction''), (1, ''Speed'')]"
  "typeFields (windData_fields Part000) = [(0, ''Direction''), (1, ''Speed'')]"
  "typeFields (windData_fields Draft) = []"
  by code_simp+

lemma typeFields_loc:
  "typeFields (loc_fields Published) = [(0, ''Lat''), (1, ''Lon'')]"
  "typeFields (loc_fields Part000) = [(0, ''Lat''), (1, ''Lon'')]"
  "typeFields (loc_fields Draft) = []"
  by code_simp+

declare weatherData_fields.simps [simp del] windData_fields.simps [simp del]
  loc_fields.simps [simp del]

lemma typeFields_exported:
  "r \<noteq> Draft \<Longrightarrow> typeFields (weatherData_fields r) =
     [(0, ''LocationName''), (1, ''Weather''), (2, ''Temperature''), (3, ''Celsius''),
      (4, ''TempForecast''), (5, ''Wind'')]"
  "r \<noteq> Draft \<Longrightarrow> typeFields (windData_fields r) = [(0, ''Direction''), (1, ''Speed'')]"
  "r \<noteq> Draft \<Longrightarrow> typeFields (loc_fields r) = [(0, ''Lat''), (1, ''Lon'')]"
  by (cases r; simp add: typeFields_weatherData typeFields_windData typeFields_loc)+

section \<open>What \<^verbatim>\<open>Marshal\<close> writes\<close>

lemma Marshal_windData_exported:
  "r \<noteq> Draft \<Longrightarrow> Marshal_windData r v =
     Inr (JSONText (JObject
       [(''Direction'', JString (toValidUTF8 (Direction v))),
        (''Speed'', JNumber (IntLit (sint (Speed v))))]))"
  by (simp add: Marshal_windData_def structEncoder_def typeFields_exported windData_enc_def
      stringEncoder_def intEncoder_def)

lemma Marshal_weatherData_exported:
  "r \<noteq> Draft \<Longrightarrow> Marshal_weatherData r w =
     Inr (JSONText (JObject
       [(''LocationName'', JString (toValidUTF8 (LocationName w))),
        (''Weather'', JString (toValidUTF8 (Weather w))),
        (''Temperature'', JNumber (IntLit (sint (Temperature w)))),
        (''Celsius'', JBool (Celsius w)),
        (''TempForecast'', (case TempForecast w of None \<Rightarrow> JNull
            | Some ns \<Rightarrow> JArray (map (\<lambda>n. JNumber (IntLit (sint n))) ns))),
        (''Wind'', JObject
          [(''Direction'', JString (toValidUTF8 (Direction (Wind w)))),
           (''Speed'', JNumber (IntLit (sint (Speed (Wind w)))))])]))"
  by (simp add: Marshal_weatherData_def structEncoder_def typeFields_exported
      weatherData_enc_def windData_enc_def stringEncoder_def
      intEncoder_def boolEncoder_def sliceEncoder_def split: option.split)

lemma Marshal_loc_exported:
  "r \<noteq> Draft \<Longrightarrow> Marshal_loc fmt r \<lparr>Lat = F32 a, Lon = F32 b\<rparr> =
     Inr (JSONText (JObject [(''Lat'', JNumber (fmt a)), (''Lon'', JNumber (fmt b))]))"
  by (simp add: Marshal_loc_def structEncoder_def typeFields_exported loc_enc_def
      floatEncoder_def)

lemma Marshal_Draft:
  "Marshal_weatherData Draft w = Inr (JSONText (JObject []))"
  "Marshal_windData Draft v = Inr (JSONText (JObject []))"
  "Marshal_loc fmt Draft l = Inr (JSONText (JObject []))"
  by (simp_all add: Marshal_weatherData_def Marshal_windData_def Marshal_loc_def
      structEncoder_def typeFields_weatherData typeFields_windData typeFields_loc)

lemma toValidUTF8_valid: "validString s \<Longrightarrow> toValidUTF8 s = s"
proof (induction s rule: validString.induct)
  case 1
  then show ?case by simp
next
  case (2 c cs)
  then show ?case
    by (simp split: if_splits del: runeLen.simps)
qed

lemma validString_weather:
  "validString ''Zzyzx''" "validString ''cloudy''" "validString ''S''"
  by code_simp+

section \<open>What \<^verbatim>\<open>Unmarshal\<close> reads back\<close>

lemma ParseInt64_sint: "ParseInt64 (IntLit (sint (n :: goint))) = Some n"
proof -
  have "- (2 ^ 63) \<le> sint n" "sint n < 2 ^ 63"
    using sint_ge [of n] sint_lt [of n] by simp_all
  then show ?thesis by (simp add: ParseInt64_def)
qed

lemma decodeInt_sint: "decodeInt (JNumber (IntLit (sint (n :: goint)))) cur = (n, None)"
  by (simp add: decodeInt_def ParseInt64_sint)

lemma decodeElems_ints:
  "decodeElems (map (\<lambda>n. JNumber (IntLit (sint n))) ns) old = (ns, None)"
  by (induction ns arbitrary: old) (simp_all add: decodeInt_sint firstError_def)

lemma decodeFloat32_parsesBack:
  "parsesBack fmt (F32 q) \<Longrightarrow> decodeFloat32 (JNumber (fmt q)) cur = (F32 q, None)"
  by (simp add: parsesBack_def decodeFloat32_def)

lemma parsesBack_finite: "parsesBack fmt f \<Longrightarrow> \<exists>q. f = F32 q"
  by (cases f) (simp_all add: parsesBack_def)

lemma Unmarshal_windData_Marshal:
  assumes "r \<noteq> Draft" and "validString (Direction v)"
  shows "Unmarshal_windData r (JSONText (JObject
       [(''Direction'', JString (toValidUTF8 (Direction v))),
        (''Speed'', JNumber (IntLit (sint (Speed v))))])) t = (v, None)"
  using assms
  by (simp add: Unmarshal_windData_def structDecoder_def typeFields_exported findField_def
      windData_store_def decodeString_def decodeInt_sint firstError_def toValidUTF8_valid)

lemma Unmarshal_weatherData_Marshal:
  assumes "r \<noteq> Draft" and "validString (LocationName w)" and "validString (Weather w)"
    and "validString (Direction (Wind w))"
  shows "Unmarshal_weatherData r (JSONText (JObject
       [(''LocationName'', JString (toValidUTF8 (LocationName w))),
        (''Weather'', JString (toValidUTF8 (Weather w))),
        (''Temperature'', JNumber (IntLit (sint (Temperature w)))),
        (''Celsius'', JBool (Celsius w)),
        (''TempForecast'', (case TempForecast w of None \<Rightarrow> JNull
            | Some ns \<Rightarrow> JArray (map (\<lambda>n. JNumber (IntLit (sint n))) ns))),
        (''Wind'', JObject
          [(''Direction'', JString (toValidUTF8 (Direction (Wind w)))),
           (''Speed'', JNumber (IntLit (sint (Speed (Wind w)))))])])) t = (w, None)"
  using assms
  by (simp add: Unmarshal_weatherData_def structDecoder_def typeFields_exported findField_def
      weatherData_store_def windData_store_def decodeString_def decodeInt_sint decodeBool_def
      decodeIntSlice_def decodeElems_ints
      firstError_def toValidUTF8_valid split: option.split)

lemma Unmarshal_loc_Marshal:
  assumes "r \<noteq> Draft" and "parsesBack fmt (F32 a)" and "parsesBack fmt (F32 b)"
  shows "Unmarshal_loc r
       (JSONText (JObject [(''Lat'', JNumber (fmt a)), (''Lon'', JNumber (fmt b))])) t
     = (\<lparr>Lat = F32 a, Lon = F32 b\<rparr>, None)"
  using assms
  by (simp add: Unmarshal_loc_def structDecoder_def typeFields_exported findField_def
      loc_store_def decodeFloat32_parsesBack firstError_def)

text \<open>The two constants of the client, and a way of writing them that reads back.\<close>

lemmas ParseFloat32_eval =
  ParseFloat32_def fraction_def scale2_def ulpExp.simps roundHalfEven_def pow2_def Let_def

lemma ulpExp_client:
  "ulpExp 3514326 100000 (- 149) = - 18"
  "ulpExp 116104 1000 (- 149) = - 17"
  by (simp_all add: ulpExp.simps scale2_def)

lemma ParseFloat32_client:
  "ParseFloat32 (DecLit 3514326 (- 5)) = Some (F32 (9212595 / 262144))"
  "ParseFloat32 (DecLit (- 116104) (- 3)) = Some (F32 (- (15217983 / 131072)))"
  by (simp_all add: ParseFloat32_def fraction_def ulpExp_client scale2_def roundHalfEven_def
      pow2_def Let_def)

lemma float32_of_client:
  "float32_of (DecLit 3514326 (- 5)) = F32 (9212595 / 262144)"
  "float32_of (DecLit (- 116104) (- 3)) = F32 (- (15217983 / 131072))"
  by (simp_all add: float32_of_def ParseFloat32_client)


section \<open>The decoder of a struct, member by member\<close>

lemma decodeObject_unknown:
  "findField tf k = None \<Longrightarrow>
     decodeObject tf store (kvs @ (k, j) # kvs') v = decodeObject tf store (kvs @ kvs') v"
  by (induction kvs arbitrary: v) (auto split: option.splits prod.splits)

lemma decodeObject_None:
  "findField tf k = None \<Longrightarrow>
     decodeObject tf store ((k, j) # kvs) v = decodeObject tf store kvs v"
  by simp

lemma decodeObject_Some:
  "findField tf k = Some i \<Longrightarrow>
     decodeObject tf store ((k, j) # kvs) v =
       (fst (decodeObject tf store kvs (fst (store i j v))),
        firstError (snd (store i j v)) (snd (decodeObject tf store kvs (fst (store i j v)))))"
  by (simp split: prod.splits)

lemma firstError_eq_None: "firstError e e' = None \<longleftrightarrow> e = None \<and> e' = None"
  by (cases e) (simp_all add: firstError_def)

lemma find_in: "find Q xs = Some x \<Longrightarrow> x \<in> set xs"
  by (induction xs) (auto split: if_splits)

lemma findField_in: "findField tf k = Some i \<Longrightarrow> i \<in> fst ` set tf"
  by (force simp: findField_def split: option.splits dest: find_in)

lemma decodeObject_frame:
  assumes "\<And>i' j v. i' \<in> fst ` set tf \<Longrightarrow> i' \<noteq> i \<Longrightarrow> P (fst (store i' j v)) = P v"
    and "\<not> present tf i kvs"
  shows "P (fst (decodeObject tf store kvs v)) = P v"
  using assms(2)
proof (induction kvs arbitrary: v)
  case Nil
  then show ?case by simp
next
  case (Cons kv kvs)
  obtain k j where kv: "kv = (k, j)" by (cases kv)
  from Cons.prems have np: "\<not> present tf i kvs" and nk: "findField tf k \<noteq> Some i"
    by (simp_all add: present_def kv)
  show ?case
  proof (cases "findField tf k")
    case None
    then show ?thesis using Cons.IH [OF np] by (simp add: kv)
  next
    case (Some i')
    with nk have "i' \<noteq> i" by simp
    moreover from Some have "i' \<in> fst ` set tf" by (rule findField_in)
    ultimately have "P (fst (store i' j v)) = P v" using assms(1) by blast
    moreover have "P (fst (decodeObject tf store kvs (fst (store i' j v)))) = P (fst (store i' j v))"
      by (rule Cons.IH [OF np])
    ultimately show ?thesis
      by (simp add: kv decodeObject_Some [OF Some] del: decodeObject.simps)
  qed
qed

lemma decodeObject_error:
  assumes "(k, j) \<in> set kvs" and "findField tf k = Some i"
    and "\<And>v. snd (store i j v) \<noteq> None"
  shows "snd (decodeObject tf store kvs v) \<noteq> None"
  using assms(1)
proof (induction kvs arbitrary: v)
  case Nil
  then show ?case by simp
next
  case (Cons kv kvs)
  obtain k' j' where kv: "kv = (k', j')" by (cases kv)
  show ?case
  proof (cases "kv = (k, j)")
    case True
    then show ?thesis
      using assms(3) [of v]
      by (simp add: decodeObject_Some [OF assms(2)] firstError_eq_None del: decodeObject.simps)
  next
    case False
    with Cons.prems have "(k, j) \<in> set kvs" by simp
    then have later: "\<And>v. snd (decodeObject tf store kvs v) \<noteq> None" by (rule Cons.IH)
    show ?thesis
    proof (cases "findField tf k'")
      case None
      then show ?thesis using later by (simp add: kv)
    next
      case (Some i')
      then show ?thesis using later
        by (simp add: kv decodeObject_Some [OF Some] firstError_eq_None del: decodeObject.simps)
    qed
  qed
qed

section \<open>Which field a key is stored to\<close>

declare equalFold.simps [simp del]

lemma equalFold_weatherData:
  "equalFold ''LocationName'' ''LocationName''"
  "\<not> equalFold ''LocationName'' ''Weather''"
  "\<not> equalFold ''LocationName'' ''Temperature''"
  "\<not> equalFold ''LocationName'' ''Celsius''"
  "\<not> equalFold ''LocationName'' ''TempForecast''"
  "\<not> equalFold ''LocationName'' ''Wind''"
  "equalFold ''Weather'' ''Weather''"
  "\<not> equalFold ''Weather'' ''Temperature''"
  "\<not> equalFold ''Weather'' ''Celsius''"
  "\<not> equalFold ''Weather'' ''TempForecast''"
  "\<not> equalFold ''Weather'' ''Wind''"
  "equalFold ''Temperature'' ''Temperature''"
  "\<not> equalFold ''Temperature'' ''Celsius''"
  "\<not> equalFold ''Temperature'' ''TempForecast''"
  "\<not> equalFold ''Temperature'' ''Wind''"
  "equalFold ''Celsius'' ''Celsius''"
  "\<not> equalFold ''Celsius'' ''TempForecast''"
  "\<not> equalFold ''Celsius'' ''Wind''"
  "equalFold ''TempForecast'' ''TempForecast''"
  "\<not> equalFold ''TempForecast'' ''Wind''"
  "equalFold ''Wind'' ''Wind''"
  by code_simp+

lemma equalFold_windData_loc:
  "equalFold ''Direction'' ''Direction''"
  "\<not> equalFold ''Direction'' ''Speed''"
  "equalFold ''Speed'' ''Speed''"
  "equalFold ''Lat'' ''Lat''"
  "\<not> equalFold ''Lat'' ''Lon''"
  "equalFold ''Lon'' ''Lon''"
  by code_simp+


lemma findField_weatherData:
  assumes "r \<noteq> Draft"
  shows "findField (typeFields (weatherData_fields r)) k =
     (if equalFold ''LocationName'' k then Some 0
      else if equalFold ''Weather'' k then Some 1
      else if equalFold ''Temperature'' k then Some 2
      else if equalFold ''Celsius'' k then Some 3
      else if equalFold ''TempForecast'' k then Some 4
      else if equalFold ''Wind'' k then Some 5
      else None)"
proof -
  consider "k = ''LocationName''" | "k = ''Weather''" | "k = ''Temperature''"
    | "k = ''Celsius''" | "k = ''TempForecast''" | "k = ''Wind''"
    | "k \<noteq> ''LocationName''" "k \<noteq> ''Weather''" "k \<noteq> ''Temperature''"
      "k \<noteq> ''Celsius''" "k \<noteq> ''TempForecast''" "k \<noteq> ''Wind''"
    by blast
  then show ?thesis
  proof cases
    case 7
    then have "find (\<lambda>(i, n). n = k) (typeFields (weatherData_fields r)) = None"
      using assms by (auto simp: typeFields_exported)
    then show ?thesis
      using assms by (simp add: findField_def typeFields_exported)
  qed (simp_all add: findField_def typeFields_exported assms equalFold_weatherData)
qed

lemma findField_windData:
  assumes "r \<noteq> Draft"
  shows "findField (typeFields (windData_fields r)) k =
     (if equalFold ''Direction'' k then Some 0
      else if equalFold ''Speed'' k then Some 1
      else None)"
proof -
  consider "k = ''Direction''" | "k = ''Speed''" | "k \<noteq> ''Direction''" "k \<noteq> ''Speed''"
    by blast
  then show ?thesis
  proof cases
    case 3
    then have "find (\<lambda>(i, n). n = k) (typeFields (windData_fields r)) = None"
      using assms by (auto simp: typeFields_exported)
    then show ?thesis
      using assms by (simp add: findField_def typeFields_exported)
  qed (simp_all add: findField_def typeFields_exported assms equalFold_windData_loc)
qed

lemma findField_loc:
  assumes "r \<noteq> Draft"
  shows "findField (typeFields (loc_fields r)) k =
     (if equalFold ''Lat'' k then Some 0
      else if equalFold ''Lon'' k then Some 1
      else None)"
proof -
  consider "k = ''Lat''" | "k = ''Lon''" | "k \<noteq> ''Lat''" "k \<noteq> ''Lon''"
    by blast
  then show ?thesis
  proof cases
    case 3
    then have "find (\<lambda>(i, n). n = k) (typeFields (loc_fields r)) = None"
      using assms by (auto simp: typeFields_exported)
    then show ?thesis
      using assms by (simp add: findField_def typeFields_exported)
  qed (simp_all add: findField_def typeFields_exported assms equalFold_windData_loc)
qed

lemma findField_Draft:
  "findField (typeFields (weatherData_fields Draft)) k = None"
  "findField (typeFields (windData_fields Draft)) k = None"
  "findField (typeFields (loc_fields Draft)) k = None"
  by (simp_all add: typeFields_weatherData typeFields_windData typeFields_loc findField_def)

text \<open>
  Matching under case folding looks at a name through \<^const>\<open>lower\<close> only, so that the
  name a field has on the wire matches the keys its Go name matches; and two names of ASCII
  characters that match one key are equal under \<^const>\<open>lower\<close>.
\<close>

lemma equalFold_lower:
  "map lower a = map lower b \<Longrightarrow> equalFold a k = equalFold b k"
proof (induction a arbitrary: b k)
  case Nil
  then show ?case by simp
next
  case (Cons c cs)
  then obtain d ds where b: "b = d # ds" and cd: "lower c = lower d"
    and rest: "map lower cs = map lower ds"
    by (cases b) auto
  show ?case
    unfolding b by (simp add: equalFold.simps cd Cons.IH [OF rest] split: list.splits)
qed

lemma lower_names:
  "map lower ''lat'' = map lower ''Lat''"
  "map lower ''lon'' = map lower ''Lon''"
  "map lower ''direction'' = map lower ''Direction''"
  "map lower ''speed'' = map lower ''Speed''"
  "map lower ''locationName'' = map lower ''LocationName''"
  "map lower ''weather'' = map lower ''Weather''"
  "map lower ''temperature'' = map lower ''Temperature''"
  "map lower ''celsius'' = map lower ''Celsius''"
  "map lower ''wind'' = map lower ''Wind''"
  by code_simp+

lemma equalFold_wire:
  "equalFold ''lat'' k = equalFold ''Lat'' k"
  "equalFold ''lon'' k = equalFold ''Lon'' k"
  "equalFold ''direction'' k = equalFold ''Direction'' k"
  "equalFold ''speed'' k = equalFold ''Speed'' k"
  "equalFold ''locationName'' k = equalFold ''LocationName'' k"
  "equalFold ''weather'' k = equalFold ''Weather'' k"
  "equalFold ''temperature'' k = equalFold ''Temperature'' k"
  "equalFold ''celsius'' k = equalFold ''Celsius'' k"
  "equalFold ''wind'' k = equalFold ''Wind'' k"
  by (rule equalFold_lower, rule lower_names)+



lemma lower_C5: "lower (CHR 0xC5) = CHR 0xC5" "lower (CHR 0xE2) = CHR 0xE2"
  by code_simp+

lemma equalFold_apart:
  assumes "list_all (\<lambda>c. lower c \<noteq> CHR 0xC5 \<and> lower c \<noteq> CHR 0xE2) a"
    and "list_all (\<lambda>c. lower c \<noteq> CHR 0xC5 \<and> lower c \<noteq> CHR 0xE2) b"
    and "equalFold a k" and "equalFold b k"
  shows "map lower a = map lower b"
  using assms
proof (induction a arbitrary: b k)
  case Nil
  then show ?case by (cases b) (auto simp: equalFold.simps split: if_splits list.splits)
next
  case (Cons c cs)
  show ?case
  proof (cases b)
    case Nil
    with Cons.prems show ?thesis
      by (auto simp: equalFold.simps split: if_splits list.splits)
  next
    case b: (Cons d ds)
    have c: "lower c \<noteq> CHR 0xC5" "lower c \<noteq> CHR 0xE2"
      and d: "lower d \<noteq> CHR 0xC5" "lower d \<noteq> CHR 0xE2"
      and cs: "list_all (\<lambda>c. lower c \<noteq> CHR 0xC5 \<and> lower c \<noteq> CHR 0xE2) cs"
      and ds: "list_all (\<lambda>c. lower c \<noteq> CHR 0xC5 \<and> lower c \<noteq> CHR 0xE2) ds"
      using Cons.prems(1,2) by (simp_all add: b)
    consider (s) "lower c = CHR ''s''" "take 2 k = [CHR 0xC5, CHR 0xBF]"
      | (k) "lower c = CHR ''k''" "take 3 k = [CHR 0xE2, CHR 0x84, CHR 0xAA]"
          "\<not> (lower c = CHR ''s'' \<and> take 2 k = [CHR 0xC5, CHR 0xBF])"
      | (plain) "\<not> (lower c = CHR ''s'' \<and> take 2 k = [CHR 0xC5, CHR 0xBF])"
          "\<not> (lower c = CHR ''k'' \<and> take 3 k = [CHR 0xE2, CHR 0x84, CHR 0xAA])"
      by blast
    then show ?thesis
    proof cases
      case s
      then obtain k' where k: "k = CHR 0xC5 # CHR 0xBF # k'"
        by (cases k; cases "tl k") auto
      from Cons.prems(3) s have a': "equalFold cs k'"
        by (simp add: equalFold.simps k)
      from Cons.prems(4) d have "lower d = CHR ''s'' \<and> equalFold ds k'"
        by (auto simp: b k equalFold.simps lower_C5 split: if_splits)
      with Cons.IH [OF cs ds a'] s show ?thesis
        by (simp add: b)
    next
      case k
      then obtain k' where k': "k = CHR 0xE2 # CHR 0x84 # CHR 0xAA # k'"
        by (cases k; cases "tl k"; cases "tl (tl k)") auto
      from Cons.prems(3) k have a': "equalFold cs k'"
        by (simp add: equalFold.simps k')
      from Cons.prems(4) d have "lower d = CHR ''k'' \<and> equalFold ds k'"
        by (auto simp: b k' equalFold.simps lower_C5 split: if_splits)
      with Cons.IH [OF cs ds a'] k show ?thesis
        by (simp add: b)
    next
      case plain
      with Cons.prems(3) obtain x xs where k: "k = x # xs" and x: "lower c = lower x"
        and a': "equalFold cs xs"
        by (auto simp: equalFold.simps split: if_splits list.splits)
      from c x have x': "x \<noteq> CHR 0xC5" "x \<noteq> CHR 0xE2"
        using lower_C5 by auto
      from Cons.prems(4) x' have "lower d = lower x \<and> equalFold ds xs"
        by (auto simp: b k equalFold.simps split: if_splits)
      with Cons.IH [OF cs ds a'] x show ?thesis
        by (simp add: b)
    qed
  qed
qed


lemma equalFold_distinct:
  assumes "list_all (\<lambda>c. lower c \<noteq> CHR 0xC5 \<and> lower c \<noteq> CHR 0xE2) a"
    and "list_all (\<lambda>c. lower c \<noteq> CHR 0xC5 \<and> lower c \<noteq> CHR 0xE2) b"
    and "map lower a \<noteq> map lower b"
  shows "\<not> (equalFold a k \<and> equalFold b k)"
  using equalFold_apart [OF assms(1,2)] assms(3) by blast

lemma weatherData_names_apart:
  "\<not> (equalFold ''LocationName'' k \<and> equalFold ''Weather'' k)"
  "\<not> (equalFold ''LocationName'' k \<and> equalFold ''Temperature'' k)"
  "\<not> (equalFold ''LocationName'' k \<and> equalFold ''Celsius'' k)"
  "\<not> (equalFold ''LocationName'' k \<and> equalFold ''Wind'' k)"
  "\<not> (equalFold ''Weather'' k \<and> equalFold ''Temperature'' k)"
  "\<not> (equalFold ''Weather'' k \<and> equalFold ''Celsius'' k)"
  "\<not> (equalFold ''Weather'' k \<and> equalFold ''Wind'' k)"
  "\<not> (equalFold ''Temperature'' k \<and> equalFold ''Celsius'' k)"
  "\<not> (equalFold ''Temperature'' k \<and> equalFold ''Wind'' k)"
  "\<not> (equalFold ''Celsius'' k \<and> equalFold ''Wind'' k)"
  "\<not> (equalFold ''TempForecast'' k \<and> equalFold ''Wind'' k)"
  "\<not> (equalFold ''Direction'' k \<and> equalFold ''Speed'' k)"
  "\<not> (equalFold ''Lat'' k \<and> equalFold ''Lon'' k)"
  by (rule equalFold_distinct; code_simp)+

section \<open>Fields without a member\<close>

lemma typeFields_positions:
  "i \<in> fst ` set (typeFields (weatherData_fields r)) \<Longrightarrow> i \<le> 5"
  "i \<in> fst ` set (typeFields (windData_fields r)) \<Longrightarrow> i \<le> 1"
  "i \<in> fst ` set (typeFields (loc_fields r)) \<Longrightarrow> i \<le> 1"
  by (cases r; auto simp: typeFields_weatherData typeFields_windData typeFields_loc)+

lemma Unmarshal_object:
  "Unmarshal_weatherData r (JSONText (JObject kvs)) t =
     decodeObject (typeFields (weatherData_fields r)) (weatherData_store r) kvs t"
  "Unmarshal_windData r (JSONText (JObject kvs)) d =
     decodeObject (typeFields (windData_fields r)) windData_store kvs d"
  "Unmarshal_loc r (JSONText (JObject kvs)) l =
     decodeObject (typeFields (loc_fields r)) loc_store kvs l"
  by (simp_all add: Unmarshal_weatherData_def Unmarshal_windData_def Unmarshal_loc_def
      structDecoder_def)

lemma weatherData_missing:
  "\<not> present (typeFields (weatherData_fields r)) 0 kvs \<Longrightarrow>
     LocationName (fst (Unmarshal_weatherData r (JSONText (JObject kvs)) t)) = LocationName t"
  "\<not> present (typeFields (weatherData_fields r)) 1 kvs \<Longrightarrow>
     Weather (fst (Unmarshal_weatherData r (JSONText (JObject kvs)) t)) = Weather t"
  "\<not> present (typeFields (weatherData_fields r)) 2 kvs \<Longrightarrow>
     Temperature (fst (Unmarshal_weatherData r (JSONText (JObject kvs)) t)) = Temperature t"
  "\<not> present (typeFields (weatherData_fields r)) 3 kvs \<Longrightarrow>
     Celsius (fst (Unmarshal_weatherData r (JSONText (JObject kvs)) t)) = Celsius t"
  "\<not> present (typeFields (weatherData_fields r)) 4 kvs \<Longrightarrow>
     TempForecast (fst (Unmarshal_weatherData r (JSONText (JObject kvs)) t)) = TempForecast t"
  "\<not> present (typeFields (weatherData_fields r)) 5 kvs \<Longrightarrow>
     Wind (fst (Unmarshal_weatherData r (JSONText (JObject kvs)) t)) = Wind t"
  unfolding Unmarshal_object
  by (rule decodeObject_frame;
      auto simp: weatherData_store_def split: prod.splits dest!: typeFields_positions)+

lemma windData_missing:
  "\<not> present (typeFields (windData_fields r)) 0 kvs \<Longrightarrow>
     Direction (fst (Unmarshal_windData r (JSONText (JObject kvs)) d)) = Direction d"
  "\<not> present (typeFields (windData_fields r)) 1 kvs \<Longrightarrow>
     Speed (fst (Unmarshal_windData r (JSONText (JObject kvs)) d)) = Speed d"
  unfolding Unmarshal_object
  by (rule decodeObject_frame;
      auto simp: windData_store_def split: prod.splits dest!: typeFields_positions)+

lemma loc_missing:
  "\<not> present (typeFields (loc_fields r)) 0 kvs \<Longrightarrow>
     Lat (fst (Unmarshal_loc r (JSONText (JObject kvs)) l)) = Lat l"
  "\<not> present (typeFields (loc_fields r)) 1 kvs \<Longrightarrow>
     Lon (fst (Unmarshal_loc r (JSONText (JObject kvs)) l)) = Lon l"
  unfolding Unmarshal_object
  by (rule decodeObject_frame;
      auto simp: loc_store_def split: prod.splits dest!: typeFields_positions)+

section \<open>The examples\<close>

lemma equalFold_examples:
  "equalFold ''Lat'' ''lat''" "\<not> equalFold ''Lat'' ''lon''" "equalFold ''Lon'' ''lon''"
  "equalFold ''Lat'' ''LAT''"
  "\<not> equalFold ''LocationName'' ''WEATHER''" "equalFold ''Weather'' ''WEATHER''"
  by code_simp+

lemma Unmarshal_loc_zzyzx:
  assumes "r \<noteq> Draft"
  shows "Unmarshal_loc r zzyzx loc_zero =
     (\<lparr>Lat = F32 (9212595 / 262144), Lon = F32 (- (15217983 / 131072))\<rparr>, None)"
  using assms
  by (simp add: zzyzx_def Unmarshal_object findField_loc equalFold_examples loc_store_def
      decodeFloat32_def ParseFloat32_client firstError_def loc_zero_def)

lemma Unmarshal_loc_upperLAT:
  assumes "r \<noteq> Draft"
  shows "Unmarshal_loc r upperLAT loc_zero = (\<lparr>Lat = F32 (9212595 / 262144), Lon = F32 0\<rparr>, None)"
  using assms
  by (simp add: upperLAT_def Unmarshal_object findField_loc equalFold_examples loc_store_def
      decodeFloat32_def ParseFloat32_client firstError_def loc_zero_def)

lemma Unmarshal_sunny:
  "Unmarshal_weatherData Published sunny weatherData_zero
     = (weatherData_zero\<lparr>Weather := ''sunny''\<rparr>, None)"
  "Unmarshal_weatherData Part000 sunny weatherData_zero
     = (weatherData_zero\<lparr>Weather := ''sunny''\<rparr>, None)"
  "Unmarshal_weatherData Draft sunny weatherData_zero = (weatherData_zero, None)"
  by code_simp+

lemma Unmarshal_unknown:
  "findField (typeFields (weatherData_fields r)) k = None \<Longrightarrow>
     Unmarshal_weatherData r (JSONText (JObject (kvs @ (k, j) # kvs'))) t
       = Unmarshal_weatherData r (JSONText (JObject (kvs @ kvs'))) t"
  "findField (typeFields (windData_fields r)) k = None \<Longrightarrow>
     Unmarshal_windData r (JSONText (JObject (kvs @ (k, j) # kvs'))) d
       = Unmarshal_windData r (JSONText (JObject (kvs @ kvs'))) d"
  "findField (typeFields (loc_fields r)) k = None \<Longrightarrow>
     Unmarshal_loc r (JSONText (JObject (kvs @ (k, j) # kvs'))) l
       = Unmarshal_loc r (JSONText (JObject (kvs @ kvs'))) l"
  unfolding Unmarshal_object by (rule decodeObject_unknown, assumption)+

lemma humidity_unknown:
  "findField (typeFields (weatherData_fields Published)) ''humidity'' = None"
  "findField (typeFields (windData_fields Published)) ''humidity'' = None"
  "findField (typeFields (loc_fields Published)) ''humidity'' = None"
  by code_simp+

lemma pressure_only:
  "\<not> present (typeFields (weatherData_fields Published)) 0 [(''pressure'', JBool True)]"
  "\<not> present (typeFields (weatherData_fields Published)) 1 [(''pressure'', JBool True)]"
  "\<not> present (typeFields (weatherData_fields Published)) 2 [(''pressure'', JBool True)]"
  "\<not> present (typeFields (weatherData_fields Published)) 3 [(''pressure'', JBool True)]"
  "\<not> present (typeFields (weatherData_fields Published)) 4 [(''pressure'', JBool True)]"
  "\<not> present (typeFields (weatherData_fields Published)) 5 [(''pressure'', JBool True)]"
  "\<not> present (typeFields (windData_fields Published)) 0 [(''pressure'', JBool True)]"
  "\<not> present (typeFields (windData_fields Published)) 1 [(''pressure'', JBool True)]"
  "\<not> present (typeFields (loc_fields Published)) 0 [(''pressure'', JBool True)]"
  "\<not> present (typeFields (loc_fields Published)) 1 [(''pressure'', JBool True)]"
  by code_simp+

section \<open>Values that do not fit\<close>

lemma decodeInt_error: "\<not> fitsInt j \<Longrightarrow> snd (decodeInt j cur) \<noteq> None"
  by (cases j) (auto simp: fitsInt_def decodeInt_def ParseInt64_def split: number.splits)

lemma decodeString_error: "\<not> fitsString j \<Longrightarrow> snd (decodeString j cur) \<noteq> None"
  by (cases j) (auto simp: fitsString_def decodeString_def)

lemma decodeBool_error: "\<not> fitsBool j \<Longrightarrow> snd (decodeBool j cur) \<noteq> None"
  by (cases j) (auto simp: fitsBool_def decodeBool_def)

lemma decodeFloat32_error: "\<not> fitsFloat32 j \<Longrightarrow> snd (decodeFloat32 j cur) \<noteq> None"
  by (cases j) (auto simp: fitsFloat32_def decodeFloat32_def)

lemma snd_decodeElems:
  "snd (decodeElems (j # js) old) =
     firstError (snd (decodeInt j (case old of [] \<Rightarrow> 0 | x # _ \<Rightarrow> x)))
       (snd (decodeElems js (tl old)))"
  by (simp split: prod.splits)

lemma decodeElems_error: "\<not> list_all fitsInt js \<Longrightarrow> snd (decodeElems js old) \<noteq> None"
proof (induction js arbitrary: old)
  case Nil
  then show ?case by simp
next
  case (Cons j js)
  show ?case
  proof (cases "fitsInt j")
    case True
    with Cons.prems have "\<not> list_all fitsInt js" by simp
    then have "snd (decodeElems js (tl old)) \<noteq> None" by (rule Cons.IH)
    then show ?thesis
      by (simp add: snd_decodeElems firstError_eq_None del: decodeElems.simps)
  next
    case False
    then have "snd (decodeInt j (case old of [] \<Rightarrow> 0 | x # _ \<Rightarrow> x)) \<noteq> None"
      by (rule decodeInt_error)
    then show ?thesis
      by (simp add: snd_decodeElems firstError_eq_None del: decodeElems.simps)
  qed
qed

lemma snd_decodeIntSlice:
  "snd (decodeIntSlice (JArray js) cur) =
     snd (decodeElems js (case cur of None \<Rightarrow> [] | Some old \<Rightarrow> old))"
  by (simp add: decodeIntSlice_def split: prod.splits)

lemma decodeIntSlice_error: "\<not> fitsIntSlice j \<Longrightarrow> snd (decodeIntSlice j cur) \<noteq> None"
proof (cases j)
  case (JArray js)
  assume "\<not> fitsIntSlice j"
  with JArray have "\<not> list_all fitsInt js" by (simp add: fitsIntSlice_def)
  then show ?thesis
    unfolding JArray snd_decodeIntSlice by (rule decodeElems_error)
qed (simp_all add: fitsIntSlice_def decodeIntSlice_def)

lemma snd_loc_store:
  "snd (loc_store i j v) = snd (decodeFloat32 j (if i = 0 then Lat v else Lon v))"
  by (simp add: loc_store_def split: prod.splits)

lemma snd_windData_store:
  "snd (windData_store i j v) =
     (if i = 0 then snd (decodeString j (Direction v)) else snd (decodeInt j (Speed v)))"
  by (simp add: windData_store_def split: prod.splits)

lemma snd_weatherData_store:
  "snd (weatherData_store r i j v) =
     (if i = 0 then snd (decodeString j (LocationName v))
      else if i = 1 then snd (decodeString j (Weather v))
      else if i = 2 then snd (decodeInt j (Temperature v))
      else if i = 3 then snd (decodeBool j (Celsius v))
      else if i = 4 then snd (decodeIntSlice j (TempForecast v))
      else snd (structDecoder (windData_fields r) windData_store ''windData'' j (Wind v)))"
  by (simp add: weatherData_store_def split: prod.splits)

lemma loc_store_error: "\<not> fitsFloat32 j \<Longrightarrow> snd (loc_store i j v) \<noteq> None"
  by (simp add: snd_loc_store decodeFloat32_error del: not_None_eq)

lemma windData_store_error: "\<not> windData_fits i j \<Longrightarrow> snd (windData_store i j v) \<noteq> None"
  by (auto simp add: snd_windData_store windData_fits_def decodeString_error decodeInt_error
      simp del: not_None_eq split: if_splits)

lemma windData_decoder_error:
  assumes "\<not> fitsWindData r j"
  shows "snd (structDecoder (windData_fields r) windData_store ty j v) \<noteq> None"
proof (cases j)
  case (JObject kvs)
  with assms obtain k x where kx: "(k, x) \<in> set kvs"
    and nf: "\<not> (case findField (typeFields (windData_fields r)) k of
                  None \<Rightarrow> True | Some i \<Rightarrow> windData_fits i x)"
    by (auto simp: fitsWindData_def list_all_iff)
  then obtain i where i: "findField (typeFields (windData_fields r)) k = Some i"
    and ni: "\<not> windData_fits i x"
    by (auto split: option.splits)
  have "snd (decodeObject (typeFields (windData_fields r)) windData_store kvs v) \<noteq> None"
    using kx i windData_store_error [OF ni] by (rule decodeObject_error)
  then show ?thesis by (simp add: JObject structDecoder_def)
qed (use assms in \<open>simp_all add: fitsWindData_def structDecoder_def\<close>)

lemma weatherData_store_error:
  assumes "\<not> weatherData_fits r i j"
  shows "snd (weatherData_store r i j v) \<noteq> None"
  using assms
  by (auto simp add: snd_weatherData_store weatherData_fits_def decodeString_error
      decodeInt_error decodeBool_error decodeIntSlice_error windData_decoder_error
      simp del: not_None_eq split: if_splits)

lemma Unmarshal_error:
  "(k, j) \<in> set kvs \<Longrightarrow> findField (typeFields (loc_fields r)) k = Some i \<Longrightarrow> \<not> fitsFloat32 j
     \<Longrightarrow> snd (Unmarshal_loc r (JSONText (JObject kvs)) l) \<noteq> None"
  "(k, j) \<in> set kvs \<Longrightarrow> findField (typeFields (weatherData_fields r)) k = Some i
     \<Longrightarrow> \<not> weatherData_fits r i j
     \<Longrightarrow> snd (Unmarshal_weatherData r (JSONText (JObject kvs)) t) \<noteq> None"
  "(k, j) \<in> set kvs \<Longrightarrow> findField (typeFields (windData_fields r)) k = Some i
     \<Longrightarrow> \<not> windData_fits i j
     \<Longrightarrow> snd (Unmarshal_windData r (JSONText (JObject kvs)) d) \<noteq> None"
  unfolding Unmarshal_object
  by (erule (1) decodeObject_error, erule loc_store_error weatherData_store_error
      windData_store_error)+

lemma Unmarshal_OtherText:
  "Unmarshal_loc r (OtherText s) l = (l, Some SyntaxError)"
  "Unmarshal_weatherData r (OtherText s) t = (t, Some SyntaxError)"
  "Unmarshal_windData r (OtherText s) d = (d, Some SyntaxError)"
  "decode (OtherText s) = (weatherData_zero, Some SyntaxError)"
  by (simp_all add: Unmarshal_loc_def Unmarshal_weatherData_def Unmarshal_windData_def decode_def)

lemma Unmarshal_loc_notANumber:
  "r \<noteq> Draft \<Longrightarrow> Unmarshal_loc r notANumber loc_zero
     = (loc_zero, Some (UnmarshalTypeError ''string'' ''float32''))"
  by (simp add: notANumber_def Unmarshal_object findField_loc equalFold_examples loc_store_def
      decodeFloat32_def firstError_def)

section \<open>The handler\<close>

lemma weatherHandler_read_error:
  "Body req = Inl msg \<Longrightarrow> weatherHandler marshal r w req p
     = Exited 1 (p\<lparr>logged := logged p @ [LogText (''Error reading the body'' @ msg)]\<rparr>)"
  by (simp add: weatherHandler_def Fatal_def)

lemma weatherHandler_decode_error:
  "Body req = Inr jsn \<Longrightarrow> Unmarshal_loc r jsn loc_zero = (l, Some err) \<Longrightarrow>
     weatherHandler marshal r w req p
       = Exited 1 (p\<lparr>logged := logged p @ [LogError ''Decoding error: '' err]\<rparr>)"
  by (simp add: weatherHandler_def Fatal_def)

lemma weatherHandler_ok:
  "Body req = Inr jsn \<Longrightarrow> Unmarshal_loc r jsn loc_zero = (l, None) \<Longrightarrow> marshal weather = Inr b
     \<Longrightarrow> weatherHandler marshal r w req p
       = Returned (Write b (Header_Set ''Content-Type'' ''application/json'' w))
           (if r = Part000
            then p\<lparr>logged := logged p @ [LogValue ''Received: '' l], stdout := stdout p @ [Dump b]\<rparr>
            else p\<lparr>logged := logged p @ [LogValue ''Received: '' l]\<rparr>)"
  by (simp add: weatherHandler_def Let_def)

lemma weatherHandler_returns:
  assumes "Body req = Inr jsn" and "Unmarshal_loc r jsn loc_zero = (l, None)"
  shows "weatherHandler marshal r w req p
     = Returned
         (case marshal weather of
            Inl err \<Rightarrow> Write (OtherText []) (Header_Set ''Content-Type'' ''application/json''
                         (Write (ErrorText ''Error: '' err) w))
          | Inr b \<Rightarrow> Write b (Header_Set ''Content-Type'' ''application/json'' w))
         (if r = Part000
          then p\<lparr>logged := logged p @ [LogValue ''Received: '' l],
                 stdout := stdout p @ [Dump (case marshal weather of
                                               Inl err \<Rightarrow> OtherText [] | Inr b \<Rightarrow> b)]\<rparr>
          else p\<lparr>logged := logged p @ [LogValue ''Received: '' l]\<rparr>)"
  using assms by (cases "marshal weather") (simp_all add: weatherHandler_def Let_def)

lemma Marshal_weather:
  "r \<noteq> Draft \<Longrightarrow> Marshal_weatherData r weather = Inr weatherJSON"
  by (simp add: Marshal_weatherData_exported weather_def weatherJSON_def toValidUTF8_valid
      validString_weather)

lemma Unmarshal_weatherJSON:
  "r \<noteq> Draft \<Longrightarrow> Unmarshal_weatherData r weatherJSON weatherData_zero = (weather, None)"
  using Unmarshal_weatherData_Marshal [of r weather weatherData_zero]
  by (simp add: weather_def weatherJSON_def toValidUTF8_valid validString_weather)

lemma finishRequest_weather:
  "finishRequest (Write weatherJSON (Header_Set ''Content-Type'' ''application/json''
     newResponseWriter)) = weatherResponse"
  by (simp add: finishRequest_def Write_def WriteHeader_def Header_Set_def newResponseWriter_def
      weatherResponse_def Let_def)

lemma witness_members:
  "findField (typeFields (loc_fields Published)) ''lat'' = Some 0"
  "findField (typeFields (weatherData_fields Published)) ''temperature'' = Some 2"
  "findField (typeFields (windData_fields Published)) ''speed'' = Some 1"
  "\<not> fitsFloat32 (JString ''not-a-number'')"
  "\<not> weatherData_fits Published 2 (JNumber (DecLit 315 (- 1)))"
  "\<not> windData_fits 1 (JString ''fast'')"
  by code_simp+

lemma Unmarshal_loc_zzyzx_ok:
  "r \<noteq> Draft \<Longrightarrow> snd (Unmarshal_loc r zzyzx loc_zero) = None"
  by (simp add: Unmarshal_loc_zzyzx)

lemma weatherHandler_weather:
  assumes "r \<noteq> Draft" and "Body req = Inr jsn" and "snd (Unmarshal_loc r jsn loc_zero) = None"
  shows "\<exists>w' p'. weatherHandler (Marshal_weatherData r) r newResponseWriter req p = Returned w' p'
           \<and> finishRequest w' = weatherResponse"
proof -
  obtain l where "Unmarshal_loc r jsn loc_zero = (l, None)"
    using assms(3) by (cases "Unmarshal_loc r jsn loc_zero") simp
  with assms show ?thesis
    by (simp add: weatherHandler_ok [where b = weatherJSON] Marshal_weather
        finishRequest_weather)
qed

lemma serve_weather:
  assumes "r \<noteq> Draft" and "Body req = Inr jsn" and "snd (Unmarshal_loc r jsn loc_zero) = None"
    and "list_ex (\<lambda>pattern. pathMatch pattern (URL req)) (patterns p)"
  shows "\<exists>p'. serve r [req] p = Blocked p' \<and> served p' = served p @ [weatherResponse]"
proof -
  obtain l where "Unmarshal_loc r jsn loc_zero = (l, None)"
    using assms(3) by (cases "Unmarshal_loc r jsn loc_zero") simp
  with assms show ?thesis
    by (simp add: weatherHandler_ok [where b = weatherJSON] Marshal_weather
        finishRequest_weather)
qed

lemma pathMatch_root: "pathMatch ''/'' (CHR ''/'' # path)"
  by (simp add: pathMatch_def)

lemma server_one:
  assumes "r \<noteq> Draft" and "Body req = Inr jsn" and "snd (Unmarshal_loc r jsn loc_zero) = None"
    and "URL req = CHR ''/'' # path"
  shows "\<exists>p'. server r \<lparr>bound = True, incoming = [req], roundTrip = rt\<rparr> proc_start = Blocked p'
           \<and> served p' = [weatherResponse]"
  using serve_weather [OF assms(1-3),
      of "proc_start\<lparr>patterns := [''/''], listening := ['':8080'']\<rparr>"] assms(4)
  by (simp add: server_def proc_start_def pathMatch_root Let_def)

section \<open>The client and the server loop\<close>

lemma client_fails:
  "client fmt r (e\<lparr>roundTrip := fails msg\<rparr>) p =
     Exited 1 ((if r = Part000
                then p\<lparr>stdout := stdout p @ [Dump (case Marshal_loc fmt r
                        \<lparr>Lat = float32_of (DecLit 3514326 (- 5)),
                         Lon = float32_of (DecLit (- 116104) (- 3))\<rparr> of
                      Inl err \<Rightarrow> OtherText [] | Inr b \<Rightarrow> b)]\<rparr>
                else p)
       \<lparr>requested := requested p @
          [\<lparr>Method = ''POST'', URL = ''http://localhost:8080'',
            ReqHeader = [(''Content-Type'', ''application/json'')],
            Body = Inr (case Marshal_loc fmt r
                        \<lparr>Lat = float32_of (DecLit 3514326 (- 5)),
                         Lon = float32_of (DecLit (- 116104) (- 3))\<rparr> of
                      Inl err \<Rightarrow> OtherText [] | Inr b \<Rightarrow> b)\<rparr>],
        logged := logged p @ [LogText msg]\<rparr>)"
  by (simp add: client_def fails_def Fatal_def Let_def)

lemma serve_fatal:
  assumes "list_ex (\<lambda>pattern. pathMatch pattern (URL req)) (patterns p)"
    and "weatherHandler (Marshal_weatherData r) r newResponseWriter req p = Exited c p'"
  shows "serve r (req # reqs) p = Exited c p'"
  using assms by simp

lemma client_Marshal:
  "Marshal_loc fmt_client Published
     \<lparr>Lat = float32_of (DecLit 3514326 (- 5)), Lon = float32_of (DecLit (- 116104) (- 3))\<rparr>
   = Inr (JSONText (JObject [(''Lat'', JNumber (DecLit 3514326 (- 5))),
        (''Lon'', JNumber (DecLit (- 116104) (- 3)))]))"
  by (simp add: float32_of_client Marshal_loc_exported fmt_client_def)

section \<open>Numbers that are written and read back\<close>

subsection \<open>Fractions and powers of two\<close>

lemma pow2_powi: "pow2 k = 2 powi k"
  by (simp add: pow2_def power_int_def power_one_over inverse_eq_divide)

lemma pow2_pos [simp]: "0 < pow2 k"
  by (simp add: pow2_powi)

lemma pow2_add: "pow2 (a + b) = pow2 a * pow2 b"
  by (simp add: pow2_powi power_int_add)

lemma pow2_0 [simp]: "pow2 0 = 1"
  by (simp add: pow2_def)

lemma pow2_minus: "pow2 (- a) = 1 / pow2 a"
  by (simp add: pow2_powi power_int_minus inverse_eq_divide)

lemma pow2_mono: "a \<le> b \<Longrightarrow> pow2 a \<le> pow2 b"
  by (simp add: pow2_powi power_int_increasing)

lemma snd_scale2: "0 < snd pq \<Longrightarrow> 0 < snd (scale2 k pq)"
  by (cases pq) (simp add: scale2_def)

lemma fr_scale2: "fr (scale2 k pq) = fr pq / pow2 k"
  by (cases pq) (simp add: scale2_def fr_def pow2_def)

lemma le_fr: "0 < d \<Longrightarrow> (d \<le> n) = (1 \<le> fr (n, d))"
  by (simp add: fr_def)

lemma ulpExp_eq:
  assumes "0 < q" and "k0 \<le> K" and "K \<le> 104"
    and "k0 < K \<longrightarrow> pow2 (K + 23) \<le> fr (p, q)"
    and "K < 104 \<longrightarrow> fr (p, q) < pow2 (K + 24)"
  shows "ulpExp p q k0 = K"
  using assms(2,4)
proof (induction "nat (K - k0)" arbitrary: k0)
  case 0
  then have k: "k0 = K" by simp
  have "\<not> (K < 104 \<and> (case scale2 (K + 24) (p, q) of (n, d) \<Rightarrow> d \<le> n))"
  proof
    assume a: "K < 104 \<and> (case scale2 (K + 24) (p, q) of (n, d) \<Rightarrow> d \<le> n)"
    obtain n d where nd: "scale2 (K + 24) (p, q) = (n, d)" by force
    have d: "0 < d" using snd_scale2 [of "(p, q)" "K + 24"] assms(1) nd by simp
    from a nd have "d \<le> n" by simp
    with d have "1 \<le> fr (n, d)" by (simp add: le_fr)
    then have "pow2 (K + 24) \<le> fr (p, q)"
      using fr_scale2 [of "K + 24" "(p, q)"] nd by (simp add: pos_le_divide_eq)
    with a assms(5) show False by simp
  qed
  then show ?case
    unfolding k by (subst ulpExp.simps) (simp only: if_False)
next
  case (Suc j)
  then have lt: "k0 < K" by simp
  with Suc.prems have v: "pow2 (K + 23) \<le> fr (p, q)" by simp
  have "pow2 (k0 + 24) \<le> pow2 (K + 23)"
    using lt by (intro pow2_mono) simp
  with v have ge: "pow2 (k0 + 24) \<le> fr (p, q)" by simp
  obtain n d where nd: "scale2 (k0 + 24) (p, q) = (n, d)" by force
  have d: "0 < d" using snd_scale2 [of "(p, q)" "k0 + 24"] assms(1) nd by simp
  from ge have "1 \<le> fr (n, d)"
    using fr_scale2 [of "k0 + 24" "(p, q)"] nd by (simp add: pos_le_divide_eq)
  with d have "d \<le> n" by (simp add: le_fr)
  moreover have "k0 < 104" using lt assms(3) by simp
  ultimately have step: "ulpExp p q k0 = ulpExp p q (k0 + 1)"
    by (subst ulpExp.simps) (simp add: nd)
  have "ulpExp p q (k0 + 1) = K"
  proof (rule Suc.hyps(1))
    show "j = nat (K - (k0 + 1))" using Suc.hyps(2) by simp
    show "k0 + 1 \<le> K" using lt by simp
    show "k0 + 1 < K \<longrightarrow> pow2 (K + 23) \<le> fr (p, q)" using v by simp
  qed
  with step show ?case by simp
qed

lemma roundHalfEven_cases:
  assumes "0 < d"
  shows "roundHalfEven (n, d) = n div d \<or> roundHalfEven (n, d) = n div d + 1"
  by (simp add: roundHalfEven_def Let_def)

lemma roundHalfEven_near:
  assumes d: "0 < d" and near: "\<bar>2 * n - 2 * M * d\<bar> < d"
  shows "roundHalfEven (n, d) = M"
proof -
  define f where "f = n div d"
  define r where "r = n mod d"
  have n: "n = f * d + r" and r: "0 \<le> r" "r < d"
    using d by (simp_all add: f_def r_def)
  define t where "t = f - M"
  have eq: "2 * n - 2 * M * d = 2 * (t * d) + 2 * r"
    by (simp add: n t_def algebra_simps)
  have "t = 0 \<or> t = - 1"
  proof (rule ccontr)
    assume "\<not> (t = 0 \<or> t = - 1)"
    then consider "1 \<le> t" | "t \<le> - 2" by linarith
    then show False
    proof cases
      case 1
      then have "d \<le> t * d" using d by (simp add: mult_le_cancel_right1)
      with near eq r show False by linarith
    next
      case 2
      then have "t * d \<le> - 2 * d" using mult_right_mono [of t "- 2" d] d by simp
      with near eq r show False by linarith
    qed
  qed
  then show ?thesis
  proof
    assume t: "t = 0"
    with near eq have "2 * r < d" by simp
    then show ?thesis
      using t by (simp add: roundHalfEven_def Let_def f_def [symmetric] r_def [symmetric] t_def)
  next
    assume t: "t = - 1"
    with near eq have "d < 2 * r" by simp
    then show ?thesis
      using t by (simp add: roundHalfEven_def Let_def f_def [symmetric] r_def [symmetric] t_def)
  qed
qed

lemma roundHalfEven_tie:
  assumes d: "0 < d" and tie: "\<bar>2 * n - 2 * M * d\<bar> = d" and M: "even M"
  shows "roundHalfEven (n, d) = M"
proof -
  define f where "f = n div d"
  define r where "r = n mod d"
  have n: "n = f * d + r" and r: "0 \<le> r" "r < d"
    using d by (simp_all add: f_def r_def)
  define t where "t = f - M"
  have eq: "2 * n - 2 * M * d = 2 * (t * d) + 2 * r"
    by (simp add: n t_def algebra_simps)
  have "t = 0 \<or> t = - 1"
  proof (rule ccontr)
    assume "\<not> (t = 0 \<or> t = - 1)"
    then consider "1 \<le> t" | "t \<le> - 2" by linarith
    then show False
    proof cases
      case 1
      then have "d \<le> t * d" using d by (simp add: mult_le_cancel_right1)
      with tie eq r show False by linarith
    next
      case 2
      then have "t * d \<le> - 2 * d" using mult_right_mono [of t "- 2" d] d by simp
      with tie eq r show False by linarith
    qed
  qed
  then show ?thesis
  proof
    assume t: "t = 0"
    with tie eq r d have "2 * r = d" by simp
    then show ?thesis
      using t M by (simp add: roundHalfEven_def Let_def f_def [symmetric] r_def [symmetric] t_def)
  next
    assume t: "t = - 1"
    with tie eq r d have "2 * r = d" by simp
    moreover have "odd f" using t M by (simp add: t_def) presburger
    ultimately show ?thesis
      using t by (simp add: roundHalfEven_def Let_def f_def [symmetric] r_def [symmetric] t_def)
  qed
qed

subsection \<open>Rounding to the nearest integer\<close>

lemma fr_diff:
  assumes "0 < d"
  shows "2 * (fr (n, d) - of_int M) * of_int d = of_int (2 * n - 2 * M * d)"
  using assms by (simp add: fr_def field_simps)

lemma roundHalfEven_fr:
  assumes d: "0 < snd nd"
    and near: "\<bar>fr nd - of_int M\<bar> \<le> 1 / 2"
    and tie: "\<bar>fr nd - of_int M\<bar> = 1 / 2 \<longrightarrow> even M"
  shows "roundHalfEven nd = M"
proof -
  obtain n d' where nd: "nd = (n, d')" by (cases nd)
  with d have d': "0 < d'" by simp
  have "rat_of_int (2 * n - 2 * M * d') = 2 * (fr nd - of_int M) * of_int d'"
    using fr_diff [OF d', of n M] by (simp only: nd)
  then have "\<bar>rat_of_int (2 * n - 2 * M * d')\<bar> = \<bar>2 * (fr nd - of_int M) * of_int d'\<bar>"
    by (simp only:)
  also have "\<dots> = 2 * \<bar>fr nd - of_int M\<bar> * of_int d'"
    using d' by (simp only: abs_mult abs_of_pos of_int_0_less_iff abs_numeral)
  finally have scaled:
    "\<bar>rat_of_int (2 * n - 2 * M * d')\<bar> = 2 * \<bar>fr nd - of_int M\<bar> * of_int d'" .
  show ?thesis
  proof (cases "\<bar>fr nd - of_int M\<bar> = 1 / 2")
    case True
    with scaled have "\<bar>rat_of_int (2 * n - 2 * M * d')\<bar> = of_int d'" by simp
    then have "rat_of_int \<bar>2 * n - 2 * M * d'\<bar> = of_int d'" by simp
    then have "\<bar>2 * n - 2 * M * d'\<bar> = d'" by (simp only: of_int_eq_iff)
    with d' tie True show ?thesis
      unfolding nd by (intro roundHalfEven_tie) simp_all
  next
    case False
    with near have "\<bar>fr nd - of_int M\<bar> < 1 / 2" by simp
    then have "2 * \<bar>fr nd - of_int M\<bar> * of_int d' < of_int d'"
      using d' by simp
    with scaled have "rat_of_int \<bar>2 * n - 2 * M * d'\<bar> < of_int d'" by simp
    then have "\<bar>2 * n - 2 * M * d'\<bar> < d'" by (simp only: of_int_less_iff)
    with d' show ?thesis
      unfolding nd by (intro roundHalfEven_near) simp_all
  qed
qed

subsection \<open>Decimals between the bounds\<close>

lemma pow10_powi: "pow10 k = 10 powi k"
  by (simp add: pow10_def power_int_def power_one_over inverse_eq_divide)

lemma pow10_pos [simp]: "0 < pow10 k"
  by (simp add: pow10_powi)

lemma pow10_neq0 [simp]: "pow10 k \<noteq> 0"
  by (simp add: pow10_powi)

lemma pow10_minus: "pow10 (- a) = 1 / pow10 a"
  by (simp add: pow10_powi power_int_minus inverse_eq_divide)

lemma snd_scale10: "0 < snd pq \<Longrightarrow> 0 < snd (scale10 k pq)"
  by (cases pq) (simp add: scale10_def)

lemma fr_scale10: "fr (scale10 k pq) = fr pq / pow10 k"
  by (cases pq) (simp add: scale10_def fr_def pow10_def)

lemma inside_iff:
  "inside m e (D, k) =
     (if even m
      then of_int (lowerBound m e) \<le> of_int D * pow10 k / pow2 (e - 2)
         \<and> of_int D * pow10 k / pow2 (e - 2) \<le> of_int (upperBound m)
      else of_int (lowerBound m e) < of_int D * pow10 k / pow2 (e - 2)
         \<and> of_int D * pow10 k / pow2 (e - 2) < of_int (upperBound m))"
proof -
  obtain a b where ab: "scale2 (e - 2) (scale10 (- k) (D, 1)) = (a, b)" by force
  have b: "0 < b"
    using snd_scale2 [of "scale10 (- k) (D, 1)" "e - 2"] snd_scale10 [of "(D, 1)" "- k"] ab
    by simp
  have "fr (a, b) = fr (scale10 (- k) (D, 1)) / pow2 (e - 2)"
    using fr_scale2 [of "e - 2" "scale10 (- k) (D, 1)"] by (simp only: ab)
  also have "fr (scale10 (- k) (D, 1)) = fr (D, 1) / pow10 (- k)"
    by (rule fr_scale10)
  also have "fr (D, 1) = of_int D"
    by (simp add: fr_def)
  finally have "fr (a, b) = of_int D * pow10 k / pow2 (e - 2)"
    by (simp add: pow10_minus)
  then have w: "of_int D * pow10 k / pow2 (e - 2) = of_int a / of_int b"
    by (simp add: fr_def)
  have le: "(c * b \<le> a) = (rat_of_int c \<le> of_int a / of_int b)"
    and ge: "(a \<le> c * b) = (of_int a / of_int b \<le> rat_of_int c)"
    and lt: "(c * b < a) = (rat_of_int c < of_int a / of_int b)"
    and gt: "(a < c * b) = (of_int a / of_int b < rat_of_int c)" for c
  proof -
    have "(c * b \<le> a) = (rat_of_int (c * b) \<le> of_int a)" by (simp only: of_int_le_iff)
    also have "\<dots> = (rat_of_int c \<le> of_int a / of_int b)" using b by (simp add: pos_le_divide_eq)
    finally show "(c * b \<le> a) = (rat_of_int c \<le> of_int a / of_int b)" .
    have "(a \<le> c * b) = (rat_of_int a \<le> of_int (c * b))" by (simp only: of_int_le_iff)
    also have "\<dots> = (of_int a / of_int b \<le> rat_of_int c)" using b by (simp add: pos_divide_le_eq)
    finally show "(a \<le> c * b) = (of_int a / of_int b \<le> rat_of_int c)" .
    have "(c * b < a) = (rat_of_int (c * b) < of_int a)" by (simp only: of_int_less_iff)
    also have "\<dots> = (rat_of_int c < of_int a / of_int b)" using b by (simp add: pos_less_divide_eq)
    finally show "(c * b < a) = (rat_of_int c < of_int a / of_int b)" .
    have "(a < c * b) = (rat_of_int a < of_int (c * b))" by (simp only: of_int_less_iff)
    also have "\<dots> = (of_int a / of_int b < rat_of_int c)" using b by (simp add: pos_divide_less_eq)
    finally show "(a < c * b) = (of_int a / of_int b < rat_of_int c)" .
  qed
  show ?thesis
    unfolding w by (simp add: inside_def ab le ge lt gt)
qed

subsection \<open>The \<^verbatim>\<open>float32\<close> next to a fraction\<close>

lemma pow2_numeral: "pow2 25 = 2 ^ 25" "pow2 26 = 2 ^ 26" "pow2 24 = 2 ^ 24" "pow2 2 = 4"
  "pow2 1 = 2" "pow2 104 = 2 ^ 104"
  by (simp_all add: pow2_def)

lemma pow2_shift:
  "pow2 e = 4 * pow2 (e - 2)"
  "pow2 (e - 1) = 2 * pow2 (e - 2)"
  "pow2 (e + 22) = 2 ^ 24 * pow2 (e - 2)"
  "pow2 (e + 23) = 2 ^ 25 * pow2 (e - 2)"
  "pow2 (e + 24) = 2 ^ 26 * pow2 (e - 2)"
  using pow2_add [of "e - 2" 2] pow2_add [of "e - 2" 1] pow2_add [of "e - 2" 24]
    pow2_add [of "e - 2" 25] pow2_add [of "e - 2" 26]
  by (simp_all add: pow2_numeral add.commute mult.commute)

lemma pow2_neq0 [simp]: "pow2 k \<noteq> 0"
  by (simp add: pow2_powi)

lemma round_to_float:
  assumes m: "0 < m" "m < 2 ^ 24" and e: "- 149 \<le> e" "e \<le> 104"
    and norm: "2 ^ 23 \<le> m \<or> e = - 149"
    and q: "0 < q"
    and w: "w = fr (p, q) / pow2 (e - 2)"
    and lo: "of_int (lowerBound m e) \<le> w" and hi: "w \<le> of_int (upperBound m)"
    and strict: "odd m \<longrightarrow> of_int (lowerBound m e) < w \<and> w < of_int (upperBound m)"
  shows "(m = 2 ^ 23 \<and> e \<noteq> - 149 \<and> w < 4 * of_int m \<longrightarrow>
            ulpExp p q (- 149) = e - 1 \<and> roundHalfEven (scale2 (e - 1) (p, q)) = 2 ^ 24)
       \<and> (\<not> (m = 2 ^ 23 \<and> e \<noteq> - 149 \<and> w < 4 * of_int m) \<longrightarrow>
            ulpExp p q (- 149) = e \<and> roundHalfEven (scale2 e (p, q)) = m)"
proof -
  define u where "u = pow2 (e - 2)"
  have u: "0 < u" by (simp add: u_def)
  have v: "fr (p, q) = w * u" by (simp add: w u_def)
  have P: "pow2 e = 4 * u" "pow2 (e - 1) = 2 * u" "pow2 (e + 22) = 2 ^ 24 * u"
    "pow2 (e + 23) = 2 ^ 25 * u" "pow2 (e + 24) = 2 ^ 26 * u"
    unfolding u_def by (rule pow2_shift)+
  have "rat_of_int m < of_int (2 ^ 24)" "rat_of_int 0 < of_int m"
    using m by (simp_all only: of_int_less_iff)
  then have mr: "rat_of_int m < 2 ^ 24" "0 < rat_of_int m"
    by simp_all
  have hi': "w \<le> 4 * of_int m + 2" using hi by (simp add: upperBound_def)
  have lo2: "4 * of_int m - 2 \<le> w"
    using lo by (simp add: lowerBound_def split: if_splits)
  show ?thesis
  proof (cases "m = 2 ^ 23 \<and> e \<noteq> - 149 \<and> w < 4 * of_int m")
    case False
    have K: "ulpExp p q (- 149) = e"
    proof (rule ulpExp_eq [OF q e(1) e(2)], intro impI)
      assume "- 149 < e"
      with norm have m23: "2 ^ 23 \<le> m" by simp
      have "2 ^ 25 \<le> w"
      proof (cases "m = 2 ^ 23")
        case True
        with False \<open>- 149 < e\<close> show ?thesis by simp
      next
        case neq: False
        with m23 have "2 ^ 23 + 1 \<le> m" by simp
        then have "rat_of_int (2 ^ 23 + 1) \<le> of_int m" by (simp only: of_int_le_iff)
        with lo2 show ?thesis by simp
      qed
      then have "2 ^ 25 * u \<le> w * u" using u by (simp only: mult_le_cancel_right_pos)
      then show "pow2 (e + 23) \<le> fr (p, q)"
        by (simp only: v P)
    next
      show "e < 104 \<longrightarrow> fr (p, q) < pow2 (e + 24)"
      proof
        have "w < 2 ^ 26" using hi' mr by simp
        then have "w * u < 2 ^ 26 * u" using u by (simp only: mult_less_cancel_right_pos)
        then show "fr (p, q) < pow2 (e + 24)"
          by (simp only: v P)
      qed
    qed
    have fr: "fr (scale2 e (p, q)) = w / 4"
      using u by (simp add: fr_scale2 v P)
    have "roundHalfEven (scale2 e (p, q)) = m"
    proof (rule roundHalfEven_fr)
      show "0 < snd (scale2 e (p, q))" using q by (simp add: snd_scale2)
      show "\<bar>fr (scale2 e (p, q)) - of_int m\<bar> \<le> 1 / 2"
        using lo2 hi' unfolding fr by linarith
      show "\<bar>fr (scale2 e (p, q)) - of_int m\<bar> = 1 / 2 \<longrightarrow> even m"
      proof (intro impI, rule ccontr)
        assume tie: "\<bar>fr (scale2 e (p, q)) - of_int m\<bar> = 1 / 2" and "odd m"
        with strict have s: "of_int (lowerBound m e) < w" "w < of_int (upperBound m)" by simp_all
        from s(2) have "w < 4 * of_int m + 2" by (simp add: upperBound_def)
        moreover from s(1) have "4 * of_int m - 2 < w"
          by (simp add: lowerBound_def split: if_splits)
        ultimately have "\<bar>w / 4 - of_int m\<bar> < 1 / 2" by linarith
        with tie show False by (simp add: fr)
      qed
    qed
    with K False show ?thesis by blast
  next
    case True
    then have m23: "m = 2 ^ 23" and e1: "- 149 < e" and below: "w < 2 ^ 25"
      using e by simp_all
    have lo1: "2 ^ 25 - 1 \<le> w"
      using lo m23 e1 by (simp add: lowerBound_def)
    have K: "ulpExp p q (- 149) = e - 1"
    proof (rule ulpExp_eq [OF q], goal_cases)
      case 1
      show ?case using e1 by simp
    next
      case 2
      show ?case using e by simp
    next
      case 3
      have "2 ^ 24 \<le> w" using lo1 by simp
      then have "2 ^ 24 * u \<le> w * u" using u by (simp only: mult_le_cancel_right_pos)
      then have "pow2 (e + 22) \<le> fr (p, q)" by (simp only: v P)
      moreover have "e - 1 + 23 = e + 22" by simp
      ultimately show ?case by (simp only:) simp
    next
      case 4
      have "w * u < 2 ^ 25 * u" using below u by (simp only: mult_less_cancel_right_pos)
      then have "fr (p, q) < pow2 (e + 23)" by (simp only: v P)
      moreover have "e - 1 + 24 = e + 23" by simp
      ultimately show ?case by (simp only:) simp
    qed
    have fr: "fr (scale2 (e - 1) (p, q)) = w / 2"
      using u by (simp add: fr_scale2 v P)
    have "roundHalfEven (scale2 (e - 1) (p, q)) = 2 ^ 24"
    proof (rule roundHalfEven_fr)
      show "0 < snd (scale2 (e - 1) (p, q))" using q by (simp add: snd_scale2)
      show "\<bar>fr (scale2 (e - 1) (p, q)) - of_int (2 ^ 24)\<bar> \<le> 1 / 2"
        using lo1 below unfolding fr by simp
      show "\<bar>fr (scale2 (e - 1) (p, q)) - of_int (2 ^ 24)\<bar> = 1 / 2 \<longrightarrow> even (2 ^ 24 :: int)"
        by simp
    qed
    with K True show ?thesis by blast
  qed
qed

lemma round_to_float_value:
  assumes "0 < m" "m < 2 ^ 24" and e: "- 149 \<le> e" "e \<le> 104"
    and "2 ^ 23 \<le> m \<or> e = - 149"
    and "0 < q"
    and "w = fr (p, q) / pow2 (e - 2)"
    and "of_int (lowerBound m e) \<le> w" and "w \<le> of_int (upperBound m)"
    and "odd m \<longrightarrow> of_int (lowerBound m e) < w \<and> w < of_int (upperBound m)"
  shows "of_int (roundHalfEven (scale2 (ulpExp p q (- 149)) (p, q))) * pow2 (ulpExp p q (- 149))
           = of_int m * pow2 e"
proof (cases "m = 2 ^ 23 \<and> e \<noteq> - 149 \<and> w < 4 * of_int m")
  case True
  with round_to_float [OF assms]
  have "ulpExp p q (- 149) = e - 1" "roundHalfEven (scale2 (e - 1) (p, q)) = 2 ^ 24"
    by blast+
  with True show ?thesis
    by (simp add: pow2_shift(1) [of e] pow2_shift(2) [of e])
next
  case False
  with round_to_float [OF assms]
  have "ulpExp p q (- 149) = e" "roundHalfEven (scale2 e (p, q)) = m"
    by blast+
  then show ?thesis
    by simp
qed

subsection \<open>Mantissa and exponent\<close>

lemma mantExp_float:
  assumes "0 < m" "m < 2 ^ 24" "- 149 \<le> e" "e \<le> 104" "2 ^ 23 \<le> m \<or> e = - 149"
    and x: "\<bar>x\<bar> = of_int m * pow2 e"
  shows "mantExp x = (m, e)"
proof -
  obtain p q where pq: "quotient_of \<bar>x\<bar> = (p, q)" by force
  then have q: "0 < q" and v: "\<bar>x\<bar> = of_int p / of_int q"
    by (simp_all add: quotient_of_denom_pos quotient_of_div)
  define w where "w = fr (p, q) / pow2 (e - 2)"
  have "fr (p, q) = of_int m * pow2 e"
    using v x by (simp add: fr_def)
  then have w: "w = 4 * of_int m"
    by (simp add: w_def pow2_shift(1) [of e])
  have "of_int (lowerBound m e) \<le> w" "w \<le> of_int (upperBound m)"
    "odd m \<longrightarrow> of_int (lowerBound m e) < w \<and> w < of_int (upperBound m)"
    by (simp_all add: w lowerBound_def upperBound_def)
  from round_to_float [OF assms(1-5) q w_def this]
  have "ulpExp p q (- 149) = e" "roundHalfEven (scale2 e (p, q)) = m"
    using w by simp_all
  then show ?thesis
    by (simp add: mantExp_def pq)
qed

subsection \<open>The shortest digits lie between the bounds\<close>

lemma fr_exact:
  assumes e: "- 149 \<le> e" and k: "k \<le> - 149"
    and nd: "scale10 k (scale2 (- e) (m, 1)) = (n, d)"
  shows "rat_of_int (n div d) = of_int m * pow2 e / pow10 k"
proof -
  have d: "d dvd n"
  proof (cases "0 \<le> - e")
    case True
    have "(2 :: int) ^ nat (- e) dvd 10 ^ nat (- k)"
      using e k by (intro dvd_power_le) simp_all
    then have "(2 :: int) ^ nat (- e) dvd m * 10 ^ nat (- k)"
      by (rule dvd_mult)
    with True nd k show ?thesis
      by (simp add: scale10_def scale2_def)
  next
    case False
    with nd k show ?thesis
      by (auto simp: scale10_def scale2_def)
  qed
  have "rat_of_int (n div d) = fr (n, d)"
    using d by (simp add: fr_def of_int_div)
  also have "\<dots> = fr (scale2 (- e) (m, 1)) / pow10 k"
    using fr_scale10 [of k "scale2 (- e) (m, 1)"] by (simp only: nd)
  also have "fr (scale2 (- e) (m, 1)) = fr (m, 1) / pow2 (- e)"
    by (rule fr_scale2)
  finally show ?thesis
    by (simp add: fr_def pow2_minus)
qed

lemma inside_exact:
  assumes "0 < m" and "of_int D * pow10 k = rat_of_int m * pow2 e"
  shows "inside m e (D, k)"
  using assms
  by (simp add: inside_iff pow2_shift(1) [of e] lowerBound_def upperBound_def)

lemma shortest_inside:
  assumes "0 < m" and "- 149 \<le> e"
  shows "inside m e (shortest m e k)"
  using assms
proof (induction m e k rule: shortest.induct)
  case (1 m e k)
  obtain n d where nd: "scale10 k (scale2 (- e) (m, 1)) = (n, d)" by force
  have d: "0 < d"
    using snd_scale10 [of "scale2 (- e) (m, 1)" k] snd_scale2 [of "(m, 1)" "- e"] nd by simp
  consider (both) "inside m e (n div d, k)" "inside m e (n div d + 1, k)"
    | (down) "inside m e (n div d, k)" "\<not> inside m e (n div d + 1, k)"
    | (up) "\<not> inside m e (n div d, k)" "inside m e (n div d + 1, k)"
    | (stop) "\<not> inside m e (n div d, k)" "\<not> inside m e (n div d + 1, k)" "k \<le> - 149"
    | (go) "\<not> inside m e (n div d, k)" "\<not> inside m e (n div d + 1, k)" "\<not> k \<le> - 149"
    by blast
  then show ?case
  proof cases
    case both
    then have "shortest m e k = (roundHalfEven (n, d), k)"
      by (subst shortest.simps) (simp add: nd Let_def)
    with roundHalfEven_cases [OF d, of n] both show ?thesis
      by auto
  next
    case down
    then have "shortest m e k = (n div d, k)"
      by (subst shortest.simps) (simp add: nd Let_def)
    with down show ?thesis by simp
  next
    case up
    then have "shortest m e k = (n div d + 1, k)"
      by (subst shortest.simps) (simp add: nd Let_def)
    with up show ?thesis by simp
  next
    case stop
    then have "shortest m e k = (n div d, k)"
      by (subst shortest.simps) (simp add: nd Let_def)
    moreover have "rat_of_int (n div d) * pow10 k = of_int m * pow2 e"
      using fr_exact [OF "1.prems"(2) stop(3) nd] by simp
    ultimately show ?thesis
      using inside_exact [OF "1.prems"(1)] by simp
  next
    case go
    then have "shortest m e k = shortest m e (k - 1)"
      by (subst shortest.simps) (simp add: nd Let_def)
    moreover have "inside m e (shortest m e (k - 1))"
      using "1.IH" [OF nd [symmetric] refl refl go] "1.prems" by simp
    ultimately show ?thesis by simp
  qed
qed

subsection \<open>What the formatter writes is read back\<close>

lemma float_bound:
  assumes "0 < m" "m < 2 ^ 24" "e \<le> 104"
  shows "rat_of_int m * pow2 e < 2 ^ 128"
proof -
  have "rat_of_int m < of_int (2 ^ 24)" "rat_of_int 0 < of_int m"
    using assms by (simp_all only: of_int_less_iff)
  then have m: "rat_of_int m < 2 ^ 24" "0 < rat_of_int m" by simp_all
  have "pow2 e \<le> pow2 104" using assms(3) by (rule pow2_mono)
  then have "rat_of_int m * pow2 e \<le> of_int m * 2 ^ 104"
    using m by (simp add: pow2_numeral)
  also have "\<dots> < 2 ^ 24 * 2 ^ 104" using m by simp
  finally show ?thesis by simp
qed

lemma ParseFloat32_inside:
  assumes m: "0 < m" "m < 2 ^ 24" and e: "- 149 \<le> e" "e \<le> 104"
    and norm: "2 ^ 23 \<le> m \<or> e = - 149"
    and n: "fraction n = (p, q)" and q: "0 < q"
    and v: "fr (\<bar>p\<bar>, q) = of_int D * pow10 k"
    and inside: "inside m e (D, k)"
  shows "ParseFloat32 n
     = Some (F32 (if p < 0 then - (of_int m * pow2 e) else of_int m * pow2 e))"
proof -
  define w where "w = fr (\<bar>p\<bar>, q) / pow2 (e - 2)"
  have w: "w = of_int D * pow10 k / pow2 (e - 2)"
    by (simp add: w_def v)
  from inside have
    "of_int (lowerBound m e) \<le> w" "w \<le> of_int (upperBound m)"
    "odd m \<longrightarrow> of_int (lowerBound m e) < w \<and> w < of_int (upperBound m)"
    unfolding inside_iff w by (simp_all split: if_splits)
  from round_to_float_value [OF m e norm q w_def this]
  have r: "of_int (roundHalfEven (scale2 (ulpExp \<bar>p\<bar> q (- 149)) (\<bar>p\<bar>, q)))
      * pow2 (ulpExp \<bar>p\<bar> q (- 149)) = of_int m * pow2 e" .
  have "\<not> 2 ^ 128 \<le> rat_of_int m * pow2 e"
    using float_bound [OF m e(2)] by simp
  then show ?thesis
    unfolding ParseFloat32_def n prod.case Let_def r by simp
qed

lemma inside_pos:
  assumes "0 < m" and "inside m e (D, k)"
  shows "0 < D"
proof -
  have "rat_of_int 1 \<le> of_int m" using assms(1) by (simp only: of_int_le_iff)
  then have "0 < rat_of_int (lowerBound m e)"
    by (simp add: lowerBound_def)
  with assms(2) have "0 < rat_of_int D * pow10 k / pow2 (e - 2)"
    unfolding inside_iff by (simp split: if_splits)
  moreover have "\<not> pow10 k < 0" "\<not> pow2 (e - 2) < 0"
    by (simp_all add: not_less less_imp_le)
  ultimately have "0 < rat_of_int D"
    by (simp add: zero_less_divide_iff zero_less_mult_iff)
  then show ?thesis by simp
qed

lemma ParseFloat32_formatFloat32:
  assumes m: "0 < m" "m < 2 ^ 24" and e: "- 149 \<le> e" "e \<le> 104"
    and norm: "2 ^ 23 \<le> m \<or> e = - 149"
    and x: "\<bar>x\<bar> = of_int m * pow2 e"
  shows "ParseFloat32 (formatFloat32 x) = Some (F32 x)"
proof -
  have x0: "x \<noteq> 0"
    using x m by auto
  have me: "mantExp x = (m, e)"
    using m e norm x by (rule mantExp_float)
  obtain D k where Dk: "shortest m e 38 = (D, k)" by force
  have inside: "inside m e (D, k)"
    using shortest_inside [OF m(1) e(1), of 38] by (simp add: Dk)
  have D: "0 < D"
    using m(1) inside by (rule inside_pos)
  define s where "s = (if x < 0 then - D else D)"
  have s: "\<bar>s\<bar> = D" "s < 0 \<longleftrightarrow> x < 0"
    using D by (simp_all add: s_def)
  obtain p q where pq: "fraction (formatFloat32 x) = (p, q)" by force
  have f: "formatFloat32 x = DecLit s k \<or> (0 \<le> k \<and> formatFloat32 x = IntLit (s * 10 ^ nat k))"
    using x0 by (simp add: formatFloat32_def me Dk Let_def s_def)
  have q: "0 < q" and sign: "p < 0 \<longleftrightarrow> x < 0" and v: "fr (\<bar>p\<bar>, q) = of_int D * pow10 k"
    using f pq s D
    by (auto simp: fraction_def fr_def pow10_def abs_mult zero_less_mult_iff mult_less_0_iff
        split: if_splits)
  have "ParseFloat32 (formatFloat32 x)
     = Some (F32 (if p < 0 then - (of_int m * pow2 e) else of_int m * pow2 e))"
    using m e norm pq q v inside by (rule ParseFloat32_inside)
  also have "(if p < 0 then - (of_int m * pow2 e) else of_int m * pow2 e) = x"
    using x sign by (simp add: abs_if split: if_splits)
  finally show ?thesis .
qed

lemma ParseFloat32_formatFloat32_zero:
  "ParseFloat32 (formatFloat32 0) = Some (F32 0)"
  by (simp add: formatFloat32_def ParseFloat32_def fraction_def ulpExp.simps scale2_def
      roundHalfEven_def Let_def)

subsection \<open>Every finite \<^verbatim>\<open>float32\<close>\<close>

lemma uint_mask_bounds:
  fixes b :: "32 word"
  shows "0 \<le> uint (b AND 0x7FFFFF)" "uint (b AND 0x7FFFFF) < 2 ^ 23"
    "0 \<le> uint (drop_bit 23 b AND 0xFF)" "uint (drop_bit 23 b AND 0xFF) \<le> 255"
proof -
  have "b AND 0x7FFFFF \<le> 0x7FFFFF" by (rule word_and_le1)
  then show "uint (b AND 0x7FFFFF) < 2 ^ 23" by (simp add: word_le_def)
  have "drop_bit 23 b AND 0xFF \<le> 0xFF" by (rule word_and_le1)
  then show "uint (drop_bit 23 b AND 0xFF) \<le> 255" by (simp add: word_le_def)
qed simp_all

lemma parsesBack_Float32frombits:
  assumes "isFinite (Float32frombits b)"
  shows "parsesBack formatFloat32 (Float32frombits b)"
proof -
  define E where "E = uint (drop_bit 23 b AND 0xFF)"
  define M where "M = uint (b AND 0x7FFFFF)"
  have M: "0 \<le> M" "M < 2 ^ 23" and E: "0 \<le> E" "E \<le> 255"
    using uint_mask_bounds [of b] by (simp_all add: E_def M_def)
  from assms have E255: "E \<noteq> 255"
    by (auto simp: Float32frombits_def isFinite_def Let_def E_def M_def split: if_splits)
  define x where "x = (if E = 0 then of_int M * pow2 (- 149)
                       else rat_of_int (2 ^ 23 + M) * pow2 (E - 150))"
  define y where "y = (if bit b 31 then - x else x)"
  have f: "Float32frombits b = F32 y"
    using E255 by (simp add: Float32frombits_def Let_def E_def [symmetric] M_def [symmetric]
        x_def y_def)
  have "0 \<le> rat_of_int M" "0 \<le> rat_of_int (2 ^ 23 + M)"
    using M by simp_all
  then have x0: "0 \<le> x"
    unfolding x_def by (simp add: less_imp_le)
  then have y: "\<bar>y\<bar> = x" by (simp add: y_def)
  have "ParseFloat32 (formatFloat32 y) = Some (F32 y)"
  proof (cases "E = 0")
    case True
    show ?thesis
    proof (cases "M = 0")
      case True
      with \<open>E = 0\<close> have "y = 0" by (simp add: y_def x_def)
      then show ?thesis by (simp add: ParseFloat32_formatFloat32_zero)
    next
      case False
      with M have "0 < M" by simp
      moreover have "M < 2 ^ 24" using M by simp
      moreover have "\<bar>y\<bar> = of_int M * pow2 (- 149)"
        using True by (simp add: y x_def)
      ultimately show ?thesis
        by (intro ParseFloat32_formatFloat32 [where m = M and e = "- 149"]) simp_all
    qed
  next
    case False
    have "0 < 2 ^ 23 + M" "2 ^ 23 + M < 2 ^ 24" "2 ^ 23 \<le> 2 ^ 23 + M"
      using M by simp_all
    moreover have "- 149 \<le> E - 150" "E - 150 \<le> 104"
      using False E E255 by simp_all
    moreover have "\<bar>y\<bar> = of_int (2 ^ 23 + M) * pow2 (E - 150)"
      using False by (simp add: y x_def)
    ultimately show ?thesis
      by (intro ParseFloat32_formatFloat32 [where m = "2 ^ 23 + M" and e = "E - 150"]) simp_all
  qed
  then show ?thesis
    by (simp add: f parsesBack_def)
qed

lemma bits_client:
  "Float32frombits 0x420C92B3 = F32 (9212595 / 262144)"
  "Float32frombits 0xC2E8353F = F32 (- (15217983 / 131072))"
  "Float32frombits 0x7FC00000 = NaN"
  by (simp_all add: Float32frombits_def pow2_def bit_iff_odd)

subsection \<open>The constants of the client\<close>

lemma shortest_client:
  "shortest 9212595 (- 18) 38 = (3514326, - 5)"
  "shortest 15217983 (- 17) 38 = (116104, - 3)"
  by (simp_all add: shortest.simps scale10_def scale2_def inside_def lowerBound_def upperBound_def
      roundHalfEven_def Let_def)

lemma ulpExp_thresholds:
  "ulpExp 1 1000000 (- 149) = - 43"
  "ulpExp 1000000000000000000000 1 (- 149) = 46"
  by (simp_all add: ulpExp.simps scale2_def)

lemma float32_thresholds:
  "float32_of (DecLit 1 (- 6)) = F32 (8796093 * pow2 (- 43))"
  "float32_of (DecLit 1 21) = F32 (14210855 * pow2 46)"
  by (simp_all add: float32_of_def ParseFloat32_def fraction_def ulpExp_thresholds scale2_def
      roundHalfEven_def pow2_def Let_def)

lemma mantExp_client:
  "mantExp (9212595 / 262144) = (9212595, - 18)"
  "mantExp (- (15217983 / 131072)) = (15217983, - 17)"
  by (rule mantExp_float; simp add: pow2_def)+

lemma formatFloat32_client:
  "formatFloat32 (9212595 / 262144) = DecLit 3514326 (- 5)"
  "formatFloat32 (- (15217983 / 131072)) = DecLit (- 116104) (- 3)"
  by (simp_all add: formatFloat32_def mantExp_client shortest_client pow2_def)

lemma formatFloat32_fmt_client:
  "formatFloat32 (9212595 / 262144) = fmt_client (9212595 / 262144)"
  "formatFloat32 (- (15217983 / 131072)) = fmt_client (- (15217983 / 131072))"
  "formatFloat32 0 = fmt_client 0"
  by (simp_all add: formatFloat32_client fmt_client_def) (simp add: formatFloat32_def)

section \<open>The claims\<close>

text \<open>
  C1. The claim: \<^verbatim>\<open>decode(encode(w))\<close> is \<open>w\<close> for every \<^verbatim>\<open>WeatherReport\<close>, and likewise for
  every \<^verbatim>\<open>Location\<close> and \<^verbatim>\<open>WindInfo\<close>. It fails: \<^verbatim>\<open>encode\<close> of the draft writes \<^verbatim>\<open>{}\<close>
  for the mock-up data (its fields are unexported), and \<^verbatim>\<open>decode\<close> reads the zero value
  back; in the published program a string that is not UTF-8 comes back with U+FFFD in the
  place of the offending byte, and a location with a NaN (the \<^verbatim>\<open>float32\<close> of the bits
  \<^verbatim>\<open>0x7FC00000\<close>) is not encoded at all.
\<close>

theorem roundtrip_counterexample:
  "encode weather = Inr (JSONText (JObject []))
   \<and> decode (JSONText (JObject [])) = (weatherData_zero, None)
   \<and> weatherData_zero \<noteq> weather
   \<and> Marshal_weatherData Published (weatherData_zero\<lparr>Weather := [CHR 0xFF]\<rparr>)
       = Inr (JSONText (JObject
          [(''LocationName'', JString []), (''Weather'', JString [CHR 0xEF, CHR 0xBF, CHR 0xBD]),
           (''Temperature'', JNumber (IntLit 0)), (''Celsius'', JBool False),
           (''TempForecast'', JNull),
           (''Wind'', JObject [(''Direction'', JString []), (''Speed'', JNumber (IntLit 0))])]))
   \<and> Unmarshal_weatherData Published (JSONText (JObject
          [(''LocationName'', JString []), (''Weather'', JString [CHR 0xEF, CHR 0xBF, CHR 0xBD]),
           (''Temperature'', JNumber (IntLit 0)), (''Celsius'', JBool False),
           (''TempForecast'', JNull),
           (''Wind'', JObject [(''Direction'', JString []), (''Speed'', JNumber (IntLit 0))])]))
         weatherData_zero
       = (weatherData_zero\<lparr>Weather := [CHR 0xEF, CHR 0xBF, CHR 0xBD]\<rparr>, None)
   \<and> Float32frombits 0x7FC00000 = NaN
   \<and> Marshal_loc formatFloat32 Published
         \<lparr>Lat = Float32frombits 0x7FC00000, Lon = Float32frombits 0\<rparr>
       = Inl UnsupportedValueError"
  apply (intro conjI)
  subgoal by (simp add: encode_def Marshal_Draft)
  subgoal by (simp add: decode_def Unmarshal_weatherData_def structDecoder_def
        typeFields_weatherData)
  subgoal by (simp add: weatherData_zero_def weather_def)
  subgoal by code_simp
  subgoal by code_simp
  subgoal by (simp add: bits_client)
  subgoal by (simp add: bits_client Marshal_loc_def structEncoder_def typeFields_loc loc_enc_def
        floatEncoder_def)
  done

text \<open>
  C1, as amended. In the revisions whose fields are exported (\<^verbatim>\<open>part_000\<close> and the
  published \<^verbatim>\<open>json.go\<close>), \<^verbatim>\<open>Marshal\<close> succeeds and \<^verbatim>\<open>Unmarshal\<close> of its output into a zero
  value gives the value back without error: for every \<^verbatim>\<open>weatherData\<close> whose strings are
  valid UTF-8, for every \<^verbatim>\<open>windData\<close> whose direction is valid UTF-8, and for every \<^verbatim>\<open>loc\<close>
  whose coordinates are finite. The coordinates are given by their bits, \<open>a\<close> and \<open>b\<close>, so
  that they range over all values of the type \<^verbatim>\<open>float32\<close>.
\<close>

theorem roundtrip_exported:
  "r \<noteq> Draft \<longrightarrow>
     (validString (LocationName w) \<and> validString (Weather w) \<and> validString (Direction (Wind w))
        \<longrightarrow> (\<exists>bs. Marshal_weatherData r w = Inr bs
                \<and> Unmarshal_weatherData r bs weatherData_zero = (w, None)))
     \<and> (validString (Direction v)
        \<longrightarrow> (\<exists>bs. Marshal_windData r v = Inr bs
                \<and> Unmarshal_windData r bs windData_zero = (v, None)))
     \<and> (isFinite (Float32frombits a) \<and> isFinite (Float32frombits b)
        \<longrightarrow> (\<exists>bs. Marshal_loc formatFloat32 r
                       \<lparr>Lat = Float32frombits a, Lon = Float32frombits b\<rparr> = Inr bs
                \<and> Unmarshal_loc r bs loc_zero
                    = (\<lparr>Lat = Float32frombits a, Lon = Float32frombits b\<rparr>, None)))"
proof (intro impI conjI)
  assume r: "r \<noteq> Draft"
  {
    assume "validString (LocationName w) \<and> validString (Weather w)
      \<and> validString (Direction (Wind w))"
    with r show "\<exists>bs. Marshal_weatherData r w = Inr bs
        \<and> Unmarshal_weatherData r bs weatherData_zero = (w, None)"
      by (simp add: Marshal_weatherData_exported Unmarshal_weatherData_Marshal)
  }
  {
    assume "validString (Direction v)"
    with r show "\<exists>bs. Marshal_windData r v = Inr bs
        \<and> Unmarshal_windData r bs windData_zero = (v, None)"
      by (simp add: Marshal_windData_exported Unmarshal_windData_Marshal)
  }
  {
    assume fin: "isFinite (Float32frombits a) \<and> isFinite (Float32frombits b)"
    then have pb: "parsesBack formatFloat32 (Float32frombits a)"
      "parsesBack formatFloat32 (Float32frombits b)"
      by (simp_all add: parsesBack_Float32frombits)
    then obtain x y where xy: "Float32frombits a = F32 x" "Float32frombits b = F32 y"
      using parsesBack_finite by blast
    from pb have "parsesBack formatFloat32 (F32 x)" "parsesBack formatFloat32 (F32 y)"
      by (simp_all add: xy)
    with r show "\<exists>bs. Marshal_loc formatFloat32 r
                       \<lparr>Lat = Float32frombits a, Lon = Float32frombits b\<rparr> = Inr bs
                \<and> Unmarshal_loc r bs loc_zero
                    = (\<lparr>Lat = Float32frombits a, Lon = Float32frombits b\<rparr>, None)"
      unfolding xy by (simp add: Marshal_loc_exported Unmarshal_loc_Marshal)
  }
qed

theorem roundtrip_exported_witness:
  "Published \<noteq> Draft
   \<and> validString (LocationName weather) \<and> validString (Weather weather)
   \<and> validString (Direction (Wind weather))
   \<and> isFinite (Float32frombits 0x420C92B3) \<and> isFinite (Float32frombits 0xC2E8353F)
   \<and> Float32frombits 0x420C92B3 = float32_of (DecLit 3514326 (- 5))
   \<and> Float32frombits 0xC2E8353F = float32_of (DecLit (- 116104) (- 3))
   \<and> (\<exists>bs. Marshal_weatherData Published weather = Inr bs
          \<and> Unmarshal_weatherData Published bs weatherData_zero = (weather, None))
   \<and> (\<exists>bs. Marshal_windData Published (Wind weather) = Inr bs
          \<and> Unmarshal_windData Published bs windData_zero = (Wind weather, None))
   \<and> (\<exists>bs. Marshal_loc formatFloat32 Published
               \<lparr>Lat = float32_of (DecLit 3514326 (- 5)),
                Lon = float32_of (DecLit (- 116104) (- 3))\<rparr> = Inr bs
          \<and> Unmarshal_loc Published bs loc_zero
              = (\<lparr>Lat = float32_of (DecLit 3514326 (- 5)),
                  Lon = float32_of (DecLit (- 116104) (- 3))\<rparr>, None))"
  using roundtrip_exported [of Published weather "Wind weather" "0x420C92B3" "0xC2E8353F"]
  by (simp add: validString_weather bits_client float32_of_client isFinite_def weather_def)

text \<open>
  C2. The claim: \<^verbatim>\<open>encode\<close> writes an object with the keys \<^verbatim>\<open>locationName\<close>, \<^verbatim>\<open>weather\<close>,
  \<^verbatim>\<open>temperature\<close>, \<^verbatim>\<open>celsius\<close>, \<^verbatim>\<open>temp_forecast\<close> and \<^verbatim>\<open>wind\<close> (with \<^verbatim>\<open>direction\<close> and
  \<^verbatim>\<open>speed\<close> inside). What the published program writes, for every \<^verbatim>\<open>weatherData\<close> and
  for the mock-up data of the handler: the wind is a nested object and the forecast an
  array in the order of the slice, but the keys are the Go names of the fields,
  \<^verbatim>\<open>LocationName\<close>, \<^verbatim>\<open>Weather\<close>, \<^verbatim>\<open>Temperature\<close>, \<^verbatim>\<open>Celsius\<close>, \<^verbatim>\<open>TempForecast\<close> and
  \<^verbatim>\<open>Wind\<close> (with \<^verbatim>\<open>Direction\<close> and \<^verbatim>\<open>Speed\<close>), since the tags that are meant to rename
  them are not well-formed.
\<close>

theorem Marshal_weatherData_keys:
  "Marshal_weatherData Published w =
     Inr (JSONText (JObject
       [(''LocationName'', JString (toValidUTF8 (LocationName w))),
        (''Weather'', JString (toValidUTF8 (Weather w))),
        (''Temperature'', JNumber (IntLit (sint (Temperature w)))),
        (''Celsius'', JBool (Celsius w)),
        (''TempForecast'', (case TempForecast w of None \<Rightarrow> JNull
            | Some ns \<Rightarrow> JArray (map (\<lambda>n. JNumber (IntLit (sint n))) ns))),
        (''Wind'', JObject
          [(''Direction'', JString (toValidUTF8 (Direction (Wind w)))),
           (''Speed'', JNumber (IntLit (sint (Speed (Wind w)))))])]))
   \<and> Marshal_weatherData Published weather =
     Inr (JSONText (JObject
       [(''LocationName'', JString ''Zzyzx''),
        (''Weather'', JString ''cloudy''),
        (''Temperature'', JNumber (IntLit 31)),
        (''Celsius'', JBool True),
        (''TempForecast'', JArray [JNumber (IntLit 30), JNumber (IntLit 32), JNumber (IntLit 29)]),
        (''Wind'', JObject [(''Direction'', JString ''S''), (''Speed'', JNumber (IntLit 20))])]))"
proof
  show "Marshal_weatherData Published w =
     Inr (JSONText (JObject
       [(''LocationName'', JString (toValidUTF8 (LocationName w))),
        (''Weather'', JString (toValidUTF8 (Weather w))),
        (''Temperature'', JNumber (IntLit (sint (Temperature w)))),
        (''Celsius'', JBool (Celsius w)),
        (''TempForecast'', (case TempForecast w of None \<Rightarrow> JNull
            | Some ns \<Rightarrow> JArray (map (\<lambda>n. JNumber (IntLit (sint n))) ns))),
        (''Wind'', JObject
          [(''Direction'', JString (toValidUTF8 (Direction (Wind w)))),
           (''Speed'', JNumber (IntLit (sint (Speed (Wind w)))))])]))"
    by (rule Marshal_weatherData_exported) simp
next
  have "Marshal_weatherData Published weather =
     Inr (JSONText (JObject
       [(''LocationName'', JString (toValidUTF8 ''Zzyzx'')),
        (''Weather'', JString (toValidUTF8 ''cloudy'')),
        (''Temperature'', JNumber (IntLit (sint (31 :: goint)))),
        (''Celsius'', JBool True),
        (''TempForecast'', JArray (map (\<lambda>n. JNumber (IntLit (sint n))) [30, 32, 29 :: goint])),
        (''Wind'', JObject
          [(''Direction'', JString (toValidUTF8 ''S'')),
           (''Speed'', JNumber (IntLit (sint (20 :: goint))))])]))"
    by (simp add: Marshal_weatherData_exported weather_def)
  then show "Marshal_weatherData Published weather =
     Inr (JSONText (JObject
       [(''LocationName'', JString ''Zzyzx''),
        (''Weather'', JString ''cloudy''),
        (''Temperature'', JNumber (IntLit 31)),
        (''Celsius'', JBool True),
        (''TempForecast'', JArray [JNumber (IntLit 30), JNumber (IntLit 32), JNumber (IntLit 29)]),
        (''Wind'', JObject [(''Direction'', JString ''S''), (''Speed'', JNumber (IntLit 20))])]))"
    by (simp add: toValidUTF8_valid validString_weather)
qed



text \<open>
  C4. In \<^verbatim>\<open>part_000\<close> and in the published \<^verbatim>\<open>json.go\<close>: for every request whose body is
  read and decodes as a \<^verbatim>\<open>loc\<close> without error, the handler returns, and the response is
  the same whatever the location: status 200, the header \<^verbatim>\<open>Content-Type: application/json\<close>,
  and as its body the text that decodes to the mock-up data. The server gives this
  response to the request the client posts.
\<close>

theorem handler_answers_weather:
  "(r \<noteq> Draft \<and> Body req = Inr jsn \<and> snd (Unmarshal_loc r jsn loc_zero) = None \<longrightarrow>
      (\<exists>w' p'. weatherHandler (Marshal_weatherData r) r newResponseWriter req p = Returned w' p'
         \<and> finishRequest w' = weatherResponse))
   \<and> StatusCode weatherResponse = 200
   \<and> RespHeader weatherResponse = [(''Content-Type'', ''application/json'')]
   \<and> RespBody weatherResponse = [weatherJSON]
   \<and> Unmarshal_weatherData Published weatherJSON weatherData_zero = (weather, None)
   \<and> Unmarshal_weatherData Part000 weatherJSON weatherData_zero = (weather, None)
   \<and> (\<exists>p'. server Published \<lparr>bound = True, incoming = [postRequest], roundTrip = rt\<rparr> proc_start
           = Blocked p' \<and> served p' = [weatherResponse])"
proof (intro conjI impI)
  assume "r \<noteq> Draft \<and> Body req = Inr jsn \<and> snd (Unmarshal_loc r jsn loc_zero) = None"
  then show "\<exists>w' p'. weatherHandler (Marshal_weatherData r) r newResponseWriter req p
      = Returned w' p' \<and> finishRequest w' = weatherResponse"
    using weatherHandler_weather by blast
next
  show "\<exists>p'. server Published \<lparr>bound = True, incoming = [postRequest], roundTrip = rt\<rparr> proc_start
           = Blocked p' \<and> served p' = [weatherResponse]"
    by (rule server_one [where jsn = zzyzx and path = "[]"])
      (simp_all add: postRequest_def Unmarshal_loc_zzyzx_ok)
qed (simp_all add: weatherResponse_def Unmarshal_weatherJSON)

theorem handler_answers_weather_witness:
  "Published \<noteq> Draft \<and> Body postRequest = Inr zzyzx
   \<and> snd (Unmarshal_loc Published zzyzx loc_zero) = None
   \<and> (\<exists>w' p'. weatherHandler (Marshal_weatherData Published) Published newResponseWriter
          postRequest proc_start = Returned w' p'
        \<and> finishRequest w' = weatherResponse)"
proof -
  have "Body postRequest = Inr zzyzx" by (simp add: postRequest_def)
  moreover have "snd (Unmarshal_loc Published zzyzx loc_zero) = None"
    by (simp add: Unmarshal_loc_zzyzx_ok)
  moreover have "Published \<noteq> Draft" by simp
  ultimately show ?thesis
    using handler_answers_weather [of Published postRequest zzyzx proc_start]
    by blast
qed

text \<open>
  C5. The claim: every decoding, encoding or transport error is fatal: it is logged and
  the process ends. It fails: the client prints a response of status 404 and returns; and
  in \<^verbatim>\<open>part_000\<close> a server that cannot bind its port logs nothing and exits with status 0.
\<close>

theorem errors_not_fatal_counterexample:
  "client fmt_client Published \<lparr>bound = True, incoming = [], roundTrip = answers NotFound\<rparr>
       proc_start
     = Returned ()
         (proc_start\<lparr>stdout := [PrintBytes ''Response: '' [OtherText ''404 page not found'']],
            requested := [\<lparr>Method = ''POST'', URL = ''http://localhost:8080'',
              ReqHeader = [(''Content-Type'', ''application/json'')],
              Body = Inr (JSONText (JObject [(''Lat'', JNumber (DecLit 3514326 (- 5))),
                (''Lon'', JNumber (DecLit (- 116104) (- 3)))]))\<rparr>]\<rparr>)
   \<and> StatusCode NotFound = 404
   \<and> main_part000 fmt_client [''json'', ''server'']
       \<lparr>bound = False, incoming = [], roundTrip = fails ''connection refused''\<rparr> proc_start
     = Exited 0 (proc_start\<lparr>patterns := [''/''], listening := ['':8080'']\<rparr>)"
proof (intro conjI)
  show "client fmt_client Published \<lparr>bound = True, incoming = [], roundTrip = answers NotFound\<rparr>
       proc_start
     = Returned ()
         (proc_start\<lparr>stdout := [PrintBytes ''Response: '' [OtherText ''404 page not found'']],
            requested := [\<lparr>Method = ''POST'', URL = ''http://localhost:8080'',
              ReqHeader = [(''Content-Type'', ''application/json'')],
              Body = Inr (JSONText (JObject [(''Lat'', JNumber (DecLit 3514326 (- 5))),
                (''Lon'', JNumber (DecLit (- 116104) (- 3)))]))\<rparr>]\<rparr>)"
    by (simp add: client_def client_Marshal answers_def NotFound_def proc_start_def Let_def)
  show "StatusCode NotFound = 404"
    by (simp add: NotFound_def)
  show "main_part000 fmt_client [''json'', ''server'']
       \<lparr>bound = False, incoming = [], roundTrip = fails ''connection refused''\<rparr> proc_start
     = Exited 0 (proc_start\<lparr>patterns := [''/''], listening := ['':8080'']\<rparr>)"
    by (simp add: main_part000_def server_def exitOnReturn_def proc_start_def Let_def)
qed

text \<open>
  C5, as amended. In the handler, a failure to read the body and a failure to decode it
  are fatal: the line is logged and the process exits with status 1, the handler returns
  no response, and the server answers no request after it. In the client a failure of the
  exchange is fatal in the same way, after the one request that the client has sent:
  nothing is retried. Encoding is not fatal: \<^verbatim>\<open>Marshal\<close> succeeds on the mock-up data, and
  once the body is decoded the handler returns, whatever \<^verbatim>\<open>Marshal\<close> gives: it sets the
  header and writes the encoded bytes, after \<^verbatim>\<open>Error: \<close> and the message when \<^verbatim>\<open>Marshal\<close>
  gave an error.
\<close>

theorem fatal_errors:
  "(Body req = Inl msg \<longrightarrow>
      weatherHandler marshal r w req p
        = Exited 1 (p\<lparr>logged := logged p @ [LogText (''Error reading the body'' @ msg)]\<rparr>))
   \<and> (Body req' = Inr jsn \<and> Unmarshal_loc r jsn loc_zero = (l, Some err) \<longrightarrow>
      weatherHandler marshal r w req' p
        = Exited 1 (p\<lparr>logged := logged p @ [LogError ''Decoding error: '' err]\<rparr>))
   \<and> (list_ex (\<lambda>pattern. pathMatch pattern (URL req')) (patterns p)
        \<and> weatherHandler (Marshal_weatherData r) r newResponseWriter req' p = Exited c p' \<longrightarrow>
      serve r (req' # reqs) p = Exited c p')
   \<and> client fmt r (e\<lparr>roundTrip := fails msg'\<rparr>) p
       = Exited 1
           ((if r = Part000
             then p\<lparr>stdout := stdout p @ [Dump (case Marshal_loc fmt r
                        \<lparr>Lat = float32_of (DecLit 3514326 (- 5)),
                         Lon = float32_of (DecLit (- 116104) (- 3))\<rparr> of
                      Inl err \<Rightarrow> OtherText [] | Inr b \<Rightarrow> b)]\<rparr>
             else p)
            \<lparr>requested := requested p @
               [\<lparr>Method = ''POST'', URL = ''http://localhost:8080'',
                 ReqHeader = [(''Content-Type'', ''application/json'')],
                 Body = Inr (case Marshal_loc fmt r
                        \<lparr>Lat = float32_of (DecLit 3514326 (- 5)),
                         Lon = float32_of (DecLit (- 116104) (- 3))\<rparr> of
                      Inl err \<Rightarrow> OtherText [] | Inr b \<Rightarrow> b)\<rparr>],
             logged := logged p @ [LogText msg']\<rparr>)
   \<and> Marshal_weatherData Published weather = Inr weatherJSON
   \<and> Marshal_weatherData Part000 weather = Inr weatherJSON
   \<and> (Body req'' = Inr jsn' \<and> Unmarshal_loc r jsn' loc_zero = (l', None) \<longrightarrow>
      weatherHandler marshal r w req'' p
        = Returned
            (case marshal weather of
               Inl err \<Rightarrow> Write (OtherText []) (Header_Set ''Content-Type'' ''application/json''
                            (Write (ErrorText ''Error: '' err) w))
             | Inr b \<Rightarrow> Write b (Header_Set ''Content-Type'' ''application/json'' w))
            (if r = Part000
             then p\<lparr>logged := logged p @ [LogValue ''Received: '' l'],
                    stdout := stdout p @ [Dump (case marshal weather of
                                                  Inl err \<Rightarrow> OtherText [] | Inr b \<Rightarrow> b)]\<rparr>
             else p\<lparr>logged := logged p @ [LogValue ''Received: '' l']\<rparr>))"
proof (intro conjI impI)
  assume "Body req = Inl msg"
  then show "weatherHandler marshal r w req p
        = Exited 1 (p\<lparr>logged := logged p @ [LogText (''Error reading the body'' @ msg)]\<rparr>)"
    by (rule weatherHandler_read_error)
next
  assume "Body req' = Inr jsn \<and> Unmarshal_loc r jsn loc_zero = (l, Some err)"
  then show "weatherHandler marshal r w req' p
        = Exited 1 (p\<lparr>logged := logged p @ [LogError ''Decoding error: '' err]\<rparr>)"
    using weatherHandler_decode_error by blast
next
  assume "list_ex (\<lambda>pattern. pathMatch pattern (URL req')) (patterns p)
        \<and> weatherHandler (Marshal_weatherData r) r newResponseWriter req' p = Exited c p'"
  then show "serve r (req' # reqs) p = Exited c p'"
    using serve_fatal by blast
next
  show "client fmt r (e\<lparr>roundTrip := fails msg'\<rparr>) p
       = Exited 1
           ((if r = Part000
             then p\<lparr>stdout := stdout p @ [Dump (case Marshal_loc fmt r
                        \<lparr>Lat = float32_of (DecLit 3514326 (- 5)),
                         Lon = float32_of (DecLit (- 116104) (- 3))\<rparr> of
                      Inl err \<Rightarrow> OtherText [] | Inr b \<Rightarrow> b)]\<rparr>
             else p)
            \<lparr>requested := requested p @
               [\<lparr>Method = ''POST'', URL = ''http://localhost:8080'',
                 ReqHeader = [(''Content-Type'', ''application/json'')],
                 Body = Inr (case Marshal_loc fmt r
                        \<lparr>Lat = float32_of (DecLit 3514326 (- 5)),
                         Lon = float32_of (DecLit (- 116104) (- 3))\<rparr> of
                      Inl err \<Rightarrow> OtherText [] | Inr b \<Rightarrow> b)\<rparr>],
             logged := logged p @ [LogText msg']\<rparr>)"
    by (rule client_fails)
next
  show "Marshal_weatherData Published weather = Inr weatherJSON"
    by (simp add: Marshal_weather)
next
  show "Marshal_weatherData Part000 weather = Inr weatherJSON"
    by (simp add: Marshal_weather)
next
  assume "Body req'' = Inr jsn' \<and> Unmarshal_loc r jsn' loc_zero = (l', None)"
  then show "weatherHandler marshal r w req'' p
        = Returned
            (case marshal weather of
               Inl err \<Rightarrow> Write (OtherText []) (Header_Set ''Content-Type'' ''application/json''
                            (Write (ErrorText ''Error: '' err) w))
             | Inr b \<Rightarrow> Write b (Header_Set ''Content-Type'' ''application/json'' w))
            (if r = Part000
             then p\<lparr>logged := logged p @ [LogValue ''Received: '' l'],
                    stdout := stdout p @ [Dump (case marshal weather of
                                                  Inl err \<Rightarrow> OtherText [] | Inr b \<Rightarrow> b)]\<rparr>
             else p\<lparr>logged := logged p @ [LogValue ''Received: '' l']\<rparr>)"
    using weatherHandler_returns by blast
qed

theorem fatal_errors_witness:
  "Body (postRequest\<lparr>Body := Inl ''unexpected EOF''\<rparr>) = Inl ''unexpected EOF''
   \<and> Body (postRequest\<lparr>Body := Inr notANumber\<rparr>) = Inr notANumber
   \<and> Unmarshal_loc Published notANumber loc_zero
       = (loc_zero, Some (UnmarshalTypeError ''string'' ''float32''))
   \<and> list_ex (\<lambda>pattern. pathMatch pattern (URL (postRequest\<lparr>Body := Inr notANumber\<rparr>)))
        (patterns (proc_start\<lparr>patterns := [''/'']\<rparr>))
   \<and> weatherHandler (Marshal_weatherData Published) Published newResponseWriter
        (postRequest\<lparr>Body := Inr notANumber\<rparr>) (proc_start\<lparr>patterns := [''/'']\<rparr>)
       = Exited 1 (proc_start\<lparr>patterns := [''/''],
           logged := [LogError ''Decoding error: '' (UnmarshalTypeError ''string'' ''float32'')]\<rparr>)
   \<and> Body postRequest = Inr zzyzx
   \<and> Unmarshal_loc Published zzyzx loc_zero
       = (\<lparr>Lat = F32 (9212595 / 262144), Lon = F32 (- (15217983 / 131072))\<rparr>, None)
   \<and> weatherHandler (Marshal_weatherData Published) Published newResponseWriter
        (postRequest\<lparr>Body := Inl ''unexpected EOF''\<rparr>) (proc_start\<lparr>patterns := [''/'']\<rparr>)
       = Exited 1 ((proc_start\<lparr>patterns := [''/'']\<rparr>)
           \<lparr>logged := logged (proc_start\<lparr>patterns := [''/'']\<rparr>)
              @ [LogText (''Error reading the body'' @ ''unexpected EOF'')]\<rparr>)
   \<and> serve Published [postRequest\<lparr>Body := Inr notANumber\<rparr>, postRequest]
        (proc_start\<lparr>patterns := [''/'']\<rparr>)
       = Exited 1 (proc_start\<lparr>patterns := [''/''],
           logged := [LogError ''Decoding error: '' (UnmarshalTypeError ''string'' ''float32'')]\<rparr>)
   \<and> client fmt_client Published
        \<lparr>bound = True, incoming = [], roundTrip = fails ''connection refused''\<rparr>
        (proc_start\<lparr>patterns := [''/'']\<rparr>)
       = Exited 1 (proc_start\<lparr>patterns := [''/''],
           requested := [\<lparr>Method = ''POST'', URL = ''http://localhost:8080'',
             ReqHeader = [(''Content-Type'', ''application/json'')],
             Body = Inr (JSONText (JObject [(''Lat'', JNumber (DecLit 3514326 (- 5))),
                (''Lon'', JNumber (DecLit (- 116104) (- 3)))]))\<rparr>],
           logged := [LogText ''connection refused'']\<rparr>)
   \<and> weatherHandler (Marshal_weatherData Published) Published newResponseWriter postRequest
          (proc_start\<lparr>patterns := [''/'']\<rparr>)
       = Returned (Write weatherJSON (Header_Set ''Content-Type'' ''application/json''
             newResponseWriter))
           (proc_start\<lparr>patterns := [''/''],
              logged := [LogValue ''Received: ''
                 \<lparr>Lat = F32 (9212595 / 262144), Lon = F32 (- (15217983 / 131072))\<rparr>]\<rparr>)"
proof -
  have h1: "Body (postRequest\<lparr>Body := Inl ''unexpected EOF''\<rparr>) = Inl ''unexpected EOF''"
    and h2: "Body (postRequest\<lparr>Body := Inr notANumber\<rparr>) = Inr notANumber"
    and h6: "Body postRequest = Inr zzyzx"
    by (simp_all add: postRequest_def)
  have h3: "Unmarshal_loc Published notANumber loc_zero
       = (loc_zero, Some (UnmarshalTypeError ''string'' ''float32''))"
    by (simp add: Unmarshal_loc_notANumber)
  have h4: "list_ex (\<lambda>pattern. pathMatch pattern (URL (postRequest\<lparr>Body := Inr notANumber\<rparr>)))
        (patterns (proc_start\<lparr>patterns := [''/'']\<rparr>))"
    by (simp add: postRequest_def pathMatch_def)
  have h5: "weatherHandler (Marshal_weatherData Published) Published newResponseWriter
        (postRequest\<lparr>Body := Inr notANumber\<rparr>) (proc_start\<lparr>patterns := [''/'']\<rparr>)
       = Exited 1 (proc_start\<lparr>patterns := [''/''],
           logged := [LogError ''Decoding error: '' (UnmarshalTypeError ''string'' ''float32'')]\<rparr>)"
    by (simp add: weatherHandler_decode_error [OF h2 h3] proc_start_def)
  have h7: "Unmarshal_loc Published zzyzx loc_zero
       = (\<lparr>Lat = F32 (9212595 / 262144), Lon = F32 (- (15217983 / 131072))\<rparr>, None)"
    by (simp add: Unmarshal_loc_zzyzx)
  note t = fatal_errors [where req = "postRequest\<lparr>Body := Inl ''unexpected EOF''\<rparr>"
        and msg = "''unexpected EOF''" and marshal = "Marshal_weatherData Published"
        and r = Published
        and w = newResponseWriter and p = "proc_start\<lparr>patterns := [''/'']\<rparr>"
        and req' = "postRequest\<lparr>Body := Inr notANumber\<rparr>" and jsn = notANumber
        and l = loc_zero and err = "UnmarshalTypeError ''string'' ''float32''" and c = 1
        and p' = "proc_start\<lparr>patterns := [''/''],
           logged := [LogError ''Decoding error: '' (UnmarshalTypeError ''string'' ''float32'')]\<rparr>"
        and reqs = "[postRequest]" and req'' = postRequest and jsn' = zzyzx
        and l' = "\<lparr>Lat = F32 (9212595 / 262144), Lon = F32 (- (15217983 / 131072))\<rparr>"
        and fmt = fmt_client and msg' = "''connection refused''"
        and e = "\<lparr>bound = True, incoming = [], roundTrip = fails ''connection refused''\<rparr>"]
  show ?thesis
    using t h1 h2 h3 h4 h5 h6 h7
    by (simp add: Marshal_weather client_Marshal proc_start_def)
qed

text \<open>
  C6. Decoding \<^verbatim>\<open>{"weather": "sunny"}\<close> into a zero \<^verbatim>\<open>weatherData\<close> gives no error and
  leaves the location name, the temperature, the unit, the forecast and the wind zero, in
  every revision (the draft's \<^verbatim>\<open>decode\<close> leaves even the weather zero, the published
  program stores it). In general, for the three structs: a member whose key matches no
  field changes nothing, and a field that no member of the object is stored into is zero
  after decoding into a zero value.
\<close>

theorem missing_and_unknown_keys:
  "snd (Unmarshal_weatherData r sunny weatherData_zero) = None
   \<and> LocationName (fst (Unmarshal_weatherData r sunny weatherData_zero)) = []
   \<and> Temperature (fst (Unmarshal_weatherData r sunny weatherData_zero)) = 0
   \<and> Celsius (fst (Unmarshal_weatherData r sunny weatherData_zero)) = False
   \<and> TempForecast (fst (Unmarshal_weatherData r sunny weatherData_zero)) = None
   \<and> Wind (fst (Unmarshal_weatherData r sunny weatherData_zero)) = windData_zero
   \<and> decode sunny = (weatherData_zero, None)
   \<and> Unmarshal_weatherData Published sunny weatherData_zero
       = (weatherData_zero\<lparr>Weather := ''sunny''\<rparr>, None)
   \<and> (findField (typeFields (weatherData_fields r)) k = None \<longrightarrow>
        Unmarshal_weatherData r (JSONText (JObject (kvs @ (k, j) # kvs'))) t
          = Unmarshal_weatherData r (JSONText (JObject (kvs @ kvs'))) t)
   \<and> (findField (typeFields (windData_fields r)) k = None \<longrightarrow>
        Unmarshal_windData r (JSONText (JObject (kvs @ (k, j) # kvs'))) d
          = Unmarshal_windData r (JSONText (JObject (kvs @ kvs'))) d)
   \<and> (findField (typeFields (loc_fields r)) k = None \<longrightarrow>
        Unmarshal_loc r (JSONText (JObject (kvs @ (k, j) # kvs'))) l
          = Unmarshal_loc r (JSONText (JObject (kvs @ kvs'))) l)
   \<and> (\<not> present (typeFields (weatherData_fields r)) 0 kvs \<longrightarrow>
        LocationName (fst (Unmarshal_weatherData r (JSONText (JObject kvs)) weatherData_zero)) = [])
   \<and> (\<not> present (typeFields (weatherData_fields r)) 1 kvs \<longrightarrow>
        Weather (fst (Unmarshal_weatherData r (JSONText (JObject kvs)) weatherData_zero)) = [])
   \<and> (\<not> present (typeFields (weatherData_fields r)) 2 kvs \<longrightarrow>
        Temperature (fst (Unmarshal_weatherData r (JSONText (JObject kvs)) weatherData_zero)) = 0)
   \<and> (\<not> present (typeFields (weatherData_fields r)) 3 kvs \<longrightarrow>
        Celsius (fst (Unmarshal_weatherData r (JSONText (JObject kvs)) weatherData_zero)) = False)
   \<and> (\<not> present (typeFields (weatherData_fields r)) 4 kvs \<longrightarrow>
        TempForecast (fst (Unmarshal_weatherData r (JSONText (JObject kvs)) weatherData_zero)) = None)
   \<and> (\<not> present (typeFields (weatherData_fields r)) 5 kvs \<longrightarrow>
        Wind (fst (Unmarshal_weatherData r (JSONText (JObject kvs)) weatherData_zero)) = windData_zero)
   \<and> (\<not> present (typeFields (windData_fields r)) 0 kvs \<longrightarrow>
        Direction (fst (Unmarshal_windData r (JSONText (JObject kvs)) windData_zero)) = [])
   \<and> (\<not> present (typeFields (windData_fields r)) 1 kvs \<longrightarrow>
        Speed (fst (Unmarshal_windData r (JSONText (JObject kvs)) windData_zero)) = 0)
   \<and> (\<not> present (typeFields (loc_fields r)) 0 kvs \<longrightarrow>
        Lat (fst (Unmarshal_loc r (JSONText (JObject kvs)) loc_zero)) = F32 0)
   \<and> (\<not> present (typeFields (loc_fields r)) 1 kvs \<longrightarrow>
        Lon (fst (Unmarshal_loc r (JSONText (JObject kvs)) loc_zero)) = F32 0)"
proof -
  have sunny: "Unmarshal_weatherData r sunny weatherData_zero
      = (weatherData_zero\<lparr>Weather := ''sunny''\<rparr>, None)
    \<or> Unmarshal_weatherData r sunny weatherData_zero = (weatherData_zero, None)"
    by (cases r) (simp_all add: Unmarshal_sunny)
  have zero: "LocationName weatherData_zero = []" "Weather weatherData_zero = []"
    "Temperature weatherData_zero = 0" "Celsius weatherData_zero = False"
    "TempForecast weatherData_zero = None" "Wind weatherData_zero = windData_zero"
    "Direction windData_zero = []" "Speed windData_zero = 0"
    "Lat loc_zero = F32 0" "Lon loc_zero = F32 0"
    by (simp_all add: weatherData_zero_def windData_zero_def loc_zero_def)
  show ?thesis
  proof (intro conjI impI)
    show "decode sunny = (weatherData_zero, None)"
      by (simp add: decode_def Unmarshal_sunny)
    show "Unmarshal_weatherData Published sunny weatherData_zero
       = (weatherData_zero\<lparr>Weather := ''sunny''\<rparr>, None)"
      by (rule Unmarshal_sunny)
  qed (use sunny in \<open>auto simp: zero weatherData_missing windData_missing loc_missing
        Unmarshal_unknown\<close>)
qed

theorem missing_and_unknown_keys_witness:
  "findField (typeFields (weatherData_fields Published)) ''humidity'' = None
   \<and> findField (typeFields (windData_fields Published)) ''humidity'' = None
   \<and> findField (typeFields (loc_fields Published)) ''humidity'' = None
   \<and> \<not> present (typeFields (weatherData_fields Published)) 0 [(''pressure'', JBool True)]
   \<and> \<not> present (typeFields (weatherData_fields Published)) 1 [(''pressure'', JBool True)]
   \<and> \<not> present (typeFields (weatherData_fields Published)) 2 [(''pressure'', JBool True)]
   \<and> \<not> present (typeFields (weatherData_fields Published)) 3 [(''pressure'', JBool True)]
   \<and> \<not> present (typeFields (weatherData_fields Published)) 4 [(''pressure'', JBool True)]
   \<and> \<not> present (typeFields (weatherData_fields Published)) 5 [(''pressure'', JBool True)]
   \<and> \<not> present (typeFields (windData_fields Published)) 0 [(''pressure'', JBool True)]
   \<and> \<not> present (typeFields (windData_fields Published)) 1 [(''pressure'', JBool True)]
   \<and> \<not> present (typeFields (loc_fields Published)) 0 [(''pressure'', JBool True)]
   \<and> \<not> present (typeFields (loc_fields Published)) 1 [(''pressure'', JBool True)]
   \<and> Unmarshal_weatherData Published
        (JSONText (JObject [(''pressure'', JBool True), (''humidity'', JNumber (IntLit 40))]))
        weatherData_zero
      = Unmarshal_weatherData Published (JSONText (JObject [(''pressure'', JBool True)]))
        weatherData_zero
   \<and> LocationName (fst (Unmarshal_weatherData Published
        (JSONText (JObject [(''pressure'', JBool True)])) weatherData_zero)) = []
   \<and> TempForecast (fst (Unmarshal_weatherData Published
        (JSONText (JObject [(''pressure'', JBool True)])) weatherData_zero)) = None
   \<and> Wind (fst (Unmarshal_weatherData Published
        (JSONText (JObject [(''pressure'', JBool True)])) weatherData_zero)) = windData_zero
   \<and> Speed (fst (Unmarshal_windData Published
        (JSONText (JObject [(''pressure'', JBool True)])) windData_zero)) = 0
   \<and> Lon (fst (Unmarshal_loc Published
        (JSONText (JObject [(''pressure'', JBool True)])) loc_zero)) = F32 0"
  using missing_and_unknown_keys [of Published "''humidity''" "[(''pressure'', JBool True)]"
      "JNumber (IntLit 40)" "[]" weatherData_zero windData_zero loc_zero]
    humidity_unknown pressure_only
  by simp

text \<open>
  C7. Decoding a text that is no JSON text gives a syntax error, for the three structs and
  for \<^verbatim>\<open>decode\<close>; decoding \<^verbatim>\<open>{"lat": "not-a-number"}\<close> as a \<^verbatim>\<open>loc\<close> gives a type error
  in \<^verbatim>\<open>part_000\<close> and in the published \<^verbatim>\<open>json.go\<close>; and in every revision an object
  with a member that is stored into a field and does not fit its type gives an error. In
  the handler each of these is the fatal decoding error.
\<close>

theorem decode_rejects:
  "Unmarshal_loc r (OtherText s) l = (l, Some SyntaxError)
   \<and> Unmarshal_weatherData r (OtherText s) t = (t, Some SyntaxError)
   \<and> Unmarshal_windData r (OtherText s) d = (d, Some SyntaxError)
   \<and> decode (OtherText s) = (weatherData_zero, Some SyntaxError)
   \<and> weatherHandler marshal r w (req\<lparr>Body := Inr (OtherText s)\<rparr>) p
       = Exited 1 (p\<lparr>logged := logged p @ [LogError ''Decoding error: '' SyntaxError]\<rparr>)
   \<and> Unmarshal_loc Published notANumber loc_zero
       = (loc_zero, Some (UnmarshalTypeError ''string'' ''float32''))
   \<and> Unmarshal_loc Part000 notANumber loc_zero
       = (loc_zero, Some (UnmarshalTypeError ''string'' ''float32''))
   \<and> weatherHandler marshal Published w (req\<lparr>Body := Inr notANumber\<rparr>) p
       = Exited 1 (p\<lparr>logged := logged p
            @ [LogError ''Decoding error: '' (UnmarshalTypeError ''string'' ''float32'')]\<rparr>)
   \<and> weatherHandler marshal Part000 w (req\<lparr>Body := Inr notANumber\<rparr>) p
       = Exited 1 (p\<lparr>logged := logged p
            @ [LogError ''Decoding error: '' (UnmarshalTypeError ''string'' ''float32'')]\<rparr>)
   \<and> ((k, j) \<in> set kvs \<and> findField (typeFields (loc_fields r)) k = Some i \<and> \<not> fitsFloat32 j
        \<longrightarrow> snd (Unmarshal_loc r (JSONText (JObject kvs)) l) \<noteq> None)
   \<and> ((k', j') \<in> set kvs' \<and> findField (typeFields (weatherData_fields r)) k' = Some i'
          \<and> \<not> weatherData_fits r i' j'
        \<longrightarrow> snd (Unmarshal_weatherData r (JSONText (JObject kvs')) t) \<noteq> None)
   \<and> ((k'', j'') \<in> set kvs'' \<and> findField (typeFields (windData_fields r)) k'' = Some i''
          \<and> \<not> windData_fits i'' j''
        \<longrightarrow> snd (Unmarshal_windData r (JSONText (JObject kvs'')) d) \<noteq> None)
   \<and> (Body req = Inr jsn \<and> snd (Unmarshal_loc r jsn loc_zero) \<noteq> None
        \<longrightarrow> (\<exists>err. weatherHandler marshal r w req p
              = Exited 1 (p\<lparr>logged := logged p @ [LogError ''Decoding error: '' err]\<rparr>)))"
proof (intro conjI impI)
  show "weatherHandler marshal r w (req\<lparr>Body := Inr (OtherText s)\<rparr>) p
       = Exited 1 (p\<lparr>logged := logged p @ [LogError ''Decoding error: '' SyntaxError]\<rparr>)"
    by (rule weatherHandler_decode_error [where l = loc_zero and jsn = "OtherText s"])
      (simp_all add: Unmarshal_OtherText)
  show "weatherHandler marshal Published w (req\<lparr>Body := Inr notANumber\<rparr>) p
       = Exited 1 (p\<lparr>logged := logged p
            @ [LogError ''Decoding error: '' (UnmarshalTypeError ''string'' ''float32'')]\<rparr>)"
    by (rule weatherHandler_decode_error [where l = loc_zero and jsn = notANumber])
      (simp_all add: Unmarshal_loc_notANumber)
  show "weatherHandler marshal Part000 w (req\<lparr>Body := Inr notANumber\<rparr>) p
       = Exited 1 (p\<lparr>logged := logged p
            @ [LogError ''Decoding error: '' (UnmarshalTypeError ''string'' ''float32'')]\<rparr>)"
    by (rule weatherHandler_decode_error [where l = loc_zero and jsn = notANumber])
      (simp_all add: Unmarshal_loc_notANumber)
next
  assume "Body req = Inr jsn \<and> snd (Unmarshal_loc r jsn loc_zero) \<noteq> None"
  then obtain l' err where "Body req = Inr jsn" "Unmarshal_loc r jsn loc_zero = (l', Some err)"
    by (cases "Unmarshal_loc r jsn loc_zero") auto
  then have "weatherHandler marshal r w req p
       = Exited 1 (p\<lparr>logged := logged p @ [LogError ''Decoding error: '' err]\<rparr>)"
    by (rule weatherHandler_decode_error)
  then show "\<exists>err. weatherHandler marshal r w req p
       = Exited 1 (p\<lparr>logged := logged p @ [LogError ''Decoding error: '' err]\<rparr>)" ..
next
  assume "(k, j) \<in> set kvs \<and> findField (typeFields (loc_fields r)) k = Some i
    \<and> \<not> fitsFloat32 j"
  then show "snd (Unmarshal_loc r (JSONText (JObject kvs)) l) \<noteq> None"
    using Unmarshal_error(1) by blast
next
  assume "(k', j') \<in> set kvs' \<and> findField (typeFields (weatherData_fields r)) k' = Some i'
    \<and> \<not> weatherData_fits r i' j'"
  then show "snd (Unmarshal_weatherData r (JSONText (JObject kvs')) t) \<noteq> None"
    using Unmarshal_error(2) by blast
next
  assume "(k'', j'') \<in> set kvs'' \<and> findField (typeFields (windData_fields r)) k'' = Some i''
    \<and> \<not> windData_fits i'' j''"
  then show "snd (Unmarshal_windData r (JSONText (JObject kvs'')) d) \<noteq> None"
    using Unmarshal_error(3) by blast
qed (simp_all add: Unmarshal_OtherText Unmarshal_loc_notANumber)

theorem decode_rejects_witness:
  "(''lat'', JString ''not-a-number'') \<in> set [(''lat'', JString ''not-a-number'')]
   \<and> findField (typeFields (loc_fields Published)) ''lat'' = Some 0
   \<and> \<not> fitsFloat32 (JString ''not-a-number'')
   \<and> (''temperature'', JNumber (DecLit 315 (- 1)))
        \<in> set [(''temperature'', JNumber (DecLit 315 (- 1)))]
   \<and> findField (typeFields (weatherData_fields Published)) ''temperature'' = Some 2
   \<and> \<not> weatherData_fits Published 2 (JNumber (DecLit 315 (- 1)))
   \<and> (''speed'', JString ''fast'') \<in> set [(''speed'', JString ''fast'')]
   \<and> findField (typeFields (windData_fields Published)) ''speed'' = Some 1
   \<and> \<not> windData_fits 1 (JString ''fast'')
   \<and> Body (postRequest\<lparr>Body := Inr notANumber\<rparr>) = Inr notANumber
   \<and> snd (Unmarshal_loc Published notANumber loc_zero) \<noteq> None
   \<and> snd (Unmarshal_loc Published (JSONText (JObject [(''lat'', JString ''not-a-number'')]))
        loc_zero) \<noteq> None
   \<and> snd (Unmarshal_weatherData Published
        (JSONText (JObject [(''temperature'', JNumber (DecLit 315 (- 1)))])) weatherData_zero)
        \<noteq> None
   \<and> snd (Unmarshal_windData Published (JSONText (JObject [(''speed'', JString ''fast'')]))
        windData_zero) \<noteq> None
   \<and> (\<exists>err. weatherHandler (Marshal_weatherData Published) Published newResponseWriter
          (postRequest\<lparr>Body := Inr notANumber\<rparr>) proc_start
        = Exited 1 (proc_start\<lparr>logged := logged proc_start
            @ [LogError ''Decoding error: '' err]\<rparr>))"
proof -
  have m: "(''lat'', JString ''not-a-number'') \<in> set [(''lat'', JString ''not-a-number'')]"
    "(''temperature'', JNumber (DecLit 315 (- 1)))
        \<in> set [(''temperature'', JNumber (DecLit 315 (- 1)))]"
    "(''speed'', JString ''fast'') \<in> set [(''speed'', JString ''fast'')]"
    by simp_all
  have b: "Body (postRequest\<lparr>Body := Inr notANumber\<rparr>) = Inr notANumber"
    by simp
  have u: "snd (Unmarshal_loc Published notANumber loc_zero) \<noteq> None"
    by (simp add: Unmarshal_loc_notANumber)
  show ?thesis
    using decode_rejects [of Published "[]" loc_zero weatherData_zero windData_zero
        "Marshal_weatherData Published" newResponseWriter
        "postRequest\<lparr>Body := Inr notANumber\<rparr>" proc_start
        "''lat''" "JString ''not-a-number''" "[(''lat'', JString ''not-a-number'')]" 0
        "''temperature''" "JNumber (DecLit 315 (- 1))"
        "[(''temperature'', JNumber (DecLit 315 (- 1)))]" 2
        "''speed''" "JString ''fast''" "[(''speed'', JString ''fast'')]" 1 notANumber]
      witness_members m b u
    by blast
qed

text \<open>
  C8. The claim: a key that differs from the name of a field only in case does not
  populate the field, as for \<^verbatim>\<open>{"LAT": 35.14326}\<close>. It fails: decoding that text sets the
  latitude, and \<^verbatim>\<open>{"WEATHER": "sunny"}\<close> sets the weather.
\<close>

theorem upper_case_key_counterexample:
  "Unmarshal_loc Published upperLAT loc_zero
     = (\<lparr>Lat = float32_of (DecLit 3514326 (- 5)), Lon = F32 0\<rparr>, None)
   \<and> float32_of (DecLit 3514326 (- 5)) \<noteq> Lat loc_zero
   \<and> Unmarshal_weatherData Published (JSONText (JObject [(''WEATHER'', JString ''sunny'')]))
        weatherData_zero
     = (weatherData_zero\<lparr>Weather := ''sunny''\<rparr>, None)"
proof (intro conjI)
  show "Unmarshal_loc Published upperLAT loc_zero
     = (\<lparr>Lat = float32_of (DecLit 3514326 (- 5)), Lon = F32 0\<rparr>, None)"
    by (simp add: Unmarshal_loc_upperLAT float32_of_client)
  show "float32_of (DecLit 3514326 (- 5)) \<noteq> Lat loc_zero"
    by (simp add: float32_of_client loc_zero_def)
  show "Unmarshal_weatherData Published (JSONText (JObject [(''WEATHER'', JString ''sunny'')]))
        weatherData_zero
     = (weatherData_zero\<lparr>Weather := ''sunny''\<rparr>, None)"
    by (simp add: Unmarshal_object findField_weatherData equalFold_examples
        weatherData_store_def decodeString_def firstError_def)
qed

text \<open>
  C8, as amended. The mapping is fixed but not case-sensitive: in \<^verbatim>\<open>part_000\<close> and in the
  published \<^verbatim>\<open>json.go\<close> a member is stored into the latitude when its key equals \<^verbatim>\<open>lat\<close>
  under case folding, into the longitude when it equals \<^verbatim>\<open>lon\<close>, and into no field of a
  \<^verbatim>\<open>loc\<close> otherwise; likewise for \<^verbatim>\<open>direction\<close> and \<^verbatim>\<open>speed\<close>; and it is stored into
  the field of \<^verbatim>\<open>locationName\<close>, \<^verbatim>\<open>weather\<close>, \<^verbatim>\<open>temperature\<close>, \<^verbatim>\<open>celsius\<close> or \<^verbatim>\<open>wind\<close>
  exactly when its key equals that name under case folding. So \<^verbatim>\<open>LAT\<close>, \<^verbatim>\<open>lat\<close> and
  \<^verbatim>\<open>Lat\<close> all populate the latitude.
\<close>

theorem keys_match_under_case_folding:
  "findField (typeFields (loc_fields Published)) k =
     (if equalFold ''lat'' k then Some 0 else if equalFold ''lon'' k then Some 1 else None)
   \<and> findField (typeFields (loc_fields Part000)) k =
     (if equalFold ''lat'' k then Some 0 else if equalFold ''lon'' k then Some 1 else None)
   \<and> findField (typeFields (windData_fields Published)) k =
     (if equalFold ''direction'' k then Some 0 else if equalFold ''speed'' k then Some 1 else None)
   \<and> findField (typeFields (windData_fields Part000)) k =
     (if equalFold ''direction'' k then Some 0 else if equalFold ''speed'' k then Some 1 else None)
   \<and> (findField (typeFields (weatherData_fields Published)) k = Some 0)
       = equalFold ''locationName'' k
   \<and> (findField (typeFields (weatherData_fields Published)) k = Some 1)
       = equalFold ''weather'' k
   \<and> (findField (typeFields (weatherData_fields Published)) k = Some 2)
       = equalFold ''temperature'' k
   \<and> (findField (typeFields (weatherData_fields Published)) k = Some 3)
       = equalFold ''celsius'' k
   \<and> (findField (typeFields (weatherData_fields Published)) k = Some 5)
       = equalFold ''wind'' k
   \<and> (findField (typeFields (weatherData_fields Part000)) k = Some 0)
       = equalFold ''locationName'' k
   \<and> (findField (typeFields (weatherData_fields Part000)) k = Some 1)
       = equalFold ''weather'' k
   \<and> (findField (typeFields (weatherData_fields Part000)) k = Some 2)
       = equalFold ''temperature'' k
   \<and> (findField (typeFields (weatherData_fields Part000)) k = Some 3)
       = equalFold ''celsius'' k
   \<and> (findField (typeFields (weatherData_fields Part000)) k = Some 5)
       = equalFold ''wind'' k
   \<and> equalFold ''lat'' ''LAT'' \<and> equalFold ''lat'' ''lat'' \<and> equalFold ''lat'' ''Lat''
   \<and> Lat (fst (Unmarshal_loc Published upperLAT loc_zero)) = float32_of (DecLit 3514326 (- 5))
   \<and> Lat (fst (Unmarshal_loc Published
              (JSONText (JObject [(''lat'', JNumber (DecLit 3514326 (- 5)))])) loc_zero))
       = float32_of (DecLit 3514326 (- 5))"
proof -
  have w: "findField (typeFields (weatherData_fields r)) k = Some 0
             \<longleftrightarrow> equalFold ''locationName'' k"
    "findField (typeFields (weatherData_fields r)) k = Some 1 \<longleftrightarrow> equalFold ''weather'' k"
    "findField (typeFields (weatherData_fields r)) k = Some 2 \<longleftrightarrow> equalFold ''temperature'' k"
    "findField (typeFields (weatherData_fields r)) k = Some 3 \<longleftrightarrow> equalFold ''celsius'' k"
    "findField (typeFields (weatherData_fields r)) k = Some 5 \<longleftrightarrow> equalFold ''wind'' k"
    if "r \<noteq> Draft" for r
    using that weatherData_names_apart [of k]
    by (auto simp: findField_weatherData equalFold_wire)
  have l: "Lat (fst (Unmarshal_loc Published
              (JSONText (JObject [(''lat'', JNumber (DecLit 3514326 (- 5)))])) loc_zero))
       = float32_of (DecLit 3514326 (- 5))"
    by (simp add: Unmarshal_object findField_loc equalFold_examples loc_store_def
        decodeFloat32_def ParseFloat32_client firstError_def loc_zero_def float32_of_client)
  show ?thesis
    using w [of Published] w [of Part000] l
    by (simp add: findField_loc findField_windData equalFold_wire equalFold_examples
        equalFold_windData_loc Unmarshal_loc_upperLAT float32_of_client)
qed

text \<open>
  C9. The claim: without a first argument, or with one that is neither \<^verbatim>\<open>server\<close> nor
  \<^verbatim>\<open>client\<close>, the program prints the usage and exits with a status that is not zero,
  and starts no listener. It fails for \<^verbatim>\<open>main\<close> of the published \<^verbatim>\<open>json.go\<close>, which does
  not read its arguments: it starts the server and runs the client, prints no usage, and
  exits with status 0 when the client is answered.
\<close>

theorem main_ignores_arguments_counterexample:
  "main fmt_client [''json'']
       \<lparr>bound = True, incoming = [], roundTrip = fails ''connection refused''\<rparr> proc_start
     = Exited 1 (proc_start\<lparr>logged := [LogText ''connection refused''],
         spawned := [''server''],
         requested := [\<lparr>Method = ''POST'', URL = ''http://localhost:8080'',
              ReqHeader = [(''Content-Type'', ''application/json'')],
              Body = Inr (JSONText (JObject [(''Lat'', JNumber (DecLit 3514326 (- 5))),
                (''Lon'', JNumber (DecLit (- 116104) (- 3)))]))\<rparr>]\<rparr>)
   \<and> main fmt_client [''json'', ''bogus'']
       \<lparr>bound = True, incoming = [], roundTrip = answers weatherResponse\<rparr> proc_start
     = Exited 0 (proc_start\<lparr>stdout := [PrintBytes ''Response: '' [weatherJSON]],
         spawned := [''server''],
         requested := [\<lparr>Method = ''POST'', URL = ''http://localhost:8080'',
              ReqHeader = [(''Content-Type'', ''application/json'')],
              Body = Inr (JSONText (JObject [(''Lat'', JNumber (DecLit 3514326 (- 5))),
                (''Lon'', JNumber (DecLit (- 116104) (- 3)))]))\<rparr>]\<rparr>)"
  by (simp add: main_def client_def client_Marshal fails_def answers_def Fatal_def
      exitOnReturn_def proc_start_def weatherResponse_def Let_def)

text \<open>
  C9, as amended. \<^verbatim>\<open>main\<close> of \<^verbatim>\<open>part_000\<close>: without a first argument, or with one that is
  neither \<^verbatim>\<open>server\<close> nor \<^verbatim>\<open>client\<close>, it prints the usage and exits with status 1, and has
  registered no handler, listened on no address and sent no request; with \<^verbatim>\<open>server\<close> it
  runs the server and with \<^verbatim>\<open>client\<close> the client. \<^verbatim>\<open>main\<close> of the published \<^verbatim>\<open>json.go\<close>
  starts the server as a goroutine and runs the client, whatever its arguments.
\<close>

theorem main_usage:
  "main_part000 fmt [] e p = Exited 1 (p\<lparr>stdout := stdout p @ [Println usage]\<rparr>)
   \<and> main_part000 fmt [a0] e p = Exited 1 (p\<lparr>stdout := stdout p @ [Println usage]\<rparr>)
   \<and> (a1 \<noteq> ''server'' \<and> a1 \<noteq> ''client'' \<longrightarrow>
        main_part000 fmt (a0 # a1 # rest) e p
          = Exited 1 (p\<lparr>stdout := stdout p @ [Println usage]\<rparr>))
   \<and> listening (p\<lparr>stdout := stdout p @ [Println usage]\<rparr>) = listening p
   \<and> patterns (p\<lparr>stdout := stdout p @ [Println usage]\<rparr>) = patterns p
   \<and> requested (p\<lparr>stdout := stdout p @ [Println usage]\<rparr>) = requested p
   \<and> main_part000 fmt (a0 # ''server'' # rest) e p = exitOnReturn (server Part000 e p)
   \<and> main_part000 fmt (a0 # ''client'' # rest) e p = exitOnReturn (client fmt Part000 e p)
   \<and> main fmt args e p
       = exitOnReturn (client fmt Published e (p\<lparr>spawned := spawned p @ [''server'']\<rparr>))"
  by (simp add: main_part000_def main_def)

theorem main_usage_witness:
  "''bogus'' \<noteq> ''server'' \<and> ''bogus'' \<noteq> ''client''
   \<and> main_part000 fmt_client [''json'', ''bogus'']
        \<lparr>bound = True, incoming = [], roundTrip = fails ''connection refused''\<rparr> proc_start
      = Exited 1 (proc_start\<lparr>stdout := [Println usage]\<rparr>)"
  using main_usage [where ?a1.0 = "''bogus''" and ?a0.0 = "''json''" and rest = "[]"
      and fmt = fmt_client and p = proc_start
      and e = "\<lparr>bound = True, incoming = [], roundTrip = fails ''connection refused''\<rparr>"]
  by (simp add: proc_start_def)

text \<open>
  C10. The handler reads neither the method nor the path of the request: its outcome is
  the same for every method and every path. The pattern \<^verbatim>\<open>/\<close> it is registered for
  matches every path, and a \<^verbatim>\<open>GET\<close> request for another path with a location as its body
  gets the weather response, from the handler and from the server.
\<close>

theorem handler_ignores_method_and_path:
  "weatherHandler marshal r w (req\<lparr>Method := m, URL := u\<rparr>) p = weatherHandler marshal r w req p
   \<and> pathMatch ''/'' (CHR ''/'' # path)
   \<and> (\<exists>w' p'. weatherHandler (Marshal_weatherData Published) Published newResponseWriter
          getRequest proc_start = Returned w' p'
        \<and> finishRequest w' = weatherResponse)
   \<and> (\<exists>p'. server Published \<lparr>bound = True, incoming = [getRequest], roundTrip = rt\<rparr> proc_start
           = Blocked p' \<and> served p' = [weatherResponse])"
proof (intro conjI)
  show "weatherHandler marshal r w (req\<lparr>Method := m, URL := u\<rparr>) p
      = weatherHandler marshal r w req p"
    by (simp add: weatherHandler_def)
  show "pathMatch ''/'' (CHR ''/'' # path)"
    by (rule pathMatch_root)
  show "\<exists>w' p'. weatherHandler (Marshal_weatherData Published) Published newResponseWriter
          getRequest proc_start = Returned w' p'
        \<and> finishRequest w' = weatherResponse"
    by (rule weatherHandler_weather [where jsn = zzyzx])
      (simp_all add: getRequest_def Unmarshal_loc_zzyzx_ok)
  show "\<exists>p'. server Published \<lparr>bound = True, incoming = [getRequest], roundTrip = rt\<rparr> proc_start
           = Blocked p' \<and> served p' = [weatherResponse]"
    by (rule server_one [where jsn = zzyzx and path = "''weather/today''"])
      (simp_all add: getRequest_def Unmarshal_loc_zzyzx_ok)
qed

end
